theory Spec2Isabelle
  imports Complex_Main "HOL-Library.Word"
begin

unbundle bit_operations_syntax

section \<open>Common JavaScript notions\<close>

text \<open>
  A JavaScript string is a sequence of 16-bit code units.  Identifiers, paths and
  log lines that the code only compares or concatenates are kept as HOL strings.
\<close>

type_synonym jsstring = "16 word list"

definition ascii :: "string \<Rightarrow> jsstring" where
  "ascii s = map of_char s"

text \<open>Decimal rendering of a non-negative integer, as a template literal prints it.\<close>

function show_nat :: "nat \<Rightarrow> string" where
  "show_nat n =
     (if n < 10 then [char_of (48 + n)]
      else show_nat (n div 10) @ [char_of (48 + n mod 10)])"
  by pat_completeness auto
termination
  by (relation "measure (\<lambda>n. n)") auto

declare show_nat.simps [simp del]

definition show_int :: "int \<Rightarrow> string" where
  "show_int i = (if i < 0 then CHR ''-'' # show_nat (nat (- i)) else show_nat (nat i))"

text \<open>\<open>Array.prototype.findIndex\<close>: the first index whose element satisfies the
  predicate, or \<open>-1\<close>.\<close>

fun findIndex :: "('a \<Rightarrow> bool) \<Rightarrow> 'a list \<Rightarrow> int" where
  "findIndex P [] = - 1"
| "findIndex P (x # xs) =
     (if P x then 0 else (let r = findIndex P xs in if r = - 1 then - 1 else r + 1))"

section \<open>Source-control history graph (\<open>scmHistory.ts\<close>)\<close>

definition SWIMLANE_HEIGHT :: int where "SWIMLANE_HEIGHT = 22"
definition SWIMLANE_WIDTH :: int where "SWIMLANE_WIDTH = 11"
definition CIRCLE_RADIUS :: int where "CIRCLE_RADIUS = 4"

definition graphColors :: "string list" where
  "graphColors = [''#007ACC'', ''#BC3FBC'', ''#BF8803'', ''#CC6633'', ''#F14C4C'', ''#16825D'']"

text \<open>\<open>graphColors[i]\<close> put into a template or an attribute: an index outside the
  palette reads \<open>undefined\<close>.\<close>

definition graphColor :: "int \<Rightarrow> string" where
  "graphColor i =
     (if 0 \<le> i \<and> i < int (length graphColors) then graphColors ! nat i else ''undefined'')"

record ISCMHistoryItem =
  item_id :: string
  parentIds :: "string list"

record ISCMHistoryItemGraphNode2 =
  node_id :: string
  color :: int

record ISCMHistoryItemViewModel =
  historyItem :: ISCMHistoryItem
  inputSwimlanes :: "ISCMHistoryItemGraphNode2 list"
  outputSwimlanes :: "ISCMHistoryItemGraphNode2 list"

subsection \<open>The controller\<close>

record SCMRepositoryGraphController =
  historyItems :: "ISCMHistoryItemViewModel list"
  colorIndex :: int

definition newController :: SCMRepositoryGraphController where
  "newController = \<lparr>historyItems = [], colorIndex = - 1\<rparr>"

definition getGraphColorIndex ::
  "SCMRepositoryGraphController \<Rightarrow> int \<times> SCMRepositoryGraphController" where
  "getGraphColorIndex c =
     (let i = (if colorIndex c < int (length graphColors) - 1 then colorIndex c + 1 else 1)
      in (i, c\<lparr>colorIndex := i\<rparr>))"

definition clearHistoryItems :: "SCMRepositoryGraphController \<Rightarrow> SCMRepositoryGraphController" where
  "clearHistoryItems c = c\<lparr>colorIndex := - 1, historyItems := []\<rparr>"

text \<open>The first loop of \<open>appendHistoryItems\<close>: the accumulator is the output built
  so far and the flag \<open>firstParentAdded\<close>.\<close>

fun addFirstParent ::
  "ISCMHistoryItem \<Rightarrow> ISCMHistoryItemGraphNode2 list \<Rightarrow>
   ISCMHistoryItemGraphNode2 list \<times> bool \<Rightarrow> ISCMHistoryItemGraphNode2 list \<times> bool" where
  "addFirstParent h [] acc = acc"
| "addFirstParent h (n # ns) (out, firstParentAdded) =
     (if node_id n = item_id h then
        (if \<not> firstParentAdded
         then addFirstParent h ns (out @ [n\<lparr>node_id := hd (parentIds h)\<rparr>], True)
         else addFirstParent h ns (out, firstParentAdded))
      else addFirstParent h ns (out @ [n], firstParentAdded))"

text \<open>The second loop: every remaining parent gets a new lane and a newly allocated
  colour.\<close>

fun addParents ::
  "string list \<Rightarrow> ISCMHistoryItemGraphNode2 list \<times> SCMRepositoryGraphController \<Rightarrow>
   ISCMHistoryItemGraphNode2 list \<times> SCMRepositoryGraphController" where
  "addParents [] acc = acc"
| "addParents (p # ps) (out, c) =
     (let (i, c') = getGraphColorIndex c
      in addParents ps (out @ [\<lparr>node_id = p, color = i\<rparr>], c'))"

definition appendHistoryItem ::
  "ISCMHistoryItem \<Rightarrow> SCMRepositoryGraphController \<Rightarrow> SCMRepositoryGraphController" where
  "appendHistoryItem h c =
     (let outputSwimlanesFromPreviousItem =
            (case historyItems c of [] \<Rightarrow> [] | _ \<Rightarrow> outputSwimlanes (last (historyItems c)));
          inp = outputSwimlanesFromPreviousItem;
          (out, c') =
            (if length (parentIds h) > 0 then
               (let (out1, firstParentAdded) = addFirstParent h inp ([], False)
                in addParents (drop (if firstParentAdded then 1 else 0) (parentIds h)) (out1, c))
             else ([], c))
      in c'\<lparr>historyItems := historyItems c' @
            [\<lparr>historyItem = h, inputSwimlanes = inp, outputSwimlanes = out\<rparr>]\<rparr>)"

fun appendHistoryItems ::
  "ISCMHistoryItem list \<Rightarrow> SCMRepositoryGraphController \<Rightarrow> SCMRepositoryGraphController" where
  "appendHistoryItems [] c = c"
| "appendHistoryItems (h # hs) c = appendHistoryItems hs (appendHistoryItem h c)"

text \<open>\<open>n\<close> successive calls of the allocator, with the indices they return.\<close>

fun allocate :: "nat \<Rightarrow> SCMRepositoryGraphController \<Rightarrow> int list" where
  "allocate 0 c = []"
| "allocate (Suc n) c = (let (i, c') = getGraphColorIndex c in i # allocate n c')"

subsection \<open>Rendering one row\<close>

datatype js_error = TypeError | Error string

text \<open>An SVG child element: its tag and its attributes in the order they are set.\<close>

datatype element = Element (tag: string) (attributes: "(string \<times> string) list")

record SVGElement =
  classList :: "string list"
  children :: "element list"
  style_height :: string
  style_width :: string

text \<open>\<open>Array.prototype.join\<close> with a separator.\<close>

fun join :: "string \<Rightarrow> string list \<Rightarrow> string" where
  "join sep [] = []"
| "join sep [x] = x"
| "join sep (x # y # ys) = x @ sep @ join sep (y # ys)"

definition createPath :: "string \<Rightarrow> element" where
  "createPath stroke =
     Element ''path'' [(''fill'', ''none''), (''stroke'', stroke), (''stroke-width'', ''1px''),
       (''stroke-linecap'', ''round'')]"

definition setAttribute :: "element \<Rightarrow> string \<Rightarrow> string \<Rightarrow> element" where
  "setAttribute e k v = Element (tag e) (attributes e @ [(k, v)])"

definition drawCircle :: "int \<Rightarrow> int \<Rightarrow> string \<Rightarrow> string \<Rightarrow> element" where
  "drawCircle index radius stroke fill =
     Element ''circle'' [(''cx'', show_int (SWIMLANE_WIDTH * (index + 1))),
       (''cy'', show_int SWIMLANE_WIDTH), (''r'', show_int radius), (''fill'', fill),
       (''stroke'', stroke)]"

definition drawVerticalLine :: "int \<Rightarrow> int \<Rightarrow> int \<Rightarrow> string \<Rightarrow> element" where
  "drawVerticalLine x1 y1 y2 col =
     setAttribute (createPath col) ''d''
       (''M '' @ show_int x1 @ '' '' @ show_int y1 @ '' V '' @ show_int y2)"

text \<open>\<open>findLastIndex\<close> scans from the last index down to 0.\<close>

fun findLastIndex_from :: "ISCMHistoryItemGraphNode2 list \<Rightarrow> string \<Rightarrow> nat \<Rightarrow> int" where
  "findLastIndex_from nodes ident 0 = - 1"
| "findLastIndex_from nodes ident (Suc i) =
     (if node_id (nodes ! i) = ident then int i else findLastIndex_from nodes ident i)"

definition findLastIndex :: "ISCMHistoryItemGraphNode2 list \<Rightarrow> string \<Rightarrow> int" where
  "findLastIndex nodes ident = findLastIndex_from nodes ident (length nodes)"

text \<open>One round of the loop over the input swimlanes (\<open>index < length inp\<close>): the
  elements it appends.  \<open>SWIMLANE_HEIGHT / 2\<close> is exactly 11.\<close>

definition inputLane ::
  "ISCMHistoryItem \<Rightarrow> ISCMHistoryItemGraphNode2 list \<Rightarrow> ISCMHistoryItemGraphNode2 list \<Rightarrow>
   int \<Rightarrow> nat \<Rightarrow> element list" where
  "inputLane h inp out circleIndex index =
     (let node = inp ! index;
          col = graphColor (color (inp ! index))
      in if node_id node \<noteq> item_id h then
           (if index < length out \<and> node_id node = node_id (out ! index) then
              [drawVerticalLine (SWIMLANE_WIDTH * (int index + 1)) 0 SWIMLANE_HEIGHT col]
            else
              [setAttribute (createPath col) ''d'' (join '' ''
                 [''M '' @ show_int (SWIMLANE_WIDTH * (int index + 1)) @ '' 0'',
                  ''A '' @ show_int SWIMLANE_WIDTH @ '' '' @ show_int SWIMLANE_WIDTH @ '' 0 0 1 ''
                    @ show_int (SWIMLANE_WIDTH * int index) @ '' ''
                    @ show_int (SWIMLANE_HEIGHT div 2),
                  ''H '' @ show_int (SWIMLANE_WIDTH * (findLastIndex out (node_id node) + 1)),
                  ''V '' @ show_int SWIMLANE_HEIGHT])])
         else if int index \<noteq> circleIndex then
           [setAttribute (createPath col) ''d'' (join '' ''
              [''M '' @ show_int (SWIMLANE_WIDTH * (int index + 1)) @ '' 0'',
               ''A '' @ show_int SWIMLANE_WIDTH @ '' '' @ show_int SWIMLANE_WIDTH @ '' 0 0 1 ''
                 @ show_int (SWIMLANE_WIDTH * int index) @ '' '' @ show_int SWIMLANE_WIDTH,
               ''H '' @ show_int (SWIMLANE_WIDTH * (circleIndex + 1))])]
         else [])"

text \<open>One round of the loop over the parents after the first (\<open>1 \<le> i\<close>).\<close>

definition remainingParent ::
  "ISCMHistoryItem \<Rightarrow> ISCMHistoryItemGraphNode2 list \<Rightarrow> int \<Rightarrow> nat \<Rightarrow> element list" where
  "remainingParent h out circleIndex i =
     (let parentOutputIndex = findIndex (\<lambda>node. node_id node = parentIds h ! i) out
      in if parentOutputIndex = - 1 then []
         else
           [setAttribute (createPath (graphColor (color (out ! nat parentOutputIndex)))) ''d''
              (join '' ''
                [''M '' @ show_int (SWIMLANE_WIDTH * parentOutputIndex) @ '' ''
                   @ show_int (SWIMLANE_HEIGHT div 2),
                 ''A '' @ show_int SWIMLANE_WIDTH @ '' '' @ show_int SWIMLANE_WIDTH @ '' 0 0 1 ''
                   @ show_int (SWIMLANE_WIDTH * (parentOutputIndex + 1)) @ '' ''
                   @ show_int SWIMLANE_HEIGHT,
                 ''M '' @ show_int (SWIMLANE_WIDTH * parentOutputIndex) @ '' ''
                   @ show_int (SWIMLANE_HEIGHT div 2),
                 ''H '' @ show_int (SWIMLANE_WIDTH * (circleIndex + 1)) @ '' ''])])"

text \<open>The node: one circle for exactly one parent, two circles otherwise.\<close>

definition drawNode :: "ISCMHistoryItem \<Rightarrow> int \<Rightarrow> int \<Rightarrow> element list" where
  "drawNode h circleIndex circleColorIndex =
     (if length (parentIds h) = 1 then
        [drawCircle circleIndex CIRCLE_RADIUS ''#f8f8f8'' (graphColor circleColorIndex)]
      else
        [drawCircle circleIndex (CIRCLE_RADIUS + 1) ''#f8f8f8'' (graphColor circleColorIndex),
         drawCircle circleIndex (CIRCLE_RADIUS - 1) ''#f8f8f8'' (graphColor circleColorIndex)])"

text \<open>
  \<open>renderSCMHistoryItemGraph\<close>.  Reading \<open>outputSwimlanes[circleIndex].color\<close> when the
  output has no lane at that index is a \<open>TypeError\<close>, thrown before any element is
  appended.
\<close>

definition renderSCMHistoryItemGraph :: "ISCMHistoryItemViewModel \<Rightarrow> js_error + SVGElement" where
  "renderSCMHistoryItemGraph vm =
     (let h = historyItem vm;
          inp = inputSwimlanes vm;
          out = outputSwimlanes vm;
          inputIndex = findIndex (\<lambda>node. node_id node = item_id h) inp;
          outputIndex = (if length (parentIds h) = 0 then - 1
                         else findIndex (\<lambda>node. node_id node = parentIds h ! 0) out);
          circleIndex = (if inputIndex \<noteq> - 1 then inputIndex else int (length inp))
      in if inputIndex = - 1 \<and> \<not> circleIndex < int (length out) then Inl TypeError
         else
           (let circleColorIndex = (if inputIndex \<noteq> - 1 then color (inp ! nat inputIndex)
                                    else color (out ! nat circleIndex))
            in Inr \<lparr>classList = [''graph''],
                 children =
                   concat (map (inputLane h inp out circleIndex) [0 ..< length inp])
                   @ concat (map (remainingParent h out circleIndex) [1 ..< length (parentIds h)])
                   @ (if inputIndex \<noteq> - 1 then
                        [drawVerticalLine (SWIMLANE_WIDTH * (circleIndex + 1)) 0
                           (SWIMLANE_HEIGHT div 2) (graphColor circleColorIndex)]
                      else [])
                   @ (if outputIndex \<noteq> - 1 then
                        [drawVerticalLine (SWIMLANE_WIDTH * (circleIndex + 1))
                           (SWIMLANE_HEIGHT div 2) SWIMLANE_HEIGHT (graphColor circleColorIndex)]
                      else [])
                   @ drawNode h circleIndex circleColorIndex,
                 style_height = show_int SWIMLANE_HEIGHT @ ''px'',
                 style_width =
                   show_int (SWIMLANE_WIDTH * (int (max (length inp) (length out)) + 1)) @ ''px''\<rparr>))"

text \<open>The circle elements of a rendered row, in document order.\<close>

definition circles :: "SVGElement \<Rightarrow> element list" where
  "circles svg = filter (\<lambda>e. tag e = ''circle'') (children svg)"

section \<open>Localization formatter (\<open>nls.ts\<close>)\<close>

text \<open>
  An argument of \<open>localize\<close>.  A number stands for itself through the text \<open>String\<close>
  gives for it (the rendering of floating-point numbers is not modelled); \<open>Other\<close> is any
  value whose \<open>typeof\<close> is none of string, number, boolean, undefined, and which is not
  \<open>null\<close>.
\<close>

datatype js_arg = Str jsstring | Num jsstring | Bool bool | Undefined | Null | Other

definition String_js :: "js_arg \<Rightarrow> jsstring" where
  "String_js a =
     (case a of
        Str s \<Rightarrow> s
      | Num s \<Rightarrow> s
      | Bool b \<Rightarrow> ascii (if b then ''true'' else ''false'')
      | Undefined \<Rightarrow> ascii ''undefined''
      | Null \<Rightarrow> ascii ''null''
      | Other \<Rightarrow> ascii ''[object Object]'')"

definition isDigit :: "16 word \<Rightarrow> bool" where
  "isDigit c = (0x30 \<le> c \<and> c \<le> 0x39)"

text \<open>
  \<open>message.replace(/\{(\d+)\}/g, callback)\<close>: scanning from the left, every \<open>{\<close> followed
  by one or more digits and \<open>}\<close> is replaced by \<open>callback match digits\<close>; the scan goes on
  behind the match, and the replacement is not scanned again.
\<close>

function replacePlaceholders :: "(jsstring \<Rightarrow> jsstring \<Rightarrow> jsstring) \<Rightarrow> jsstring \<Rightarrow> jsstring" where
  "replacePlaceholders callback [] = []"
| "replacePlaceholders callback (c # cs) =
     (if c = 0x7B then
        (let digits = takeWhile isDigit cs;
             rest = dropWhile isDigit cs
         in if digits \<noteq> [] \<and> rest \<noteq> [] \<and> hd rest = 0x7D
            then callback (c # digits @ [0x7D]) digits @ replacePlaceholders callback (tl rest)
            else c # replacePlaceholders callback cs)
      else c # replacePlaceholders callback cs)"
  by pat_completeness auto
termination
proof (relation "measure (\<lambda>(callback, s). length s)")
  show "wf (measure (\<lambda>(callback, s). length s))" by simp
next
  fix callback :: "jsstring \<Rightarrow> jsstring \<Rightarrow> jsstring" and c :: "16 word" and cs x xa
  assume "xa = dropWhile isDigit cs"
  moreover have "length (tl (dropWhile isDigit cs)) \<le> length cs"
    using length_dropWhile_le [of isDigit cs] by simp
  ultimately show "((callback, tl xa), callback, c # cs) \<in> measure (\<lambda>(callback, s). length s)"
    by simp
qed simp_all

text \<open>
  The callback of \<open>_format\<close>.  \<open>rest\<close> is the captured digit string and \<open>rest[0]\<close> its
  first character, so \<open>args[index]\<close> reads the argument at that one digit; an index past
  the end of \<open>args\<close> reads \<open>undefined\<close>.
\<close>

definition formatCallback :: "js_arg list \<Rightarrow> jsstring \<Rightarrow> jsstring \<Rightarrow> jsstring" where
  "formatCallback args match rest =
     (let index = unat (hd rest) - 48;
          arg = (if index < length args then args ! index else Undefined)
      in case arg of
           Str s \<Rightarrow> s
         | Other \<Rightarrow> match
         | _ \<Rightarrow> String_js arg)"

text \<open>\<open>result.replace(/[aouei]/g, '$&$&')\<close>: every code unit of the class is replaced by
  the match written twice.\<close>

definition isPseudoVowel :: "16 word \<Rightarrow> bool" where
  "isPseudoVowel c = (c = 0x61 \<or> c = 0x6F \<or> c = 0x75 \<or> c = 0x65 \<or> c = 0x69)"

fun replaceVowels :: "jsstring \<Rightarrow> jsstring" where
  "replaceVowels [] = []"
| "replaceVowels (c # cs) =
     (if isPseudoVowel c then [c] @ [c] @ replaceVowels cs else c # replaceVowels cs)"

text \<open>\<open>_format\<close>; the module constant \<open>isPseudo\<close> is its first parameter.\<close>

definition nls_format :: "bool \<Rightarrow> jsstring \<Rightarrow> js_arg list \<Rightarrow> jsstring" where
  "nls_format isPseudo message args =
     (let result = (if length args = 0 then message
                    else replacePlaceholders (formatCallback args) message)
      in if isPseudo then [0xFF3B] @ replaceVowels result @ [0xFF3D] else result)"

text \<open>\<open>lookupMessage\<close>: the global table \<open>_VSCODE_NLS\<close> gives a string at the index or
  nothing (no table, no entry, or an entry that is not a string).\<close>

definition lookupMessage :: "(nat \<Rightarrow> jsstring option) \<Rightarrow> nat \<Rightarrow> jsstring" where
  "lookupMessage table index =
     (case table index of
        Some message \<Rightarrow> message
      | None \<Rightarrow> ascii (''!!! NLS MISSING: '' @ show_nat index @ '' !!!''))"

text \<open>The first argument of \<open>localize\<close>: a key, an \<open>ILocalizeInfo\<close>, or (when built) the
  index of the message.\<close>

datatype localize_data = Key jsstring | Info jsstring "jsstring list" | Index nat

definition localize ::
  "bool \<Rightarrow> (nat \<Rightarrow> jsstring option) \<Rightarrow> localize_data \<Rightarrow> jsstring \<Rightarrow> js_arg list \<Rightarrow> jsstring" where
  "localize isPseudo table data message args =
     (case data of
        Index i \<Rightarrow> nls_format isPseudo (lookupMessage table i) args
      | _ \<Rightarrow> nls_format isPseudo message args)"

record ILocalizedString =
  original :: jsstring
  localized_value :: jsstring

definition localize2 ::
  "bool \<Rightarrow> (nat \<Rightarrow> jsstring option) \<Rightarrow> localize_data \<Rightarrow> jsstring \<Rightarrow> js_arg list \<Rightarrow>
   ILocalizedString" where
  "localize2 isPseudo table data originalMessage args =
     (let message = (case data of Index i \<Rightarrow> lookupMessage table i | _ \<Rightarrow> originalMessage);
          v = nls_format isPseudo message args
      in \<lparr>original = (if originalMessage = message then v
                       else nls_format isPseudo originalMessage args),
          localized_value = v\<rparr>)"

section \<open>Utility process (\<open>UtilityProcess\<close>)\<close>

record IUtilityProcessConfiguration =
  responseWindowId :: nat
  responseChannel :: string
  responseNonce :: string
  process_type :: string
  config_env :: "(string \<times> string option) list option"
  config_args :: "string list option"
  config_execArgv :: "string list option"
  allowLoadingUnsignedLibraries :: "bool option"
  correlationId :: "string option"

text \<open>What \<open>ElectronUtilityProcess.fork\<close> is called with; the handle it returns is
  identified with these arguments.\<close>

record ForkedProcess =
  fork_modulePath :: string
  fork_args :: "string list"
  fork_serviceName :: string
  fork_env :: "(string \<times> string) list option"
  fork_execArgv :: "string list option"
  fork_allowLoadingUnsignedLibraries :: "bool option"
  fork_stdio :: string

record UtilityProcess =
  instance_id :: string
  process :: "ForkedProcess option"
  processPid :: "nat option"
  configuration :: "IUtilityProcessConfiguration option"
  didExit :: bool

text \<open>The window behind \<open>getWindowById(id)?.win\<close>.\<close>

record BrowserWindow =
  isDestroyed :: bool
  webContents_isDestroyed :: bool

text \<open>What \<open>start\<close> reads from outside the instance: the constant
  \<open>canUseUtilityProcess\<close>, the windows service and the path of the bootstrap module.\<close>

record ElectronMain =
  canUseUtilityProcess :: bool
  getWindowById :: "nat \<Rightarrow> BrowserWindow option"
  bootstrapForkPath :: string

datatype Severity = Ignore | Info | Warning | Error_severity

text \<open>What a call does to the world outside the instance, in order.\<close>

datatype effect =
    LogError string
  | LogWarn string
  | LogInfo string
  | Fork ForkedProcess
  | RegisterListeners string
  | PostMessageToProcess string
  | PostMessageToWindow nat string string

definition log_msg :: "UtilityProcess \<Rightarrow> string \<Rightarrow> Severity \<Rightarrow> effect list" where
  "log_msg up msg severity =
     (let ptype = (case configuration up of None \<Rightarrow> ''undefined'' | Some c \<Rightarrow> process_type c);
          pid = (case processPid up of None \<Rightarrow> ''<none>'' | Some n \<Rightarrow> show_nat n);
          cid = (case configuration up of None \<Rightarrow> None | Some c \<Rightarrow> correlationId c);
          logMsg =
            (if cid \<noteq> None \<and> cid \<noteq> Some [] then
               ''[UtilityProcess id: '' @ the cid @ '', type: '' @ ptype @ '', pid: '' @ pid
                 @ '']: '' @ msg
             else ''[UtilityProcess type: '' @ ptype @ '', pid: '' @ pid @ '']: '' @ msg)
      in case severity of
           Error_severity \<Rightarrow> [LogError logMsg]
         | Warning \<Rightarrow> [LogWarn logMsg]
         | Info \<Rightarrow> [LogInfo logMsg]
         | Ignore \<Rightarrow> [])"

text \<open>\<open>validateCanStart\<close>: throws, or returns the window (or \<open>undefined\<close>) with what it
  logged.\<close>

definition validateCanStart ::
  "ElectronMain \<Rightarrow> IUtilityProcessConfiguration \<Rightarrow> UtilityProcess \<Rightarrow>
   js_error + (BrowserWindow option \<times> effect list)" where
  "validateCanStart e config up =
     (if \<not> canUseUtilityProcess e then Inl (Error ''Cannot use UtilityProcess API from Electron!'')
      else if process up \<noteq> None then
        Inr (None, log_msg up ''Cannot start utility process because it is already running...''
               Error_severity)
      else
        (case getWindowById e (responseWindowId config) of
           None \<Rightarrow>
             Inr (None, log_msg up (''Refusing to start utility process because requesting window ''
                    @ ''cannot be found or is destroyed...'') Error_severity)
         | Some responseWindow \<Rightarrow>
             if isDestroyed responseWindow \<or> webContents_isDestroyed responseWindow then
               Inr (None, log_msg up (''Refusing to start utility process because requesting window ''
                      @ ''cannot be found or is destroyed...'') Error_severity)
             else Inr (Some responseWindow, [])))"

text \<open>\<open>start\<close>: an exception of \<open>validateCanStart\<close> is not caught.\<close>

definition start ::
  "ElectronMain \<Rightarrow> IUtilityProcessConfiguration \<Rightarrow> UtilityProcess \<Rightarrow>
   js_error + (UtilityProcess \<times> effect list)" where
  "start e config up =
     (case validateCanStart e config up of
        Inl err \<Rightarrow> Inl err
      | Inr (None, logged) \<Rightarrow> Inr (up, logged)
      | Inr (Some responseWindow, logged) \<Rightarrow>
          (let up1 = up\<lparr>configuration := Some config\<rparr>;
               serviceName = process_type config @ ''-'' @ instance_id up1;
               forked = \<lparr>fork_modulePath = bootstrapForkPath e,
                  fork_args = (case config_args config of None \<Rightarrow> [] | Some a \<Rightarrow> a)
                                @ [''--type='' @ process_type config],
                  fork_serviceName = serviceName,
                  fork_env = map_option
                    (map (\<lambda>(k, v). (k, case v of None \<Rightarrow> ''undefined'' | Some x \<Rightarrow> x)))
                    (config_env config),
                  fork_execArgv = config_execArgv config,
                  fork_allowLoadingUnsignedLibraries = allowLoadingUnsignedLibraries config,
                  fork_stdio = ''pipe''\<rparr>;
               up2 = up1\<lparr>process := Some forked\<rparr>
           in Inr (up2,
                logged @ log_msg up1 ''creating new...'' Info
                  @ [Fork forked, RegisterListeners serviceName, PostMessageToProcess ''null'',
                     PostMessageToWindow (responseWindowId config) (responseChannel config)
                       (responseNonce config)])))"

section \<open>Configuration editing (\<open>ConfigurationEditingService\<close>)\<close>

datatype ConfigurationTarget = USER | WORKSPACE

datatype ConfigurationEditingErrorCode =
    ERROR_UNKNOWN_KEY
  | ERROR_INVALID_TARGET
  | ERROR_NO_WORKSPACE_OPENED
  | ERROR_INVALID_CONFIGURATION
  | ERROR_CONFIGURATION_FILE_DIRTY

record IConfigurationEditingError =
  err_code :: ConfigurationEditingErrorCode
  err_message :: string

text \<open>A configuration value: the key (the empty string is the falsy key) and the value
  to write, of a type \<open>'v\<close> of JSON values that is left open.\<close>

record 'v IConfigurationValue =
  cfg_key :: string
  cfg_value :: 'v

record 'v IConfigurationEditOperation =
  op_key :: string
  op_value :: 'v
  op_target :: string
  isWorkspaceStandalone :: bool

record IValidationResult =
  v_error :: "ConfigurationEditingErrorCode option"
  v_exists :: "bool option"
  v_contents :: "string option"

definition WORKSPACE_STANDALONE_CONFIGURATIONS :: "(string \<times> string) list" where
  "WORKSPACE_STANDALONE_CONFIGURATIONS =
     [(''tasks'', ''.vscode/tasks.json''), (''launch'', ''.vscode/launch.json'')]"

definition WORKSPACE_CONFIG_DEFAULT_PATH :: string where
  "WORKSPACE_CONFIG_DEFAULT_PATH = ''.vscode/settings.json''"

text \<open>
  The services the editing service is constructed with, and the helpers it imports:
  the keys of the configuration registry, whether a workspace is open and how it maps a
  relative path to a resource, the path of the user settings, whether the editor input
  of a resource is dirty, the number of errors \<open>json.parse\<close> reports, the structural
  edit (\<open>setProperty\<close> followed by \<open>applyEdits\<close>) and \<open>JSON.stringify\<close> with the
  configured indentation.
\<close>

record 'v Services =
  getConfigurationKeys :: "string list"
  getWorkspace :: bool
  toResource :: "string \<Rightarrow> string"
  appSettingsPath :: string
  isDirty :: "string \<Rightarrow> bool"
  parseErrors :: "string \<Rightarrow> nat"
  setPropertyAndApply :: "string \<Rightarrow> string \<Rightarrow> 'v \<Rightarrow> string"
  stringify :: "'v \<Rightarrow> string"

text \<open>What the service changes: the files behind the file service, and the number of
  times the configuration was reloaded.\<close>

record Disk =
  files :: "string \<rightharpoonup> string"
  reloads :: nat

text \<open>\<open>Array.prototype.indexOf\<close>.\<close>

definition indexOf :: "'a list \<Rightarrow> 'a \<Rightarrow> int" where
  "indexOf xs x = findIndex (\<lambda>y. y = x) xs"

text \<open>The loop of \<open>getConfigurationEditOperation\<close> over the standalone keys.\<close>

fun standaloneOperation ::
  "'v Services \<Rightarrow> 'v IConfigurationValue \<Rightarrow> (string \<times> string) list \<Rightarrow>
   'v IConfigurationEditOperation option" where
  "standaloneOperation sv config [] = None"
| "standaloneOperation sv config ((k, path) # rest) =
     (let target = toResource sv path in
      if cfg_key config = k then
        Some \<lparr>op_key = [], op_value = cfg_value config, op_target = target,
               isWorkspaceStandalone = True\<rparr>
      else if take (length (k @ ''.'')) (cfg_key config) = k @ ''.'' then
        Some \<lparr>op_key = drop (length (k @ ''.'')) (cfg_key config), op_value = cfg_value config,
               op_target = target, isWorkspaceStandalone = True\<rparr>
      else standaloneOperation sv config rest)"

definition getConfigurationEditOperation ::
  "'v Services \<Rightarrow> ConfigurationTarget \<Rightarrow> 'v IConfigurationValue \<Rightarrow>
   'v IConfigurationEditOperation" where
  "getConfigurationEditOperation sv target config =
     (case (if cfg_key config \<noteq> [] then
              standaloneOperation sv config WORKSPACE_STANDALONE_CONFIGURATIONS
            else None) of
        Some operation \<Rightarrow> operation
      | None \<Rightarrow>
          if target = USER then
            \<lparr>op_key = cfg_key config, op_value = cfg_value config, op_target = appSettingsPath sv,
              isWorkspaceStandalone = False\<rparr>
          else
            \<lparr>op_key = cfg_key config, op_value = cfg_value config,
              op_target = toResource sv WORKSPACE_CONFIG_DEFAULT_PATH,
              isWorkspaceStandalone = False\<rparr>)"

definition validate ::
  "'v Services \<Rightarrow> Disk \<Rightarrow> ConfigurationTarget \<Rightarrow> 'v IConfigurationEditOperation \<Rightarrow>
   IValidationResult" where
  "validate sv disk target operation =
     (if \<not> isWorkspaceStandalone operation
         \<and> indexOf (getConfigurationKeys sv) (op_key operation) < 0 then
        \<lparr>v_error = Some ERROR_UNKNOWN_KEY, v_exists = None, v_contents = None\<rparr>
      else if isWorkspaceStandalone operation \<and> target = USER then
        \<lparr>v_error = Some ERROR_INVALID_TARGET, v_exists = None, v_contents = None\<rparr>
      else if target = WORKSPACE \<and> \<not> getWorkspace sv then
        \<lparr>v_error = Some ERROR_NO_WORKSPACE_OPENED, v_exists = None, v_contents = None\<rparr>
      else
        (let resource = op_target operation in
         if isDirty sv resource then
           \<lparr>v_error = Some ERROR_CONFIGURATION_FILE_DIRTY, v_exists = None, v_contents = None\<rparr>
         else
           (case files disk resource of
              None \<Rightarrow> \<lparr>v_error = None, v_exists = Some False, v_contents = None\<rparr>
            | Some content \<Rightarrow>
                if isWorkspaceStandalone operation \<and> op_key operation = [] then
                  \<lparr>v_error = None, v_exists = Some True, v_contents = Some content\<rparr>
                else if parseErrors sv content > 0 then
                  \<lparr>v_error = Some ERROR_INVALID_CONFIGURATION, v_exists = None, v_contents = None\<rparr>
                else \<lparr>v_error = None, v_exists = Some True, v_contents = Some content\<rparr>)))"

text \<open>\<open>toErrorMessage\<close>; \<open>nls.localize\<close> without arguments returns the message.\<close>

definition toErrorMessage :: "ConfigurationEditingErrorCode \<Rightarrow> ConfigurationTarget \<Rightarrow> string" where
  "toErrorMessage err target =
     (case err of
        ERROR_UNKNOWN_KEY \<Rightarrow> ''Unable to write to the configuration file (Unknown Key)''
      | ERROR_INVALID_TARGET \<Rightarrow> ''Unable to write to the configuration file (Invalid Target)''
      | ERROR_NO_WORKSPACE_OPENED \<Rightarrow>
          ''Unable to write settings because no folder is opened. ''
            @ ''Please open a folder first and try again.''
      | ERROR_INVALID_CONFIGURATION \<Rightarrow>
          (if target = USER then
             ''Unable to write settings. Please open **User Settings** to correct ''
               @ ''errors/warnings in the file and try again.''
           else
             ''Unable to write settings. Please open **Workspace Settings** to correct ''
               @ ''errors/warnings in the file and try again.'')
      | ERROR_CONFIGURATION_FILE_DIRTY \<Rightarrow>
          (if target = USER then
             ''Unable to write settings because the file is dirty. ''
               @ ''Please save the **User Settings** file and try again.''
           else
             ''Unable to write settings because the file is dirty. ''
               @ ''Please save the **Workspace Settings** file and try again.''))"

definition wrapError ::
  "ConfigurationEditingErrorCode \<Rightarrow> ConfigurationTarget \<Rightarrow> IConfigurationEditingError" where
  "wrapError err target = \<lparr>err_code = err, err_message = toErrorMessage err target\<rparr>"

definition applyEdits :: "'v Services \<Rightarrow> string \<Rightarrow> 'v IConfigurationEditOperation \<Rightarrow> string" where
  "applyEdits sv content edit =
     (if op_key edit = [] then stringify sv (op_value edit)
      else setPropertyAndApply sv content (op_key edit) (op_value edit))"

definition updateContent :: "string \<Rightarrow> string \<Rightarrow> Disk \<Rightarrow> Disk" where
  "updateContent resource content disk = disk\<lparr>files := (files disk)(resource \<mapsto> content)\<rparr>"

text \<open>\<open>writeConfiguration\<close>: the rejection of the promise is the left result; the disk
  after the call is returned with it.\<close>

definition writeConfiguration ::
  "'v Services \<Rightarrow> Disk \<Rightarrow> ConfigurationTarget \<Rightarrow> 'v IConfigurationValue \<Rightarrow>
   (IConfigurationEditingError + unit) \<times> Disk" where
  "writeConfiguration sv disk target config =
     (let operation = getConfigurationEditOperation sv target config;
          validation = validate sv disk target operation
      in case v_error validation of
           Some err \<Rightarrow> (Inl (wrapError err target), disk)
         | None \<Rightarrow>
             (let resource = op_target operation;
                  (content, disk1) =
                    (if v_exists validation \<noteq> Some True
                     then (''{}'', updateContent resource ''{}'' disk)
                     else (the (v_contents validation), disk));
                  result = applyEdits sv content operation;
                  disk2 = updateContent resource result disk1
              in (Inr (), disk2\<lparr>reloads := reloads disk2 + 1\<rparr>)))"

section \<open>File watcher base (\<open>BaseWatcher\<close>)\<close>

text \<open>
  A watch request.  Requests are kept in a \<open>Set\<close> and as keys of a \<open>DisposableMap\<close>,
  both of which compare objects by reference; \<open>request_ref\<close> stands for that reference.
\<close>

record IUniversalWatchRequest =
  request_ref :: nat
  request_path :: string
  request_correlationId :: "int option"

datatype FileChangeType = UPDATED | ADDED | DELETED

record IFileChange =
  change_resource :: string
  change_type :: FileChangeType
  cId :: "int option"

text \<open>The two fields of \<open>fs.Stats\<close> that the watcher reads.\<close>

record Stats =
  ctimeMs :: real
  ino :: int

text \<open>
  One call of \<open>monitorSuspendedWatchRequest\<close> creates one polling watch: the closure
  variable \<open>pathNotFound\<close> of its callback, and the \<open>DisposableStore\<close> whose disposal
  calls \<open>unwatchFile\<close>.
\<close>

record PollingWatch =
  pathNotFound :: bool
  isDisposed :: bool

text \<open>What the watcher does to the outside, in order: events fired on
  \<open>onDidChangeFile\<close>, calls of the subclass's \<open>doWatch\<close>, and calls of \<open>fs.watchFile\<close>
  and \<open>fs.unwatchFile\<close>.  The \<open>trace\<close> and \<open>warn\<close> lines are left out.\<close>

datatype watcher_effect =
    DidChangeFile "IFileChange list"
  | DoWatch "IUniversalWatchRequest list"
  | WatchFile string
  | UnwatchFile string

text \<open>The watcher: \<open>suspendedWatchRequests\<close> maps a request to its polling watch, in
  insertion order; the polling watches are numbered as they are created.\<close>

record BaseWatcher =
  allWatchRequests :: "IUniversalWatchRequest list"
  suspendedWatchRequests :: "(IUniversalWatchRequest \<times> nat) list"
  pollingWatches :: "nat \<rightharpoonup> PollingWatch"
  nextPollingWatch :: nat
  effects :: "watcher_effect list"

definition newWatcher :: BaseWatcher where
  "newWatcher = \<lparr>allWatchRequests = [], suspendedWatchRequests = [], pollingWatches = Map.empty,
     nextPollingWatch = 0, effects = []\<rparr>"

definition isCorrelated :: "IUniversalWatchRequest \<Rightarrow> bool" where
  "isCorrelated request = (request_correlationId request \<noteq> None)"

definition isPathNotFound :: "Stats \<Rightarrow> bool" where
  "isPathNotFound stats = (ctimeMs stats = 0 \<and> ino stats = 0)"

definition isSuspended :: "BaseWatcher \<Rightarrow> IUniversalWatchRequest \<Rightarrow> bool" where
  "isSuspended w request = (map_of (suspendedWatchRequests w) request \<noteq> None)"

definition updateWatchers :: "BaseWatcher \<Rightarrow> BaseWatcher" where
  "updateWatchers w =
     w\<lparr>effects := effects w
          @ [DoWatch (filter (\<lambda>request. \<not> isSuspended w request) (allWatchRequests w))]\<rparr>"

text \<open>\<open>DisposableMap.deleteAndDispose\<close>: the store of the request is disposed, which
  stops its polling watch, and the entry is removed.\<close>

definition deleteAndDispose :: "IUniversalWatchRequest \<Rightarrow> BaseWatcher \<Rightarrow> BaseWatcher" where
  "deleteAndDispose request w =
     (case map_of (suspendedWatchRequests w) request of
        None \<Rightarrow> w
      | Some n \<Rightarrow>
          w\<lparr>suspendedWatchRequests := filter (\<lambda>(r, m). r \<noteq> request) (suspendedWatchRequests w),
            pollingWatches := (pollingWatches w)(n := map_option (\<lambda>p. p\<lparr>isDisposed := True\<rparr>)
                                                      (pollingWatches w n)),
            effects := effects w @ [UnwatchFile (request_path request)]\<rparr>)"

definition resumeWatchRequest :: "IUniversalWatchRequest \<Rightarrow> BaseWatcher \<Rightarrow> BaseWatcher" where
  "resumeWatchRequest request w = updateWatchers (deleteAndDispose request w)"

text \<open>\<open>suspendWatchRequest\<close> with \<open>monitorSuspendedWatchRequest\<close>: a new polling watch
  with \<open>pathNotFound = false\<close>.\<close>

definition suspendWatchRequest :: "IUniversalWatchRequest \<Rightarrow> BaseWatcher \<Rightarrow> BaseWatcher" where
  "suspendWatchRequest request w =
     (if isSuspended w request then w
      else
        updateWatchers
          (w\<lparr>suspendedWatchRequests := suspendedWatchRequests w @ [(request, nextPollingWatch w)],
             pollingWatches := (pollingWatches w)(nextPollingWatch w \<mapsto>
                                  \<lparr>pathNotFound = False, isDisposed = False\<rparr>),
             nextPollingWatch := nextPollingWatch w + 1,
             effects := effects w @ [WatchFile (request_path request)]\<rparr>))"

definition handleDidWatchFail :: "IUniversalWatchRequest \<Rightarrow> BaseWatcher \<Rightarrow> BaseWatcher" where
  "handleDidWatchFail request w =
     (if \<not> isCorrelated request then w else suspendWatchRequest request w)"

text \<open>\<open>watchFileCallback\<close> of polling watch \<open>n\<close>, created for \<open>request\<close>.\<close>

definition watchFileCallback ::
  "nat \<Rightarrow> IUniversalWatchRequest \<Rightarrow> Stats \<Rightarrow> Stats \<Rightarrow> BaseWatcher \<Rightarrow> BaseWatcher" where
  "watchFileCallback n request current previous w =
     (case pollingWatches w n of
        None \<Rightarrow> w
      | Some p \<Rightarrow>
          if isDisposed p then w
          else
            (let currentPathNotFound = isPathNotFound current;
                 previousPathNotFound = isPathNotFound previous;
                 oldPathNotFound = pathNotFound p;
                 w1 = w\<lparr>pollingWatches :=
                          (pollingWatches w)(n \<mapsto> p\<lparr>pathNotFound := currentPathNotFound\<rparr>)\<rparr>
             in if (previousPathNotFound \<and> \<not> currentPathNotFound)
                   \<or> (oldPathNotFound \<and> \<not> currentPathNotFound \<and> \<not> previousPathNotFound)
                then
                  resumeWatchRequest request
                    (w1\<lparr>effects := effects w1
                          @ [DidChangeFile [\<lparr>change_resource = request_path request, change_type = ADDED,
                                              cId = request_correlationId request\<rparr>]]\<rparr>)
                else w1))"

text \<open>\<open>new Set([...requests])\<close>: the requests in order, each reference once.\<close>

fun uniqueRequests :: "IUniversalWatchRequest list \<Rightarrow> IUniversalWatchRequest list" where
  "uniqueRequests [] = []"
| "uniqueRequests (r # rs) = r # filter (\<lambda>q. q \<noteq> r) (uniqueRequests rs)"

fun disposeAll :: "IUniversalWatchRequest list \<Rightarrow> BaseWatcher \<Rightarrow> BaseWatcher" where
  "disposeAll [] w = w"
| "disposeAll (r # rs) w = disposeAll rs (deleteAndDispose r w)"

definition watch :: "IUniversalWatchRequest list \<Rightarrow> BaseWatcher \<Rightarrow> BaseWatcher" where
  "watch requests w =
     (let w1 = w\<lparr>allWatchRequests := uniqueRequests requests\<rparr>
      in updateWatchers
           (disposeAll (filter (\<lambda>r. r \<notin> set (allWatchRequests w1))
                          (map fst (suspendedWatchRequests w1))) w1))"

definition stop :: "BaseWatcher \<Rightarrow> BaseWatcher" where
  "stop w = disposeAll (map fst (suspendedWatchRequests w)) w"

text \<open>A run of polls delivered to one polling watch: the callback is called with each
  pair of current and previous stats in turn.\<close>

fun polls ::
  "nat \<Rightarrow> IUniversalWatchRequest \<Rightarrow> (Stats \<times> Stats) list \<Rightarrow> BaseWatcher \<Rightarrow> BaseWatcher" where
  "polls n request [] w = w"
| "polls n request ((current, previous) # rest) w =
     polls n request rest (watchFileCallback n request current previous w)"

text \<open>The change events fired so far.\<close>

definition firedChanges :: "BaseWatcher \<Rightarrow> IFileChange list" where
  "firedChanges w = concat (map (\<lambda>e. case e of DidChangeFile cs \<Rightarrow> cs | _ \<Rightarrow> []) (effects w))"

section \<open>File service (\<open>FileService2\<close>): move and copy\<close>

text \<open>A resource: its scheme and the segments of its absolute path.\<close>

record URI =
  uri_scheme :: jsstring
  uri_path :: "jsstring list"

text \<open>Modelled from the spec: \<open>isEqual\<close>, \<open>isEqualOrParent\<close> and \<open>dirname\<close> of
  \<open>vs/base/common/resources\<close> are not among the sources.  Two resources are equal when
  scheme and path agree, ignoring case when asked to; a resource is equal to or a parent
  of another when the schemes agree and its path is a prefix of the other's path, segment
  by segment, with the same treatment of case.  Which code units differ in case only is
  not fixed here: the lower-case form of a code unit is the parameter \<open>lower\<close>.\<close>

definition normalizeCase :: "(16 word \<Rightarrow> 16 word) \<Rightarrow> bool \<Rightarrow> URI \<Rightarrow> URI" where
  "normalizeCase lower ignoreCase u =
     (if ignoreCase
      then \<lparr>uri_scheme = map lower (uri_scheme u), uri_path = map (map lower) (uri_path u)\<rparr>
      else u)"

definition isEqual :: "(16 word \<Rightarrow> 16 word) \<Rightarrow> URI \<Rightarrow> URI \<Rightarrow> bool \<Rightarrow> bool" where
  "isEqual lower first second ignoreCase =
     (normalizeCase lower ignoreCase first = normalizeCase lower ignoreCase second)"

text \<open>\<open>isEqualOrParent base parentCandidate ignoreCase\<close>: whether \<open>parentCandidate\<close> is
  equal to \<open>base\<close> or a parent of it.\<close>

fun isPrefix :: "'a list \<Rightarrow> 'a list \<Rightarrow> bool" where
  "isPrefix [] ys = True"
| "isPrefix (x # xs) [] = False"
| "isPrefix (x # xs) (y # ys) = (x = y \<and> isPrefix xs ys)"

definition isEqualOrParent :: "(16 word \<Rightarrow> 16 word) \<Rightarrow> URI \<Rightarrow> URI \<Rightarrow> bool \<Rightarrow> bool" where
  "isEqualOrParent lower base parentCandidate ignoreCase =
     (uri_scheme base = uri_scheme parentCandidate \<and>
      isPrefix (uri_path (normalizeCase lower ignoreCase parentCandidate))
               (uri_path (normalizeCase lower ignoreCase base)))"

definition dirname :: "URI \<Rightarrow> URI" where
  "dirname u = u\<lparr>uri_path := butlast (uri_path u)\<rparr>"

text \<open>The capabilities of a provider that move and copy read.\<close>

record IFileSystemProvider =
  PathCaseSensitive :: bool
  Readonly :: bool
  FileFolderCopy :: bool
  FileOpenReadWriteClose :: bool
  FileReadWrite :: bool

datatype FileOperationResult =
    FILE_NOT_FOUND
  | FILE_INVALID_PATH
  | FILE_MOVE_CONFLICT
  | FILE_MODIFIED_SINCE
  | FILE_PERMISSION_DENIED

text \<open>How an operation fails: a \<open>FileOperationError\<close> with its result code, a plain
  \<open>Error\<close>, the error named \<open>ENOPRO\<close> of a scheme without provider, a rejection with a
  string, or the failure of a call it awaited.\<close>

datatype file_error =
    FileOperationError string FileOperationResult
  | PlainError string
  | ENOPRO URI
  | Rejection string
  | CallFailed

datatype FileOperation = MOVE | COPY

text \<open>
  What an operation does, in order.  The calls that change files: \<open>this.del\<close>,
  \<open>this.mkdirp\<close>, and the provider's (or the legacy service's) copy, write and rename;
  \<open>mkdirp\<close> and \<open>del\<close> are taken as one call each.  After them \<open>resolveFile\<close>, which only
  reads, and the event fired on \<open>onAfterOperation\<close> with the source, the operation and
  the resolved target.
\<close>

datatype file_call =
    Del URI bool
  | Mkdirp URI
  | ProviderCopy URI URI bool
  | LegacyCopyFile URI URI bool
  | ReadThenWriteFile URI URI bool
  | ProviderRename URI URI bool
  | ResolveFile URI
  | AfterOperation URI FileOperation URI

text \<open>The file system as the operation meets it: whether a resource exists
  (\<open>existsFile\<close>), and whether an awaited call fails.\<close>

record FileSystem =
  existsFile :: "URI \<Rightarrow> bool"
  callFails :: "file_call \<Rightarrow> bool"

text \<open>Awaiting calls one after the other: the calls made, and the failure that ended
  them if there was one.\<close>

fun await_calls :: "FileSystem \<Rightarrow> file_call list \<Rightarrow> file_error option \<times> file_call list" where
  "await_calls fs [] = (None, [])"
| "await_calls fs (c # cs) =
     (if callFails fs c then (Some CallFailed, [c])
      else (let (e, made) = await_calls fs cs in (e, c # made)))"

definition doValidateMoveCopy ::
  "FileSystem \<Rightarrow> (16 word \<Rightarrow> 16 word) \<Rightarrow> IFileSystemProvider \<Rightarrow> URI \<Rightarrow> URI \<Rightarrow> bool \<Rightarrow>
   file_error + (bool \<times> bool)" where
  "doValidateMoveCopy fs lower provider source target overwrite =
     (let isPathCaseSensitive = PathCaseSensitive provider;
          isCaseChange = (if isPathCaseSensitive then False else isEqual lower source target True)
      in if \<not> isCaseChange \<and> isEqualOrParent lower target source (\<not> isPathCaseSensitive) then
           Inl (PlainError
             ''Unable to move/copy when source path is equal or parent of target path'')
         else
           (let exists = existsFile fs target
            in if exists \<and> \<not> isCaseChange then
                 (if \<not> overwrite then
                    Inl (FileOperationError
                      ''Unable to move/copy. File already exists at destination.''
                      FILE_MOVE_CONFLICT)
                  else if isEqualOrParent lower source target (\<not> isPathCaseSensitive) then
                    Inl (PlainError
                      ''Unable to move/copy. File would replace folder it is contained in.'')
                  else Inr (exists, isCaseChange))
               else Inr (exists, isCaseChange)))"

datatype move_copy_mode = Move | Copy

text \<open>\<open>doMoveCopy\<close>: the result, and the calls made.\<close>

definition doMoveCopy ::
  "FileSystem \<Rightarrow> (16 word \<Rightarrow> 16 word) \<Rightarrow> IFileSystemProvider \<Rightarrow> URI \<Rightarrow> URI \<Rightarrow>
   move_copy_mode \<Rightarrow> bool \<Rightarrow> file_error option \<times> file_call list" where
  "doMoveCopy fs lower provider source target mode overwrite =
     (case doValidateMoveCopy fs lower provider source target overwrite of
        Inl err \<Rightarrow> (Some err, [])
      | Inr (exists, isCaseChange) \<Rightarrow>
          (let first_calls =
                 (if exists \<and> \<not> isCaseChange \<and> overwrite then [Del target True] else [])
                 @ [Mkdirp (dirname target)]
           in case mode of
                Copy \<Rightarrow>
                  if FileFolderCopy provider then
                    await_calls fs (first_calls @ [ProviderCopy source target overwrite])
                  else if FileOpenReadWriteClose provider then
                    await_calls fs (first_calls @ [LegacyCopyFile source target overwrite])
                  else if FileReadWrite provider then
                    await_calls fs (first_calls @ [ReadThenWriteFile source target overwrite])
                  else
                    (case await_calls fs first_calls of
                       (None, made) \<Rightarrow>
                         (Some (Rejection (''Provider neither has FileReadWrite nor ''
                            @ ''FileOpenReadWriteClose capability which is needed to support copy.'')),
                          made)
                     | failed \<Rightarrow> failed)
              | Move \<Rightarrow> await_calls fs (first_calls @ [ProviderRename source target overwrite])))"

text \<open>\<open>withProvider\<close>: the provider registered for the scheme of the resource, after
  activation.  The paths of the model are absolute, so the first assertion of
  \<open>withProvider\<close> holds.\<close>

definition withProvider ::
  "(jsstring \<rightharpoonup> IFileSystemProvider) \<Rightarrow> URI \<Rightarrow> file_error + IFileSystemProvider" where
  "withProvider providers resource =
     (case providers (uri_scheme resource) of
        None \<Rightarrow> Inl (ENOPRO resource)
      | Some provider \<Rightarrow> Inr provider)"

definition throwIfFileSystemIsReadonly :: "IFileSystemProvider \<Rightarrow> file_error + IFileSystemProvider" where
  "throwIfFileSystemIsReadonly provider =
     (if Readonly provider
      then Inl (FileOperationError ''Resource can not be modified.'' FILE_PERMISSION_DENIED)
      else Inr provider)"

text \<open>One step after another: the second is not begun when the first failed.\<close>

definition andThen ::
  "file_error option \<times> file_call list \<Rightarrow> file_error option \<times> file_call list \<Rightarrow>
   file_error option \<times> file_call list" where
  "andThen first second =
     (case first of
        (Some e, made) \<Rightarrow> (Some e, made)
      | (None, made) \<Rightarrow> (fst second, made @ snd second))"

text \<open>The end of \<open>moveFile\<close> and \<open>copyFile\<close>: the target is resolved and the event is
  fired.\<close>

definition resolveAndSendEvents ::
  "FileSystem \<Rightarrow> URI \<Rightarrow> FileOperation \<Rightarrow> URI \<Rightarrow> file_error option \<times> file_call list" where
  "resolveAndSendEvents fs source operation target =
     andThen (await_calls fs [ResolveFile target]) (None, [AfterOperation source operation target])"

text \<open>\<open>doCopyAcrossProviders\<close> and \<open>doMoveAcrossProviders\<close> are called without the
  \<open>overwrite\<close> argument, which is then \<open>undefined\<close>.\<close>

definition doCopyAcrossProviders ::
  "FileSystem \<Rightarrow> URI \<Rightarrow> URI \<Rightarrow> bool \<Rightarrow> file_error option \<times> file_call list" where
  "doCopyAcrossProviders fs source target overwrite =
     await_calls fs [LegacyCopyFile source target overwrite]"

definition copyFile ::
  "FileSystem \<Rightarrow> (jsstring \<rightharpoonup> IFileSystemProvider) \<Rightarrow> (16 word \<Rightarrow> 16 word) \<Rightarrow> URI \<Rightarrow> URI \<Rightarrow>
   bool \<Rightarrow> file_error option \<times> file_call list" where
  "copyFile fs providers lower source target overwrite =
     andThen
       (if uri_scheme source = uri_scheme target then
          (case withProvider providers source of
             Inl e \<Rightarrow> (Some e, [])
           | Inr found \<Rightarrow>
               (case throwIfFileSystemIsReadonly found of
                  Inl e \<Rightarrow> (Some e, [])
                | Inr provider \<Rightarrow> doMoveCopy fs lower provider source target Copy overwrite))
        else doCopyAcrossProviders fs source target False)
       (resolveAndSendEvents fs source COPY target)"

definition doMoveAcrossProviders ::
  "FileSystem \<Rightarrow> (jsstring \<rightharpoonup> IFileSystemProvider) \<Rightarrow> (16 word \<Rightarrow> 16 word) \<Rightarrow> URI \<Rightarrow> URI \<Rightarrow>
   bool \<Rightarrow> file_error option \<times> file_call list" where
  "doMoveAcrossProviders fs providers lower source target overwrite =
     andThen (copyFile fs providers lower source target overwrite)
       (await_calls fs [Del source True])"

definition moveFile ::
  "FileSystem \<Rightarrow> (jsstring \<rightharpoonup> IFileSystemProvider) \<Rightarrow> (16 word \<Rightarrow> 16 word) \<Rightarrow> URI \<Rightarrow> URI \<Rightarrow>
   bool \<Rightarrow> file_error option \<times> file_call list" where
  "moveFile fs providers lower source target overwrite =
     andThen
       (if uri_scheme source = uri_scheme target then
          (case withProvider providers source of
             Inl e \<Rightarrow> (Some e, [])
           | Inr found \<Rightarrow>
               (case throwIfFileSystemIsReadonly found of
                  Inl e \<Rightarrow> (Some e, [])
                | Inr provider \<Rightarrow> doMoveCopy fs lower provider source target Move overwrite))
        else doMoveAcrossProviders fs providers lower source target False)
       (resolveAndSendEvents fs source MOVE target)"

section \<open>Language-pack resolver (\<open>base/node/nls.js\<close>)\<close>

record INLSLanguagePackConfiguration =
  translationsConfigFile :: string
  messagesFile :: string
  corruptMarkerFile :: string

record INLSConfiguration =
  nls_userLocale :: string
  nls_osLocale :: string
  resolvedLocale :: string
  languagePack :: "INLSLanguagePackConfiguration option"
  defaultMessagesFile :: string

text \<open>The context of \<open>resolveNLSConfiguration\<close>; an absent string is \<open>None\<close>, and like the
  empty string it is falsy.\<close>

record IResolveNLSConfigurationContext =
  userLocale :: string
  osLocale :: string
  userDataPath :: "string option"
  commit :: "string option"
  nlsMetadataPath :: string

definition truthy :: "string option \<Rightarrow> bool" where
  "truthy s = (case s of None \<Rightarrow> False | Some v \<Rightarrow> v \<noteq> [])"

text \<open>
  An entry of \<open>languagepacks.json\<close>: \<open>pack_hash\<close> is the value of \<open>hash\<close> if it is a
  string; \<open>pack_translations\<close> is the object \<open>translations\<close> if it is truthy, with the
  values that are strings.
\<close>

record ILanguagePack =
  pack_hash :: "string option"
  pack_translations :: "(string \<times> string) list option"

type_synonym ILanguagePacks = "string \<rightharpoonup> ILanguagePack"

text \<open>
  What the resolver meets outside: the environment variable \<open>VSCODE_DEV\<close>, \<open>path.join\<close>,
  the file system in a state \<open>'w\<close>, and JSON.  An operation of the file system that fails
  rejects; one that changes files returns the next state whether it fails or not.
  \<open>mkdir\<close> also tells when it rejects, see \<open>settled\<close>.
  \<open>JSON.parse\<close> is given per file, with the type the code declares for the value: a
  syntax error, like a value that is falsy, is \<open>None\<close>; a file whose value has another
  shape is outside the model.
\<close>

text \<open>
  How a promise that is not awaited at once ends.  The promise of \<open>mkdirp\<close> is made
  before the three reads are awaited, and it gets its first handler when \<open>Promise.all\<close>
  is reached after them: it is fulfilled, or it rejects before that point, while no
  handler is attached, or it rejects after it.
\<close>

datatype settled = Fulfilled | RejectedBeforeAwaited | RejectedWhenAwaited

text \<open>
  How an asynchronous function ends: it returns a value, or it throws (its promise
  rejects), or a promise it left without handler rejects, be it during the call or after
  it.  Node reports the last to the process as an unhandled rejection, which by default
  ends the process; the model does not follow the run past it.
\<close>

datatype 'a completion = Returns 'a | Throws js_error | UnhandledRejection js_error

record 'w NodeHost =
  VSCODE_DEV :: "string option"
  path_join :: "string list \<Rightarrow> string"
  fs_access :: "'w \<Rightarrow> string \<Rightarrow> bool"
  fs_readFile :: "'w \<Rightarrow> string \<Rightarrow> string option"
  fs_rm :: "'w \<Rightarrow> string \<Rightarrow> bool \<times> 'w"
  fs_mkdir :: "'w \<Rightarrow> string \<Rightarrow> settled \<times> 'w"
  fs_writeFile :: "'w \<Rightarrow> string \<Rightarrow> string \<Rightarrow> bool \<times> 'w"
  fs_utimes :: "'w \<Rightarrow> string \<Rightarrow> 'w"
  parse_languagePacks :: "string \<Rightarrow> ILanguagePacks option"
  parse_keys :: "string \<Rightarrow> (string \<times> string list) list option"
  parse_messages :: "string \<Rightarrow> string list option"
  parse_packdata :: "string \<Rightarrow> (string \<rightharpoonup> (string \<rightharpoonup> string)) option"
  stringify_messages :: "string option list \<Rightarrow> string"
  stringify_translations :: "(string \<times> string) list \<Rightarrow> string"

text \<open>\<open>exists\<close>: a failing \<open>access\<close> is caught and gives \<open>false\<close>.\<close>

definition fs_exists :: "'w NodeHost \<Rightarrow> 'w \<Rightarrow> string \<Rightarrow> bool" where
  "fs_exists host w p = fs_access host w p"

definition getLanguagePackConfigurations ::
  "'w NodeHost \<Rightarrow> 'w \<Rightarrow> string \<Rightarrow> ILanguagePacks option" where
  "getLanguagePackConfigurations host w dataPath =
     (let configFile = path_join host [dataPath, ''languagepacks.json'']
      in case fs_readFile host w configFile of
           None \<Rightarrow> None
         | Some content \<Rightarrow> parse_languagePacks host content)"

text \<open>\<open>String.prototype.lastIndexOf\<close> for one character.\<close>

fun lastIndexOf_from :: "string \<Rightarrow> char \<Rightarrow> nat \<Rightarrow> int" where
  "lastIndexOf_from s c 0 = - 1"
| "lastIndexOf_from s c (Suc i) = (if s ! i = c then int i else lastIndexOf_from s c i)"

definition lastIndexOf :: "string \<Rightarrow> char \<Rightarrow> int" where
  "lastIndexOf s c = lastIndexOf_from s c (length s)"

lemma lastIndexOf_from_less: "lastIndexOf_from s c n < int n"
  by (induction n) auto

function resolveLanguagePackLocale :: "ILanguagePacks \<Rightarrow> string \<Rightarrow> string option" where
  "resolveLanguagePackLocale languagePacks locale =
     (if locale = [] then None
      else if languagePacks locale \<noteq> None then Some locale
      else
        (let index = lastIndexOf locale CHR ''-''
         in if index > 0 then resolveLanguagePackLocale languagePacks (take (nat index) locale)
            else None))"
  by pat_completeness auto
termination
proof (relation "measure (\<lambda>(languagePacks, locale). length locale)")
  show "wf (measure (\<lambda>(languagePacks, locale). length locale))" by simp
next
  fix languagePacks :: ILanguagePacks and loc :: string and x :: int
  assume "loc \<noteq> []" and "x = lastIndexOf loc CHR ''-''" and "0 < x"
  moreover have "lastIndexOf loc CHR ''-'' < int (length loc)"
    by (simp add: lastIndexOf_def lastIndexOf_from_less)
  ultimately show "((languagePacks, take (nat x) loc), languagePacks, loc)
      \<in> measure (\<lambda>(languagePacks, l). length l)"
    by simp
qed

declare resolveLanguagePackLocale.simps [simp del]

definition defaultNLSConfiguration :: "'w NodeHost \<Rightarrow> string \<Rightarrow> string \<Rightarrow> string \<Rightarrow> INLSConfiguration" where
  "defaultNLSConfiguration host user os metadataPath =
     \<lparr>nls_userLocale = user, nls_osLocale = os, resolvedLocale = ''en'', languagePack = None,
       defaultMessagesFile = path_join host [metadataPath, ''nls.messages.json'']\<rparr>"

text \<open>The two nested loops that build \<open>nlsResult\<close>: for every key in build order the
  translation of the pack if it is a non-empty string, else the default message at the
  running index (\<open>undefined\<close> past the end of the default messages).\<close>

fun moduleMessages ::
  "(string \<rightharpoonup> string) option \<Rightarrow> string list \<Rightarrow> string list \<Rightarrow> nat \<Rightarrow> string option list" where
  "moduleMessages moduleTranslations nlsDefaultMessages [] nlsIndex = []"
| "moduleMessages moduleTranslations nlsDefaultMessages (nlsKey # nlsKeys) nlsIndex =
     (let translated = (case moduleTranslations of None \<Rightarrow> None | Some t \<Rightarrow> t nlsKey);
          byDefault = (if nlsIndex < length nlsDefaultMessages
                       then Some (nlsDefaultMessages ! nlsIndex) else None)
      in (if truthy translated then translated else byDefault)
           # moduleMessages moduleTranslations nlsDefaultMessages nlsKeys (nlsIndex + 1))"

fun nlsMessages ::
  "(string \<rightharpoonup> (string \<rightharpoonup> string)) \<Rightarrow> string list \<Rightarrow> (string \<times> string list) list \<Rightarrow> nat \<Rightarrow>
   string option list" where
  "nlsMessages packContents nlsDefaultMessages [] nlsIndex = []"
| "nlsMessages packContents nlsDefaultMessages ((moduleId, nlsKeys) # rest) nlsIndex =
     moduleMessages (packContents moduleId) nlsDefaultMessages nlsKeys nlsIndex
       @ nlsMessages packContents nlsDefaultMessages rest (nlsIndex + length nlsKeys)"

text \<open>The part of the \<open>try\<close> block that rebuilds the cache, with the state of the
  files it leaves.  \<open>mkdirp\<close> is started first and not awaited.  A failing read or parse
  throws at once; \<open>Promise.all\<close> is then never reached, so that a rejection of \<open>mkdirp\<close>
  stays without handler.  When the three reads are done, a \<open>mkdirp\<close> that rejected in
  the meantime did so without handler, and one that rejects afterwards makes
  \<open>Promise.all\<close> throw.  Then both files are written, and either write failing throws.\<close>

definition generateCache ::
  "'w NodeHost \<Rightarrow> 'w \<Rightarrow> string \<Rightarrow> string \<Rightarrow> string \<Rightarrow> string \<Rightarrow> string \<Rightarrow>
   (string \<times> string) list \<Rightarrow> unit completion \<times> 'w" where
  "generateCache host w metadataPath mainLanguagePackPath commitLanguagePackCachePath
      languagePackMessagesFile translationsFile translations =
     (let (made, w1) = fs_mkdir host w commitLanguagePackCachePath;
          readFailed = (\<lambda>name. if made = Fulfilled then Throws (Error name)
                               else UnhandledRejection (Error ''mkdir''))
      in case Option.bind (fs_readFile host w1 (path_join host [metadataPath, ''nls.keys.json'']))
                (parse_keys host) of
           None \<Rightarrow> (readFailed ''nls.keys.json'', w1)
         | Some nlsDefaultKeys \<Rightarrow>
        (case Option.bind
                (fs_readFile host w1 (path_join host [metadataPath, ''nls.messages.json'']))
                (parse_messages host) of
           None \<Rightarrow> (readFailed ''nls.messages.json'', w1)
         | Some nlsDefaultMessages \<Rightarrow>
        (case Option.bind (fs_readFile host w1 mainLanguagePackPath) (parse_packdata host) of
           None \<Rightarrow> (readFailed ''translations'', w1)
         | Some packContents \<Rightarrow>
             (case made of
                RejectedBeforeAwaited \<Rightarrow> (UnhandledRejection (Error ''mkdir''), w1)
              | RejectedWhenAwaited \<Rightarrow> (Throws (Error ''mkdir''), w1)
              | Fulfilled \<Rightarrow>
                  (let nlsResult = nlsMessages packContents nlsDefaultMessages nlsDefaultKeys 0;
                       (wrote1, w2) = fs_writeFile host w1 languagePackMessagesFile
                                        (stringify_messages host nlsResult);
                       (wrote2, w3) = fs_writeFile host w2 translationsFile
                                        (stringify_translations host translations)
                   in if wrote1 \<and> wrote2 then (Returns (), w3)
                      else (Throws (Error ''writeFile''), w3))))))"

text \<open>The \<open>try\<close> block of \<open>resolveNLSConfiguration\<close>: what it returns or throws, with the
  state of the files.  The \<open>touch\<close> of an existing cache folder is not awaited either,
  but its promise has a handler that swallows the failure.\<close>

definition tryResolve ::
  "'w NodeHost \<Rightarrow> IResolveNLSConfigurationContext \<Rightarrow> string \<Rightarrow> string \<Rightarrow> 'w \<Rightarrow>
   INLSConfiguration completion \<times> 'w" where
  "tryResolve host ctx dataPath commitId w =
     (let fallback = defaultNLSConfiguration host (userLocale ctx) (osLocale ctx)
                       (nlsMetadataPath ctx)
      in case getLanguagePackConfigurations host w dataPath of
           None \<Rightarrow> (Returns fallback, w)
         | Some languagePacks \<Rightarrow>
        (case resolveLanguagePackLocale languagePacks (userLocale ctx) of
           None \<Rightarrow> (Returns fallback, w)
         | Some locale \<Rightarrow>
        (case languagePacks locale of
           None \<Rightarrow> (Returns fallback, w)
         | Some pack \<Rightarrow>
        (case (pack_hash pack, pack_translations pack) of
           (Some hash, Some translations) \<Rightarrow>
             (case map_of translations ''vscode'' of
                None \<Rightarrow> (Returns fallback, w)
              | Some mainLanguagePackPath \<Rightarrow>
                  if \<not> fs_exists host w mainLanguagePackPath then (Returns fallback, w)
                  else
                    (let languagePackId = hash @ ''.'' @ locale;
                         globalLanguagePackCachePath = path_join host [dataPath, ''clp'', languagePackId];
                         commitLanguagePackCachePath =
                           path_join host [globalLanguagePackCachePath, commitId];
                         languagePackMessagesFile =
                           path_join host [commitLanguagePackCachePath, ''nls.messages.json''];
                         translationsFile = path_join host [globalLanguagePackCachePath, ''tcf.json''];
                         languagePackCorruptMarkerFile =
                           path_join host [globalLanguagePackCachePath, ''corrupted.info''];
                         (removed, w1) =
                           (if fs_exists host w languagePackCorruptMarkerFile
                            then fs_rm host w globalLanguagePackCachePath else (True, w))
                     in if \<not> removed then (Throws (Error ''rm''), w1)
                        else
                          (let result =
                                 \<lparr>nls_userLocale = userLocale ctx, nls_osLocale = osLocale ctx,
                                   resolvedLocale = locale,
                                   languagePack = Some
                                     \<lparr>translationsConfigFile = translationsFile,
                                       messagesFile = languagePackMessagesFile,
                                       corruptMarkerFile = languagePackCorruptMarkerFile\<rparr>,
                                   defaultMessagesFile =
                                     path_join host [nlsMetadataPath ctx, ''nls.messages.json'']\<rparr>
                           in if fs_exists host w1 commitLanguagePackCachePath then
                                (Returns result, fs_utimes host w1 commitLanguagePackCachePath)
                              else
                                (case generateCache host w1 (nlsMetadataPath ctx)
                                        mainLanguagePackPath commitLanguagePackCachePath
                                        languagePackMessagesFile translationsFile translations of
                                   (Returns u, w2) \<Rightarrow> (Returns result, w2)
                                 | (Throws err, w2) \<Rightarrow> (Throws err, w2)
                                 | (UnhandledRejection err, w2) \<Rightarrow>
                                     (UnhandledRejection err, w2)))))
         | _ \<Rightarrow> (Returns fallback, w)))))"

text \<open>\<open>resolveNLSConfiguration\<close>: the early return, the \<open>try\<close> block, and the return
  after the \<open>catch\<close>.  The \<open>catch\<close> takes what the block throws; a rejection without
  handler does not pass through it.\<close>

definition resolveNLSConfiguration ::
  "'w NodeHost \<Rightarrow> IResolveNLSConfigurationContext \<Rightarrow> 'w \<Rightarrow>
   INLSConfiguration completion \<times> 'w" where
  "resolveNLSConfiguration host ctx w =
     (if truthy (VSCODE_DEV host) \<or> userLocale ctx = ''pseudo'' \<or> userLocale ctx = ''en''
         \<or> userLocale ctx = ''en-us'' \<or> \<not> truthy (commit ctx) \<or> \<not> truthy (userDataPath ctx)
      then
        (Returns (defaultNLSConfiguration host (userLocale ctx) (osLocale ctx)
                    (nlsMetadataPath ctx)), w)
      else
        (case tryResolve host ctx (the (userDataPath ctx)) (the (commit ctx)) w of
           (Returns config, w') \<Rightarrow> (Returns config, w')
         | (Throws err, w') \<Rightarrow>
             (Returns (defaultNLSConfiguration host (userLocale ctx) (osLocale ctx)
                         (nlsMetadataPath ctx)), w')
         | (UnhandledRejection err, w') \<Rightarrow> (UnhandledRejection err, w')))"

section \<open>JSON over JavaScript strings\<close>

text \<open>
  \<open>JSON.parse\<close> and \<open>JSON.stringify\<close> as ECMAScript defines them, on strings of 16-bit
  code units.  A number is kept as the text it was written with.  The properties of an
  object are kept in the order they were parsed; reading a property takes the last one
  of that name.
\<close>

datatype json =
    JNull
  | JBool bool
  | JNumber jsstring
  | JString jsstring
  | JArray "json list"
  | JObject "(jsstring \<times> json) list"

definition isWhiteSpace :: "16 word \<Rightarrow> bool" where
  "isWhiteSpace c = (c = 0x20 \<or> c = 0x09 \<or> c = 0x0A \<or> c = 0x0D)"

fun skipWhiteSpace :: "jsstring \<Rightarrow> jsstring" where
  "skipWhiteSpace [] = []"
| "skipWhiteSpace (c # cs) = (if isWhiteSpace c then skipWhiteSpace cs else c # cs)"

subsection \<open>Strings\<close>

text \<open>The value of a hexadecimal digit, and the four lower-case digits of a code unit.\<close>

definition hexValue :: "16 word \<Rightarrow> nat option" where
  "hexValue c =
     (let n = unat c
      in if 48 \<le> n \<and> n \<le> 57 then Some (n - 48)
         else if 97 \<le> n \<and> n \<le> 102 then Some (n - 87)
         else if 65 \<le> n \<and> n \<le> 70 then Some (n - 55)
         else None)"

definition hexDigit :: "nat \<Rightarrow> 16 word" where
  "hexDigit d = (if d < 10 then of_nat (48 + d) else of_nat (87 + d))"

definition unicodeEscape :: "16 word \<Rightarrow> jsstring" where
  "unicodeEscape c =
     (let n = unat c
      in [0x5C, 0x75, hexDigit (n div 4096), hexDigit (n div 256 mod 16),
          hexDigit (n div 16 mod 16), hexDigit (n mod 16)])"

definition decodeHex4 :: "16 word \<Rightarrow> 16 word \<Rightarrow> 16 word \<Rightarrow> 16 word \<Rightarrow> 16 word option" where
  "decodeHex4 h1 h2 h3 h4 =
     (case (hexValue h1, hexValue h2, hexValue h3, hexValue h4) of
        (Some a, Some b, Some c, Some d) \<Rightarrow> Some (of_nat (((a * 16 + b) * 16 + c) * 16 + d))
      | _ \<Rightarrow> None)"

text \<open>The character after a backslash, other than \<open>u\<close>.\<close>

definition simpleEscape :: "16 word \<Rightarrow> 16 word option" where
  "simpleEscape e =
     (if e = 0x22 then Some 0x22
      else if e = 0x5C then Some 0x5C
      else if e = 0x2F then Some 0x2F
      else if e = 0x62 then Some 0x08
      else if e = 0x66 then Some 0x0C
      else if e = 0x6E then Some 0x0A
      else if e = 0x72 then Some 0x0D
      else if e = 0x74 then Some 0x09
      else None)"

definition consChar :: "16 word \<Rightarrow> (jsstring \<times> jsstring) option \<Rightarrow> (jsstring \<times> jsstring) option" where
  "consChar c r = (case r of None \<Rightarrow> None | Some (s, rest) \<Rightarrow> Some (c # s, rest))"

text \<open>The characters of a string literal after its opening quote, up to and with the
  closing quote: the string, and the input behind it.\<close>

fun parseStringBody :: "jsstring \<Rightarrow> (jsstring \<times> jsstring) option" where
  "parseStringBody [] = None"
| "parseStringBody (c # cs) =
     (if c = 0x22 then Some ([], cs)
      else if c = 0x5C then
        (case cs of
           [] \<Rightarrow> None
         | e # rest \<Rightarrow>
             if e = 0x75 then
               (case rest of
                  h1 # h2 # h3 # h4 # rest' \<Rightarrow>
                    (case decodeHex4 h1 h2 h3 h4 of
                       None \<Rightarrow> None
                     | Some u \<Rightarrow> consChar u (parseStringBody rest'))
                | _ \<Rightarrow> None)
             else
               (case simpleEscape e of
                  None \<Rightarrow> None
                | Some u \<Rightarrow> consChar u (parseStringBody rest)))
      else if c < 0x20 then None
      else consChar c (parseStringBody cs))"

text \<open>\<open>QuoteJSONString\<close>: a surrogate pair is written as it is, a lone surrogate and a
  control character as a \<open>\u\<close> escape.\<close>

definition isHighSurrogate :: "16 word \<Rightarrow> bool" where
  "isHighSurrogate c = (0xD800 \<le> c \<and> c \<le> 0xDBFF)"

definition isLowSurrogate :: "16 word \<Rightarrow> bool" where
  "isLowSurrogate c = (0xDC00 \<le> c \<and> c \<le> 0xDFFF)"

definition quoteUnit :: "16 word \<Rightarrow> jsstring" where
  "quoteUnit c =
     (if c = 0x08 then [0x5C, 0x62]
      else if c = 0x09 then [0x5C, 0x74]
      else if c = 0x0A then [0x5C, 0x6E]
      else if c = 0x0C then [0x5C, 0x66]
      else if c = 0x0D then [0x5C, 0x72]
      else if c = 0x22 then [0x5C, 0x22]
      else if c = 0x5C then [0x5C, 0x5C]
      else if c < 0x20 \<or> isHighSurrogate c \<or> isLowSurrogate c then unicodeEscape c
      else [c])"

fun quoteChars :: "jsstring \<Rightarrow> jsstring" where
  "quoteChars [] = []"
| "quoteChars [c] = quoteUnit c"
| "quoteChars (c # d # cs) =
     (if isHighSurrogate c \<and> isLowSurrogate d then c # d # quoteChars cs
      else quoteUnit c @ quoteChars (d # cs))"

definition QuoteJSONString :: "jsstring \<Rightarrow> jsstring" where
  "QuoteJSONString s = [0x22] @ quoteChars s @ [0x22]"

subsection \<open>Numbers and literals\<close>

text \<open>A number: an optional minus, 0 or a run of digits not starting with 0, an optional
  fraction, an optional exponent.  The result is the text of the number and the input
  behind it.\<close>

definition parseDigits :: "jsstring \<Rightarrow> (jsstring \<times> jsstring) option" where
  "parseDigits s =
     (let ds = takeWhile isDigit s in if ds = [] then None else Some (ds, dropWhile isDigit s))"

definition parseNumber :: "jsstring \<Rightarrow> (jsstring \<times> jsstring) option" where
  "parseNumber s =
     (let (sign, s1) = (case s of c # cs \<Rightarrow> if c = 0x2D then ([c], cs) else ([], s) | [] \<Rightarrow> ([], s))
      in case (case s1 of
                 c # cs \<Rightarrow> if c = 0x30 then Some ([c], cs) else parseDigits s1
               | [] \<Rightarrow> None) of
           None \<Rightarrow> None
         | Some (whole, s2) \<Rightarrow>
        (case (case s2 of
                 c # cs \<Rightarrow>
                   if c = 0x2E then
                     (case parseDigits cs of None \<Rightarrow> None | Some (ds, r) \<Rightarrow> Some (c # ds, r))
                   else Some ([], s2)
               | [] \<Rightarrow> Some ([], s2)) of
           None \<Rightarrow> None
         | Some (fraction, s3) \<Rightarrow>
        (case (case s3 of
                 c # cs \<Rightarrow>
                   if c = 0x65 \<or> c = 0x45 then
                     (let (esign, s4) =
                            (case cs of
                               d # ds \<Rightarrow> if d = 0x2B \<or> d = 0x2D then ([d], ds) else ([], cs)
                             | [] \<Rightarrow> ([], cs))
                      in case parseDigits s4 of
                           None \<Rightarrow> None
                         | Some (ds, r) \<Rightarrow> Some (c # esign @ ds, r))
                   else Some ([], s3)
               | [] \<Rightarrow> Some ([], s3)) of
           None \<Rightarrow> None
         | Some (exponent, s5) \<Rightarrow> Some (sign @ whole @ fraction @ exponent, s5))))"

definition parseLiteral :: "string \<Rightarrow> json \<Rightarrow> jsstring \<Rightarrow> (json \<times> jsstring) option" where
  "parseLiteral word v s =
     (if take (length word) s = ascii word then Some (v, drop (length word) s) else None)"

subsection \<open>Values\<close>

text \<open>
  The value at the head of the input, and the input behind it.  The first argument
  bounds the number of nested calls; every call is on a shorter input than its caller's,
  so the length of the input and one more is enough.
\<close>

fun parseValue :: "nat \<Rightarrow> jsstring \<Rightarrow> (json \<times> jsstring) option"
  and parseElements :: "nat \<Rightarrow> jsstring \<Rightarrow> json list \<Rightarrow> (json list \<times> jsstring) option"
  and parseMembers ::
    "nat \<Rightarrow> jsstring \<Rightarrow> (jsstring \<times> json) list \<Rightarrow> ((jsstring \<times> json) list \<times> jsstring) option"
  where
  "parseValue 0 s = None"
| "parseValue (Suc n) [] = None"
| "parseValue (Suc n) (c # cs) =
     (if c = 0x7B then
        (case skipWhiteSpace cs of
           [] \<Rightarrow> None
         | d # ds \<Rightarrow>
             if d = 0x7D then Some (JObject [], ds)
             else (case parseMembers n (d # ds) [] of
                     None \<Rightarrow> None
                   | Some (members, rest) \<Rightarrow> Some (JObject members, rest)))
      else if c = 0x5B then
        (case skipWhiteSpace cs of
           [] \<Rightarrow> None
         | d # ds \<Rightarrow>
             if d = 0x5D then Some (JArray [], ds)
             else (case parseElements n (d # ds) [] of
                     None \<Rightarrow> None
                   | Some (elements, rest) \<Rightarrow> Some (JArray elements, rest)))
      else if c = 0x22 then
        (case parseStringBody cs of None \<Rightarrow> None | Some (s, rest) \<Rightarrow> Some (JString s, rest))
      else if c = 0x74 then parseLiteral ''true'' (JBool True) (c # cs)
      else if c = 0x66 then parseLiteral ''false'' (JBool False) (c # cs)
      else if c = 0x6E then parseLiteral ''null'' JNull (c # cs)
      else (case parseNumber (c # cs) of
              None \<Rightarrow> None
            | Some (lexeme, rest) \<Rightarrow> Some (JNumber lexeme, rest)))"
| "parseElements 0 s acc = None"
| "parseElements (Suc n) s acc =
     (case parseValue n s of
        None \<Rightarrow> None
      | Some (v, rest) \<Rightarrow>
          (case skipWhiteSpace rest of
             [] \<Rightarrow> None
           | c # cs \<Rightarrow>
               if c = 0x2C then parseElements n (skipWhiteSpace cs) (acc @ [v])
               else if c = 0x5D then Some (acc @ [v], cs)
               else None))"
| "parseMembers 0 s acc = None"
| "parseMembers (Suc n) [] acc = None"
| "parseMembers (Suc n) (q # s) acc =
     (if q \<noteq> 0x22 then None
      else
        (case parseStringBody s of
           None \<Rightarrow> None
         | Some (name, rest) \<Rightarrow>
             (case skipWhiteSpace rest of
                [] \<Rightarrow> None
              | c # cs \<Rightarrow>
                  if c \<noteq> 0x3A then None
                  else
                    (case parseValue n (skipWhiteSpace cs) of
                       None \<Rightarrow> None
                     | Some (v, rest') \<Rightarrow>
                         (case skipWhiteSpace rest' of
                            [] \<Rightarrow> None
                          | d # ds \<Rightarrow>
                              if d = 0x2C then
                                parseMembers n (skipWhiteSpace ds) (acc @ [(name, v)])
                              else if d = 0x7D then Some (acc @ [(name, v)], ds)
                              else None)))))"

definition JSON_parse :: "jsstring \<Rightarrow> json option" where
  "JSON_parse text =
     (case parseValue (Suc (length text)) (skipWhiteSpace text) of
        None \<Rightarrow> None
      | Some (v, rest) \<Rightarrow> if skipWhiteSpace rest = [] then Some v else None)"

text \<open>Reading a property of a parsed object: the last member of that name.\<close>

definition getProperty :: "(jsstring \<times> json) list \<Rightarrow> string \<Rightarrow> json option" where
  "getProperty members name = map_of (rev members) (ascii name)"

section \<open>Multi-diff source URIs (\<open>ScmMultiDiffSourceResolver\<close>)\<close>

text \<open>Modelled from the spec: the class \<open>URI\<close> of \<open>vs/base/common/uri\<close> is not among the
  sources.  A URI has the five components; \<open>URI.from\<close> keeps the components it is given
  and leaves the others empty.  \<open>URI.parse\<close> returns a URI or throws; it is a parameter
  of \<open>parseUri\<close>.\<close>

record Uri =
  scheme :: jsstring
  authority :: jsstring
  path :: jsstring
  query :: jsstring
  fragment :: jsstring

definition URI_from :: "jsstring \<Rightarrow> jsstring \<Rightarrow> Uri" where
  "URI_from s q = \<lparr>scheme = s, authority = [], path = [], query = q, fragment = []\<rparr>"

definition multiDiffScheme :: jsstring where
  "multiDiffScheme = ascii ''scm-multi-diff-source''"

text \<open>\<open>JSON.stringify({ repositoryUri, groupId })\<close> for two strings.\<close>

definition stringifyUriFields :: "jsstring \<Rightarrow> jsstring \<Rightarrow> jsstring" where
  "stringifyUriFields repositoryUri groupId =
     ascii ''{'' @ QuoteJSONString (ascii ''repositoryUri'') @ ascii '':''
       @ QuoteJSONString repositoryUri @ ascii '','' @ QuoteJSONString (ascii ''groupId'')
       @ ascii '':'' @ QuoteJSONString groupId @ ascii ''}''"

definition getMultiDiffSourceUri :: "jsstring \<Rightarrow> jsstring \<Rightarrow> Uri" where
  "getMultiDiffSourceUri repositoryUri groupId =
     URI_from multiDiffScheme (stringifyUriFields repositoryUri groupId)"

text \<open>\<open>parseUri\<close>: \<open>typeof query\<close> is \<open>object\<close> for \<open>null\<close>, arrays and objects; an array has
  neither property.  The call of \<open>URI.parse\<close> in the last line is outside the
  \<open>try\<close> block, so what it throws leaves \<open>parseUri\<close>.\<close>

definition parseUri ::
  "(jsstring \<Rightarrow> js_error + 'u) \<Rightarrow> Uri \<Rightarrow> js_error + ('u \<times> jsstring) option" where
  "parseUri URI_parse uri =
     (if scheme uri \<noteq> multiDiffScheme then Inr None
      else
        (case JSON_parse (query uri) of
           None \<Rightarrow> Inr None
         | Some q \<Rightarrow>
             (case q of
                JObject members \<Rightarrow>
                  (case (getProperty members ''repositoryUri'', getProperty members ''groupId'') of
                     (Some (JString repositoryUri), Some (JString groupId)) \<Rightarrow>
                       (case URI_parse repositoryUri of
                          Inl e \<Rightarrow> Inl e
                        | Inr parsed \<Rightarrow> Inr (Some (parsed, groupId)))
                   | _ \<Rightarrow> Inr None)
              | _ \<Rightarrow> Inr None)))"

definition canHandleUri :: "(jsstring \<Rightarrow> js_error + 'u) \<Rightarrow> Uri \<Rightarrow> js_error + bool" where
  "canHandleUri URI_parse uri =
     (case parseUri URI_parse uri of Inl e \<Rightarrow> Inl e | Inr r \<Rightarrow> Inr (r \<noteq> None))"

text \<open>Modelled from the spec: \<open>URI.parse\<close> of \<open>vs/base/common/uri\<close> is not among the
  sources.  Only its check of the scheme is modelled: the scheme is the text before the
  first colon, when that text is not empty and has no slash, question mark or hash, and
  a scheme that is not a word character followed by word characters, digits, plus signs,
  dots and hyphens is refused with an error.  What \<open>URI.parse\<close> does after that check
  is the parameter \<open>components\<close>.\<close>

definition isWordChar :: "16 word \<Rightarrow> bool" where
  "isWordChar c =
     ((0x30 \<le> c \<and> c \<le> 0x39) \<or> (0x41 \<le> c \<and> c \<le> 0x5A) \<or> c = 0x5F \<or> (0x61 \<le> c \<and> c \<le> 0x7A))"

definition isSchemeChar :: "16 word \<Rightarrow> bool" where
  "isSchemeChar c = (isWordChar c \<or> c = 0x2B \<or> c = 0x2E \<or> c = 0x2D)"

definition schemePattern :: "jsstring \<Rightarrow> bool" where
  "schemePattern s = (case s of [] \<Rightarrow> False | c # cs \<Rightarrow> isWordChar c \<and> list_all isSchemeChar cs)"

definition schemeOf :: "jsstring \<Rightarrow> jsstring option" where
  "schemeOf s =
     (let before_colon = takeWhile (\<lambda>c. c \<noteq> 0x3A) s
      in if length before_colon < length s \<and> before_colon \<noteq> []
            \<and> list_all (\<lambda>c. c \<noteq> 0x2F \<and> c \<noteq> 0x3F \<and> c \<noteq> 0x23) before_colon
         then Some before_colon else None)"

definition URI_parse :: "(jsstring \<Rightarrow> js_error + 'u) \<Rightarrow> jsstring \<Rightarrow> js_error + 'u" where
  "URI_parse components s =
     (case schemeOf s of
        None \<Rightarrow> components s
      | Some sch \<Rightarrow>
          if schemePattern sch then components s
          else Inl (Error ''[UriError]: Scheme contains illegal characters.''))"

text \<open>The query that the specification describes: a JSON object whose fields
  \<open>repositoryUri\<close> and \<open>groupId\<close> are strings.\<close>

definition spec_isUriFields :: "json \<Rightarrow> bool" where
  "spec_isUriFields q =
     (case q of
        JObject members \<Rightarrow>
          (case getProperty members ''repositoryUri'' of
             Some (JString a) \<Rightarrow>
               (case getProperty members ''groupId'' of
                  Some (JString b) \<Rightarrow> True
                | _ \<Rightarrow> False)
           | _ \<Rightarrow> False)
      | _ \<Rightarrow> False)"

section \<open>Properties of the history graph\<close>

subsection \<open>Colour allocation\<close>

lemma getGraphColorIndex_range:
  "1 \<le> colorIndex c \<Longrightarrow> 1 \<le> fst (getGraphColorIndex c) \<and> fst (getGraphColorIndex c) \<le> 5"
  by (simp add: getGraphColorIndex_def graphColors_def Let_def)

lemma getGraphColorIndex_state:
  "colorIndex (snd (getGraphColorIndex c)) = fst (getGraphColorIndex c)"
  by (simp add: getGraphColorIndex_def Let_def)

lemma allocate_range:
  "1 \<le> colorIndex c \<Longrightarrow> \<forall>i \<in> set (allocate n c). 1 \<le> i \<and> i \<le> 5"
proof (induction n arbitrary: c)
  case 0
  then show ?case by simp
next
  case (Suc n)
  obtain i c' where g: "getGraphColorIndex c = (i, c')" by (cases "getGraphColorIndex c")
  from getGraphColorIndex_range [OF Suc.prems] g have i: "1 \<le> i \<and> i \<le> 5" by simp
  from getGraphColorIndex_state [of c] g have "colorIndex c' = i" by simp
  with i have "1 \<le> colorIndex c'" by simp
  from Suc.IH [OF this] i g show ?case by simp
qed

lemma allocate_first_six:
  "colorIndex c = - 1 \<Longrightarrow>
   allocate (6 + m) c = [0, 1, 2, 3, 4, 5] @ allocate m (c\<lparr>colorIndex := 5\<rparr>)"
proof -
  assume "colorIndex c = - 1"
  then have "allocate (Suc (Suc (Suc (Suc (Suc (Suc m)))))) c
      = [0, 1, 2, 3, 4, 5] @ allocate m (c\<lparr>colorIndex := 5\<rparr>)"
    by (simp add: getGraphColorIndex_def graphColors_def Let_def)
  moreover have "6 + m = Suc (Suc (Suc (Suc (Suc (Suc m)))))" by simp
  ultimately show ?thesis by (simp only:)
qed

lemma length_allocate: "length (allocate m c) = m"
  by (induction m arbitrary: c) (auto split: prod.splits)

lemma allocate_after_wrap:
  assumes "colorIndex c = - 1" "6 \<le> k" "k < n"
  shows "1 \<le> allocate n c ! k \<and> allocate n c ! k \<le> 5"
proof -
  obtain m where n: "n = 6 + m"
    using assms by (metis le_add_diff_inverse less_imp_le_nat order_trans)
  have "allocate n c ! k = allocate m (c\<lparr>colorIndex := 5\<rparr>) ! (k - 6)"
  proof -
    have "allocate n c = [0, 1, 2, 3, 4, 5] @ allocate m (c\<lparr>colorIndex := 5\<rparr>)"
      using assms(1) n by (simp only: allocate_first_six)
    moreover have "length [0, 1, 2, 3, 4, 5 :: int] = 6" by simp
    ultimately show ?thesis using assms(2) by (simp only: nth_append) simp
  qed
  moreover have "k - 6 < m" using assms n by simp
  then have "allocate m (c\<lparr>colorIndex := 5\<rparr>) ! (k - 6) \<in> set (allocate m (c\<lparr>colorIndex := 5\<rparr>))"
    by (simp add: length_allocate)
  ultimately show ?thesis using allocate_range [of "c\<lparr>colorIndex := 5\<rparr>" m] by simp
qed

subsection \<open>Lanes of an appended item\<close>

lemma addFirstParent_after:
  "addFirstParent h post (out, True) = (out @ filter (\<lambda>m. node_id m \<noteq> item_id h) post, True)"
  by (induction post arbitrary: out) auto

lemma addFirstParent_before:
  "item_id h \<notin> node_id ` set pre \<Longrightarrow>
   addFirstParent h (pre @ rest) (out, b) = addFirstParent h rest (out @ pre, b)"
  by (induction pre arbitrary: out) auto

lemma addFirstParent_split:
  assumes "item_id h \<notin> node_id ` set pre" "node_id n = item_id h"
  shows "addFirstParent h (pre @ n # post) (out, False) =
     (out @ pre @ [n\<lparr>node_id := hd (parentIds h)\<rparr>]
        @ filter (\<lambda>m. node_id m \<noteq> item_id h) post, True)"
  using assms by (simp add: addFirstParent_before addFirstParent_after)

lemma addFirstParent_absent:
  "item_id h \<notin> node_id ` set inp \<Longrightarrow> addFirstParent h inp (out, b) = (out @ inp, b)"
  by (induction inp arbitrary: out) auto

lemma append_merge:
  assumes "historyItems c \<noteq> []"
    "outputSwimlanes (last (historyItems c)) = pre @ lane # post"
    "item_id h \<notin> node_id ` set pre" "node_id lane = item_id h" "parentIds h = [p1, p2]"
  shows "appendHistoryItem h c =
      c\<lparr>colorIndex := fst (getGraphColorIndex c),
        historyItems := historyItems c @
          [\<lparr>historyItem = h, inputSwimlanes = pre @ lane # post,
            outputSwimlanes = pre @ [lane\<lparr>node_id := p1\<rparr>]
               @ filter (\<lambda>m. node_id m \<noteq> item_id h) post
               @ [\<lparr>node_id = p2, color = fst (getGraphColorIndex c)\<rparr>]\<rparr>]\<rparr>"
proof -
  obtain v vs where "historyItems c = v # vs"
    using assms(1) by (cases "historyItems c") auto
  then show ?thesis
    using assms addFirstParent_split [OF assms(3,4), of post "[]"]
    by (simp add: appendHistoryItem_def Let_def getGraphColorIndex_def split: prod.splits)
qed

text \<open>A two-parent item that occupies no input lane gets a new lane and a new colour for
  each of its parents.\<close>

lemma append_unseen_merge:
  assumes "item_id h \<notin> node_id ` set (case historyItems c of [] \<Rightarrow> []
             | _ \<Rightarrow> outputSwimlanes (last (historyItems c)))"
    "parentIds h = [p1, p2]"
  shows "outputSwimlanes (last (historyItems (appendHistoryItem h c))) =
     (case historyItems c of [] \<Rightarrow> [] | _ \<Rightarrow> outputSwimlanes (last (historyItems c))) @
      [\<lparr>node_id = p1, color = fst (getGraphColorIndex c)\<rparr>,
       \<lparr>node_id = p2, color = fst (getGraphColorIndex (snd (getGraphColorIndex c)))\<rparr>]"
  using assms addFirstParent_absent [OF assms(1), of "[]" False]
  by (simp add: appendHistoryItem_def Let_def getGraphColorIndex_def
      split: prod.splits list.splits)

text \<open>
  C7 (amended).  Once the colour cursor stands at the last palette index 5, every index
  the allocator returns afterwards lies in 1..5; counted from a cleared controller these
  are all allocations from the seventh on.  Appending a history item with two parents
  whose id occupies an input lane (a lane of the previous item's output) allocates
  exactly one colour: the first input lane of the item is rewritten to the first parent
  and keeps its colour, the item's other lanes are dropped, and the second parent is
  appended as a new lane carrying the one newly allocated colour.
\<close>

theorem graph_color_allocation:
  "(colorIndex c = 5 \<longrightarrow> (\<forall>i \<in> set (allocate n c). 1 \<le> i \<and> i \<le> 5)) \<and>
   (6 \<le> k \<and> k < n \<longrightarrow>
      1 \<le> allocate n (clearHistoryItems c) ! k \<and> allocate n (clearHistoryItems c) ! k \<le> 5) \<and>
   (historyItems c \<noteq> [] \<and> outputSwimlanes (last (historyItems c)) = pre @ lane # post \<and>
    item_id h \<notin> node_id ` set pre \<and> node_id lane = item_id h \<and> parentIds h = [p1, p2] \<longrightarrow>
      appendHistoryItem h c =
        c\<lparr>colorIndex := fst (getGraphColorIndex c),
          historyItems := historyItems c @
            [\<lparr>historyItem = h, inputSwimlanes = pre @ lane # post,
              outputSwimlanes = pre @ [lane\<lparr>node_id := p1\<rparr>]
                 @ filter (\<lambda>m. node_id m \<noteq> item_id h) post
                 @ [\<lparr>node_id = p2, color = fst (getGraphColorIndex c)\<rparr>]\<rparr>]\<rparr>)"
proof (intro conjI impI)
  assume "colorIndex c = 5"
  then show "\<forall>i \<in> set (allocate n c). 1 \<le> i \<and> i \<le> 5"
    using allocate_range [of c n] by simp
next
  assume "6 \<le> k \<and> k < n"
  then show "1 \<le> allocate n (clearHistoryItems c) ! k"
    using allocate_after_wrap [of "clearHistoryItems c" k n]
    by (simp add: clearHistoryItems_def)
next
  assume "6 \<le> k \<and> k < n"
  then show "allocate n (clearHistoryItems c) ! k \<le> 5"
    using allocate_after_wrap [of "clearHistoryItems c" k n]
    by (simp add: clearHistoryItems_def)
next
  assume "historyItems c \<noteq> [] \<and> outputSwimlanes (last (historyItems c)) = pre @ lane # post \<and>
    item_id h \<notin> node_id ` set pre \<and> node_id lane = item_id h \<and> parentIds h = [p1, p2]"
  then show "appendHistoryItem h c =
        c\<lparr>colorIndex := fst (getGraphColorIndex c),
          historyItems := historyItems c @
            [\<lparr>historyItem = h, inputSwimlanes = pre @ lane # post,
              outputSwimlanes = pre @ [lane\<lparr>node_id := p1\<rparr>]
                 @ filter (\<lambda>m. node_id m \<noteq> item_id h) post
                 @ [\<lparr>node_id = p2, color = fst (getGraphColorIndex c)\<rparr>]\<rparr>]\<rparr>"
    by (intro append_merge) simp_all
qed

text \<open>The theorem at a controller whose cursor stands at 5 and whose last row left the
  lanes \<open>x\<close>, \<open>m\<close>, \<open>m\<close>: the merge commit \<open>m\<close> with parents \<open>p1\<close>, \<open>p2\<close>.\<close>

theorem graph_color_allocation_witness:
  "colorIndex \<lparr>historyItems = [\<lparr>historyItem = \<lparr>item_id = ''c'', parentIds = [''m'']\<rparr>,
       inputSwimlanes = [],
       outputSwimlanes = [\<lparr>node_id = ''x'', color = 0\<rparr>, \<lparr>node_id = ''m'', color = 4\<rparr>,
         \<lparr>node_id = ''m'', color = 5\<rparr>]\<rparr>], colorIndex = 5\<rparr> = 5 \<and>
   list_all (\<lambda>i. 1 \<le> i \<and> i \<le> 5)
     (allocate 7 \<lparr>historyItems = [\<lparr>historyItem = \<lparr>item_id = ''c'', parentIds = [''m'']\<rparr>,
       inputSwimlanes = [],
       outputSwimlanes = [\<lparr>node_id = ''x'', color = 0\<rparr>, \<lparr>node_id = ''m'', color = 4\<rparr>,
         \<lparr>node_id = ''m'', color = 5\<rparr>]\<rparr>], colorIndex = 5\<rparr>) \<and>
   (6::nat) \<le> 6 \<and> (6::nat) < 7 \<and>
   allocate 7 (clearHistoryItems \<lparr>historyItems = [\<lparr>historyItem = \<lparr>item_id = ''c'', parentIds = [''m'']\<rparr>,
       inputSwimlanes = [],
       outputSwimlanes = [\<lparr>node_id = ''x'', color = 0\<rparr>, \<lparr>node_id = ''m'', color = 4\<rparr>,
         \<lparr>node_id = ''m'', color = 5\<rparr>]\<rparr>], colorIndex = 5\<rparr>) ! 6 = 1 \<and>
   appendHistoryItem \<lparr>item_id = ''m'', parentIds = [''p1'', ''p2'']\<rparr>
     \<lparr>historyItems = [\<lparr>historyItem = \<lparr>item_id = ''c'', parentIds = [''m'']\<rparr>,
       inputSwimlanes = [],
       outputSwimlanes = [\<lparr>node_id = ''x'', color = 0\<rparr>, \<lparr>node_id = ''m'', color = 4\<rparr>,
         \<lparr>node_id = ''m'', color = 5\<rparr>]\<rparr>], colorIndex = 5\<rparr>
   = \<lparr>historyItems = [\<lparr>historyItem = \<lparr>item_id = ''c'', parentIds = [''m'']\<rparr>,
       inputSwimlanes = [],
       outputSwimlanes = [\<lparr>node_id = ''x'', color = 0\<rparr>, \<lparr>node_id = ''m'', color = 4\<rparr>,
         \<lparr>node_id = ''m'', color = 5\<rparr>]\<rparr>,
       \<lparr>historyItem = \<lparr>item_id = ''m'', parentIds = [''p1'', ''p2'']\<rparr>,
        inputSwimlanes = [\<lparr>node_id = ''x'', color = 0\<rparr>, \<lparr>node_id = ''m'', color = 4\<rparr>,
         \<lparr>node_id = ''m'', color = 5\<rparr>],
        outputSwimlanes = [\<lparr>node_id = ''x'', color = 0\<rparr>, \<lparr>node_id = ''p1'', color = 4\<rparr>,
         \<lparr>node_id = ''p2'', color = 1\<rparr>]\<rparr>], colorIndex = 1\<rparr>"
  using graph_color_allocation [of
      "\<lparr>historyItems = [\<lparr>historyItem = \<lparr>item_id = ''c'', parentIds = [''m'']\<rparr>,
       inputSwimlanes = [],
       outputSwimlanes = [\<lparr>node_id = ''x'', color = 0\<rparr>, \<lparr>node_id = ''m'', color = 4\<rparr>,
         \<lparr>node_id = ''m'', color = 5\<rparr>]\<rparr>], colorIndex = 5\<rparr>"
      7 6 "[\<lparr>node_id = ''x'', color = 0\<rparr>]" "\<lparr>node_id = ''m'', color = 4\<rparr>"
      "[\<lparr>node_id = ''m'', color = 5\<rparr>]" "\<lparr>item_id = ''m'', parentIds = [''p1'', ''p2'']\<rparr>"
      "''p1''" "''p2''"]
  by (simp add: list_all_iff getGraphColorIndex_def graphColors_def clearHistoryItems_def
      eval_nat_numeral Let_def)

text \<open>
  C7 as stated fails for a two-parent item that occupies no input lane, such as the first
  item appended to a new controller: both parents get a newly allocated colour (0 and 1,
  the first two indices of the allocator), and no lane is reused.
\<close>

theorem graph_color_merge_counterexample:
  "appendHistoryItem \<lparr>item_id = ''m'', parentIds = [''p1'', ''p2'']\<rparr> newController
     = \<lparr>historyItems = [\<lparr>historyItem = \<lparr>item_id = ''m'', parentIds = [''p1'', ''p2'']\<rparr>,
          inputSwimlanes = [],
          outputSwimlanes = [\<lparr>node_id = ''p1'', color = 0\<rparr>, \<lparr>node_id = ''p2'', color = 1\<rparr>]\<rparr>],
        colorIndex = 1\<rparr>
   \<and> allocate 2 newController = [0, 1]"
  by (simp add: appendHistoryItem_def newController_def getGraphColorIndex_def graphColors_def
      eval_nat_numeral Let_def)

subsection \<open>The node of a rendered row\<close>

lemma tag_elements [simp]:
  "tag (createPath s) = ''path''"
  "tag (setAttribute e k v) = tag e"
  "tag (drawVerticalLine a b c d) = ''path''"
  "tag (drawCircle i r s f) = ''circle''"
  by (simp_all add: createPath_def setAttribute_def drawVerticalLine_def drawCircle_def)

lemma inputLane_paths: "filter (\<lambda>e. tag e = ''circle'') (inputLane h inp out ci i) = []"
  by (simp add: inputLane_def Let_def)

lemma remainingParent_paths:
  "filter (\<lambda>e. tag e = ''circle'') (remainingParent h out ci i) = []"
  by (simp add: remainingParent_def Let_def)

lemma filter_concat_map_empty:
  "(\<And>i. filter P (f i) = []) \<Longrightarrow> filter P (concat (map f is)) = []"
  by (induction "is") auto

lemma drawNode_circles: "filter (\<lambda>e. tag e = ''circle'') (drawNode h ci cc) = drawNode h ci cc"
  by (simp add: drawNode_def)

text \<open>Whenever a row is rendered, its circles are those of \<open>drawNode\<close>: one circle of
  radius 4 for exactly one parent, two circles of radius 5 and 3 for any other number of
  parents, zero included.\<close>

lemma render_circles:
  assumes "renderSCMHistoryItemGraph vm = Inr svg"
  shows "\<exists>ci cc. circles svg = drawNode (historyItem vm) ci cc"
  using assms
  by (auto simp add: renderSCMHistoryItemGraph_def Let_def circles_def drawNode_circles
      filter_concat_map_empty inputLane_paths remainingParent_paths split: if_splits)
     (rule exI, rule exI, rule refl)+

text \<open>
  C10 (defect of the code).  The claim gives a commit without parents the two concentric
  circles.  For the row the controller builds from a repository whose only commit has no
  parents (no input lane, no output lane) the renderer draws nothing: reading
  \<open>outputSwimlanes[0].color\<close> throws.
\<close>

theorem render_root_commit_throws:
  "historyItems (appendHistoryItems [\<lparr>item_id = ''a'', parentIds = []\<rparr>] newController)
     = [\<lparr>historyItem = \<lparr>item_id = ''a'', parentIds = []\<rparr>, inputSwimlanes = [],
          outputSwimlanes = []\<rparr>]
   \<and> renderSCMHistoryItemGraph \<lparr>historyItem = \<lparr>item_id = ''a'', parentIds = []\<rparr>,
        inputSwimlanes = [], outputSwimlanes = []\<rparr> = Inl TypeError"
  by (simp add: appendHistoryItem_def newController_def renderSCMHistoryItemGraph_def)

section \<open>Properties of the formatter\<close>

lemma format_no_arguments: "nls_format False message [] = message"
  by (simp add: nls_format_def)

lemma replacePlaceholders_one_digit:
  "isDigit d \<Longrightarrow>
   replacePlaceholders callback (0x7B # d # 0x7D # rest)
     = callback [0x7B, d, 0x7D] [d] @ replacePlaceholders callback rest"
  by (simp add: isDigit_def)

lemma formatCallback_cases:
  "formatCallback args match rest =
     (let arg = (if unat (hd rest) - 48 < length args then args ! (unat (hd rest) - 48)
                 else Undefined)
      in if arg = Other then match else String_js arg)"
  by (simp add: formatCallback_def String_js_def Let_def split: js_arg.splits)

text \<open>A placeholder of one digit at the head of the message is replaced by the argument
  at that index.\<close>

lemma format_one_digit:
  assumes "args \<noteq> []" "k < 10"
  shows "nls_format False (0x7B # (0x30 + of_nat k) # 0x7D # rest) args
     = (let arg = (if k < length args then args ! k else Undefined)
        in if arg = Other then [0x7B, 0x30 + of_nat k, 0x7D] else String_js arg)
       @ nls_format False rest args"
proof -
  have u: "unat (0x30 + of_nat k :: 16 word) = 48 + k"
    using assms(2) by (simp add: unat_word_ariths unat_of_nat)
  then have "unat (0x30 + of_nat k :: 16 word) \<ge> 48 \<and> unat (0x30 + of_nat k :: 16 word) \<le> 57"
    using assms(2) by simp
  then have d: "isDigit (0x30 + of_nat k)"
    unfolding isDigit_def by (simp add: word_le_nat_alt)
  show ?thesis
    using assms(1) u
    by (simp add: nls_format_def replacePlaceholders_one_digit [OF d]
        formatCallback_cases Let_def del: replacePlaceholders.simps)
qed

text \<open>
  C1 (defect of the code).  The claim, like the note in the documentation of \<open>localize\<close>,
  replaces \<open>{n}\<close> by the n-th argument.  The code reads the argument at the first digit of
  \<open>n\<close>: with eleven arguments \<open>a\<close> to \<open>k\<close> the message \<open>{10}\<close> is formatted to the second
  argument \<open>b\<close>, not to the eleventh, \<open>k\<close>.
\<close>

theorem format_two_digit_placeholder:
  "localize False table (Key (ascii ''key'')) (ascii ''{10}'')
     [Str (ascii ''a''), Str (ascii ''b''), Str (ascii ''c''), Str (ascii ''d''),
      Str (ascii ''e''), Str (ascii ''f''), Str (ascii ''g''), Str (ascii ''h''),
      Str (ascii ''i''), Str (ascii ''j''), Str (ascii ''k'')] = ascii ''b''"
  by (simp add: localize_def nls_format_def ascii_def formatCallback_def isDigit_def)

subsection \<open>Pseudo-localization\<close>

lemma replaceVowels_concat:
  "replaceVowels s = concat (map (\<lambda>c. if isPseudoVowel c then [c, c] else [c]) s)"
  by (induction s) simp_all

text \<open>The claim's words, "every vowel is doubled": the vowels are the letters a, e, i, o
  and u, small or capital.\<close>

definition spec_isVowel :: "16 word \<Rightarrow> bool" where
  "spec_isVowel c = (c \<in> set (ascii ''aeiouAEIOU''))"

definition spec_doubleEveryVowel :: "jsstring \<Rightarrow> jsstring" where
  "spec_doubleEveryVowel s = concat (map (\<lambda>c. if spec_isVowel c then [c, c] else [c]) s)"

text \<open>
  C9 (amended).  With the pseudo-localization flag active, the result of formatting is
  the placeholder-substituted string with every small vowel (a, e, i, o, u) written
  twice and every other code unit, capital vowels included, kept as it is, wrapped in
  the full-width brackets: it begins with U+FF3B and ends with U+FF3D; \<open>Hello\<close> yields
  \<open>Heelloo\<close> between the brackets.
\<close>

theorem pseudo_format:
  "nls_format True message args =
     [0xFF3B] @ concat (map (\<lambda>c. if c \<in> {0x61, 0x65, 0x69, 0x6F, 0x75} then [c, c] else [c])
                  (nls_format False message args)) @ [0xFF3D]
   \<and> hd (nls_format True message args) = 0xFF3B
   \<and> last (nls_format True message args) = 0xFF3D
   \<and> nls_format True (ascii ''Hello'') [] = [0xFF3B] @ ascii ''Heelloo'' @ [0xFF3D]"
proof -
  have "(\<lambda>c::16 word. if isPseudoVowel c then [c, c] else [c])
      = (\<lambda>c. if c \<in> {0x61, 0x65, 0x69, 0x6F, 0x75} then [c, c] else [c])"
    by (auto simp add: isPseudoVowel_def fun_eq_iff)
  then have "nls_format True message args =
     [0xFF3B] @ concat (map (\<lambda>c. if c \<in> {0x61, 0x65, 0x69, 0x6F, 0x75} then [c, c] else [c])
                  (nls_format False message args)) @ [0xFF3D]"
    by (simp add: nls_format_def replaceVowels_concat Let_def)
  moreover have "hd (nls_format True message args) = 0xFF3B"
    by (simp add: nls_format_def Let_def)
  moreover have "last (nls_format True message args) = 0xFF3D"
    by (simp add: nls_format_def Let_def)
  moreover have "nls_format True (ascii ''Hello'') [] = [0xFF3B] @ ascii ''Heelloo'' @ [0xFF3D]"
    by (simp add: nls_format_def ascii_def isPseudoVowel_def)
  ultimately show ?thesis by blast
qed

text \<open>C9 as stated fails on a capital vowel: \<open>A\<close> stays single between the brackets.\<close>

theorem pseudo_format_capital_vowel_counterexample:
  "nls_format True (ascii ''A'') [] = [0xFF3B, 0x41, 0xFF3D]
   \<and> nls_format True (ascii ''A'') [] \<noteq> [0xFF3B] @ spec_doubleEveryVowel (ascii ''A'') @ [0xFF3D]"
  by (simp add: nls_format_def ascii_def isPseudoVowel_def spec_doubleEveryVowel_def
      spec_isVowel_def)

section \<open>Properties of the utility process\<close>

text \<open>
  C2 (amended).  When the platform lacks utility-process support, \<open>start\<close> throws the
  error of \<open>validateCanStart\<close> to its caller; nothing is logged or spawned.  When the
  instance already has a process, or the requesting window cannot be found or is
  destroyed (the window or its web contents), \<open>start\<close> logs one error line and returns
  without spawning, and the instance is unchanged.
\<close>

theorem start_refusals:
  "(\<not> canUseUtilityProcess e \<longrightarrow>
      start e config up = Inl (Error ''Cannot use UtilityProcess API from Electron!'')) \<and>
   (canUseUtilityProcess e \<and> process up \<noteq> None \<longrightarrow>
      start e config up =
        Inr (up, log_msg up ''Cannot start utility process because it is already running...''
               Error_severity)) \<and>
   (canUseUtilityProcess e \<and> process up = None \<and>
    (case getWindowById e (responseWindowId config) of
       None \<Rightarrow> True
     | Some w \<Rightarrow> isDestroyed w \<or> webContents_isDestroyed w) \<longrightarrow>
      start e config up =
        Inr (up, log_msg up (''Refusing to start utility process because requesting window ''
               @ ''cannot be found or is destroyed...'') Error_severity)) \<and>
   (\<exists>line. log_msg up msg Error_severity = [LogError line])"
proof (intro conjI impI)
  show "\<exists>line. log_msg up msg Error_severity = [LogError line]"
    by (simp add: log_msg_def Let_def)
qed (auto simp add: start_def validateCanStart_def split: option.splits)

text \<open>The theorem at an instance asked to answer window 7: on a platform without
  support; with a process already forked; with no window 7; and with a window 7 whose
  web contents are destroyed.\<close>

theorem start_refusals_witness:
  "start \<lparr>canUseUtilityProcess = False, getWindowById = (\<lambda>n. None),
        bootstrapForkPath = ''/b.js''\<rparr>
      \<lparr>responseWindowId = 7, responseChannel = ''ch'', responseNonce = ''n'',
        process_type = ''fileWatcher'', config_env = None, config_args = None,
        config_execArgv = None, allowLoadingUnsignedLibraries = None, correlationId = None\<rparr>
      \<lparr>instance_id = ''1'', process = None, processPid = None, configuration = None,
        didExit = False\<rparr>
     = Inl (Error ''Cannot use UtilityProcess API from Electron!'')
   \<and> start \<lparr>canUseUtilityProcess = True, getWindowById = (\<lambda>n. None),
        bootstrapForkPath = ''/b.js''\<rparr>
      \<lparr>responseWindowId = 7, responseChannel = ''ch'', responseNonce = ''n'',
        process_type = ''fileWatcher'', config_env = None, config_args = None,
        config_execArgv = None, allowLoadingUnsignedLibraries = None, correlationId = None\<rparr>
      \<lparr>instance_id = ''1'',
        process = Some \<lparr>fork_modulePath = ''/b.js'', fork_args = [''--type=fileWatcher''],
          fork_serviceName = ''fileWatcher-1'', fork_env = None, fork_execArgv = None,
          fork_allowLoadingUnsignedLibraries = None, fork_stdio = ''pipe''\<rparr>,
        processPid = None, configuration = None, didExit = False\<rparr>
     = Inr (\<lparr>instance_id = ''1'',
        process = Some \<lparr>fork_modulePath = ''/b.js'', fork_args = [''--type=fileWatcher''],
          fork_serviceName = ''fileWatcher-1'', fork_env = None, fork_execArgv = None,
          fork_allowLoadingUnsignedLibraries = None, fork_stdio = ''pipe''\<rparr>,
        processPid = None, configuration = None, didExit = False\<rparr>,
        [LogError (''[UtilityProcess type: undefined, pid: <none>]: ''
           @ ''Cannot start utility process because it is already running...'')])
   \<and> start \<lparr>canUseUtilityProcess = True, getWindowById = (\<lambda>n. None),
        bootstrapForkPath = ''/b.js''\<rparr>
      \<lparr>responseWindowId = 7, responseChannel = ''ch'', responseNonce = ''n'',
        process_type = ''fileWatcher'', config_env = None, config_args = None,
        config_execArgv = None, allowLoadingUnsignedLibraries = None, correlationId = None\<rparr>
      \<lparr>instance_id = ''1'', process = None, processPid = None, configuration = None,
        didExit = False\<rparr>
     = Inr (\<lparr>instance_id = ''1'', process = None, processPid = None, configuration = None,
        didExit = False\<rparr>,
        [LogError (''[UtilityProcess type: undefined, pid: <none>]: ''
           @ ''Refusing to start utility process because requesting window ''
           @ ''cannot be found or is destroyed...'')])
   \<and> start \<lparr>canUseUtilityProcess = True, getWindowById = (\<lambda>n. if n = 7 then Some \<lparr>isDestroyed = False,
          webContents_isDestroyed = True\<rparr> else None),
        bootstrapForkPath = ''/b.js''\<rparr>
      \<lparr>responseWindowId = 7, responseChannel = ''ch'', responseNonce = ''n'',
        process_type = ''fileWatcher'', config_env = None, config_args = None,
        config_execArgv = None, allowLoadingUnsignedLibraries = None, correlationId = None\<rparr>
      \<lparr>instance_id = ''1'', process = None, processPid = None, configuration = None,
        didExit = False\<rparr>
     = Inr (\<lparr>instance_id = ''1'', process = None, processPid = None, configuration = None,
        didExit = False\<rparr>,
        [LogError (''[UtilityProcess type: undefined, pid: <none>]: ''
           @ ''Refusing to start utility process because requesting window ''
           @ ''cannot be found or is destroyed...'')])"
  using start_refusals [where e = "\<lparr>canUseUtilityProcess = False, getWindowById = (\<lambda>n. None),
        bootstrapForkPath = ''/b.js''\<rparr>"
      and config = "\<lparr>responseWindowId = 7, responseChannel = ''ch'', responseNonce = ''n'',
        process_type = ''fileWatcher'', config_env = None, config_args = None,
        config_execArgv = None, allowLoadingUnsignedLibraries = None, correlationId = None\<rparr>"
      and up = "\<lparr>instance_id = ''1'', process = None, processPid = None, configuration = None,
        didExit = False\<rparr>"]
    start_refusals [where e = "\<lparr>canUseUtilityProcess = True, getWindowById = (\<lambda>n. None),
        bootstrapForkPath = ''/b.js''\<rparr>"
      and config = "\<lparr>responseWindowId = 7, responseChannel = ''ch'', responseNonce = ''n'',
        process_type = ''fileWatcher'', config_env = None, config_args = None,
        config_execArgv = None, allowLoadingUnsignedLibraries = None, correlationId = None\<rparr>"
      and up = "\<lparr>instance_id = ''1'',
        process = Some \<lparr>fork_modulePath = ''/b.js'', fork_args = [''--type=fileWatcher''],
          fork_serviceName = ''fileWatcher-1'', fork_env = None, fork_execArgv = None,
          fork_allowLoadingUnsignedLibraries = None, fork_stdio = ''pipe''\<rparr>,
        processPid = None, configuration = None, didExit = False\<rparr>"]
    start_refusals [where e = "\<lparr>canUseUtilityProcess = True, getWindowById = (\<lambda>n. None),
        bootstrapForkPath = ''/b.js''\<rparr>"
      and config = "\<lparr>responseWindowId = 7, responseChannel = ''ch'', responseNonce = ''n'',
        process_type = ''fileWatcher'', config_env = None, config_args = None,
        config_execArgv = None, allowLoadingUnsignedLibraries = None, correlationId = None\<rparr>"
      and up = "\<lparr>instance_id = ''1'', process = None, processPid = None, configuration = None,
        didExit = False\<rparr>"]
    start_refusals [where e = "\<lparr>canUseUtilityProcess = True, getWindowById = (\<lambda>n. if n = 7 then Some \<lparr>isDestroyed = False,
          webContents_isDestroyed = True\<rparr> else None),
        bootstrapForkPath = ''/b.js''\<rparr>"
      and config = "\<lparr>responseWindowId = 7, responseChannel = ''ch'', responseNonce = ''n'',
        process_type = ''fileWatcher'', config_env = None, config_args = None,
        config_execArgv = None, allowLoadingUnsignedLibraries = None, correlationId = None\<rparr>"
      and up = "\<lparr>instance_id = ''1'', process = None, processPid = None, configuration = None,
        didExit = False\<rparr>"]
  by (simp add: log_msg_def)

text \<open>C2 as stated fails on a platform without utility-process support: the call ends
  with the error thrown, not with a normal return.\<close>

theorem start_throws_counterexample:
  "\<not> (\<exists>result.
       start \<lparr>canUseUtilityProcess = False, getWindowById = (\<lambda>n. None),
        bootstrapForkPath = ''/b.js''\<rparr>
         \<lparr>responseWindowId = 7, responseChannel = ''ch'', responseNonce = ''n'',
        process_type = ''fileWatcher'', config_env = None, config_args = None,
        config_execArgv = None, allowLoadingUnsignedLibraries = None, correlationId = None\<rparr>
         \<lparr>instance_id = ''1'', process = None, processPid = None, configuration = None,
        didExit = False\<rparr> = Inr result)"
  by (simp add: start_def validateCanStart_def)

section \<open>Properties of configuration editing\<close>

text \<open>The claim's words: validation is a fixed sequence of five steps, each a condition
  with its error code; the first step whose condition holds decides.\<close>

fun spec_firstFailure :: "(bool \<times> ConfigurationEditingErrorCode) list \<Rightarrow>
    ConfigurationEditingErrorCode option" where
  "spec_firstFailure [] = None"
| "spec_firstFailure ((failed, err) # steps) =
     (if failed then Some err else spec_firstFailure steps)"

definition spec_validationSteps ::
  "'v Services \<Rightarrow> Disk \<Rightarrow> ConfigurationTarget \<Rightarrow> 'v IConfigurationEditOperation \<Rightarrow>
   (bool \<times> ConfigurationEditingErrorCode) list" where
  "spec_validationSteps sv disk target operation =
     [(\<not> isWorkspaceStandalone operation \<and> op_key operation \<notin> set (getConfigurationKeys sv),
         ERROR_UNKNOWN_KEY),
      (isWorkspaceStandalone operation \<and> target = USER, ERROR_INVALID_TARGET),
      (target = WORKSPACE \<and> \<not> getWorkspace sv, ERROR_NO_WORKSPACE_OPENED),
      (isDirty sv (op_target operation), ERROR_CONFIGURATION_FILE_DIRTY),
      (case files disk (op_target operation) of
         None \<Rightarrow> False
       | Some content \<Rightarrow>
           \<not> (isWorkspaceStandalone operation \<and> op_key operation = [])
           \<and> parseErrors sv content > 0,
         ERROR_INVALID_CONFIGURATION)]"

lemma findIndex_lower: "- 1 \<le> findIndex P xs"
  by (induction xs) (simp_all add: Let_def)

lemma findIndex_none: "(findIndex P xs = - 1) = (\<forall>x \<in> set xs. \<not> P x)"
proof (induction xs)
  case Nil
  then show ?case by simp
next
  case (Cons x xs)
  have "findIndex P xs + 1 \<noteq> - 1"
    using findIndex_lower [of P xs] by arith
  with Cons show ?case by (simp add: Let_def)
qed

lemma findIndex_negative: "(findIndex P xs < 0) = (\<forall>x \<in> set xs. \<not> P x)"
proof -
  have "(findIndex P xs < 0) = (findIndex P xs = - 1)"
    using findIndex_lower [of P xs] by arith
  then show ?thesis by (simp only: findIndex_none)
qed

lemma indexOf_negative: "(indexOf xs x < 0) = (x \<notin> set xs)"
  by (auto simp add: indexOf_def findIndex_negative)

lemma validate_order:
  "v_error (validate sv disk target operation)
     = spec_firstFailure (spec_validationSteps sv disk target operation)"
proof (cases "\<not> isWorkspaceStandalone operation
    \<and> op_key operation \<notin> set (getConfigurationKeys sv)")
  case True
  then show ?thesis
    by (simp add: validate_def spec_validationSteps_def indexOf_negative)
next
  case step1: False
  show ?thesis
  proof (cases "isWorkspaceStandalone operation \<and> target = USER")
    case True
    with step1 show ?thesis
      by (simp add: validate_def spec_validationSteps_def indexOf_negative)
  next
    case step2: False
    show ?thesis
    proof (cases "target = WORKSPACE \<and> \<not> getWorkspace sv")
      case True
      with step1 step2 show ?thesis
        by (simp add: validate_def spec_validationSteps_def indexOf_negative)
    next
      case step3: False
      show ?thesis
      proof (cases "isDirty sv (op_target operation)")
        case True
        with step1 step2 step3 show ?thesis
          by (simp add: validate_def spec_validationSteps_def indexOf_negative)
      next
        case step4: False
        show ?thesis
        proof (cases "files disk (op_target operation)")
          case None
          with step1 step2 step3 step4 show ?thesis
            by (simp add: validate_def spec_validationSteps_def indexOf_negative)
        next
          case (Some content)
          with step1 step2 step3 step4 show ?thesis
            by (auto simp add: validate_def spec_validationSteps_def indexOf_negative)
        qed
      qed
    qed
  qed
qed

lemma writeConfiguration_rejects:
  "v_error (validate sv disk target (getConfigurationEditOperation sv target config)) = Some err
   \<Longrightarrow> writeConfiguration sv disk target config = (Inl (wrapError err target), disk)"
  by (simp add: writeConfiguration_def Let_def)

text \<open>
  C3.  The error of \<open>validate\<close> is the error of the first failing step in the order
  (1) unknown key of an edit that is not standalone, (2) standalone edit with the User
  target, (3) Workspace target with no workspace open, (4) dirty target file, (5) parse
  errors in an existing target file unless a standalone file is replaced as a whole;
  and when validation gives an error, \<open>writeConfiguration\<close> rejects with that code and
  leaves the disk as it was.
\<close>

theorem validation_order:
  "v_error (validate sv disk target operation)
     = spec_firstFailure (spec_validationSteps sv disk target operation)
   \<and> (v_error (validate sv disk target (getConfigurationEditOperation sv target config))
        = Some err \<longrightarrow>
      fst (writeConfiguration sv disk target config)
        = Inl \<lparr>err_code = err, err_message = toErrorMessage err target\<rparr>
      \<and> snd (writeConfiguration sv disk target config) = disk)"
proof (intro conjI impI)
  show "v_error (validate sv disk target operation)
     = spec_firstFailure (spec_validationSteps sv disk target operation)"
    by (rule validate_order)
next
  assume "v_error (validate sv disk target (getConfigurationEditOperation sv target config))
        = Some err"
  then have "writeConfiguration sv disk target config = (Inl (wrapError err target), disk)"
    by (rule writeConfiguration_rejects)
  then show "fst (writeConfiguration sv disk target config)
        = Inl \<lparr>err_code = err, err_message = toErrorMessage err target\<rparr>"
    and "snd (writeConfiguration sv disk target config) = disk"
    by (simp_all add: wrapError_def)
qed

text \<open>A user settings file that is open with unsaved changes, a workspace settings file
  that is clean, and a registry that knows one key.\<close>

definition sample_services :: "string Services" where
  "sample_services =
     \<lparr>getConfigurationKeys = [''editor.tabSize''], getWorkspace = True,
       toResource = (\<lambda>p. ''/ws/'' @ p), appSettingsPath = ''/user/settings.json'',
       isDirty = (\<lambda>r. r = ''/user/settings.json''),
       parseErrors = (\<lambda>c. if c = ''{'' then 1 else 0),
       setPropertyAndApply = (\<lambda>c k v. c), stringify = (\<lambda>v. v)\<rparr>"

definition sample_disk :: Disk where
  "sample_disk =
     \<lparr>files = [''/user/settings.json'' \<mapsto> ''{}'', ''/ws/.vscode/settings.json'' \<mapsto> ''{}''],
       reloads = 0\<rparr>"

theorem validation_order_witness:
  "v_error (validate sample_services sample_disk WORKSPACE
      (getConfigurationEditOperation sample_services WORKSPACE
         \<lparr>cfg_key = ''unknown.key'', cfg_value = ''1''\<rparr>)) = Some ERROR_UNKNOWN_KEY
   \<and> writeConfiguration sample_services sample_disk WORKSPACE
         \<lparr>cfg_key = ''unknown.key'', cfg_value = ''1''\<rparr>
       = (Inl \<lparr>err_code = ERROR_UNKNOWN_KEY,
               err_message = ''Unable to write to the configuration file (Unknown Key)''\<rparr>,
          sample_disk)
   \<and> v_error (validate sample_services sample_disk USER
      (getConfigurationEditOperation sample_services USER
         \<lparr>cfg_key = ''editor.tabSize'', cfg_value = ''2''\<rparr>))
       = Some ERROR_CONFIGURATION_FILE_DIRTY
   \<and> writeConfiguration sample_services sample_disk USER
         \<lparr>cfg_key = ''editor.tabSize'', cfg_value = ''2''\<rparr>
       = (Inl \<lparr>err_code = ERROR_CONFIGURATION_FILE_DIRTY,
               err_message = ''Unable to write settings because the file is dirty. ''
                 @ ''Please save the **User Settings** file and try again.''\<rparr>,
          sample_disk)"
proof -
  have unknown: "v_error (validate sample_services sample_disk WORKSPACE
      (getConfigurationEditOperation sample_services WORKSPACE
         \<lparr>cfg_key = ''unknown.key'', cfg_value = ''1''\<rparr>)) = Some ERROR_UNKNOWN_KEY"
    by (simp add: validate_def getConfigurationEditOperation_def sample_services_def
        WORKSPACE_STANDALONE_CONFIGURATIONS_def indexOf_def)
  have dirty: "v_error (validate sample_services sample_disk USER
      (getConfigurationEditOperation sample_services USER
         \<lparr>cfg_key = ''editor.tabSize'', cfg_value = ''2''\<rparr>))
       = Some ERROR_CONFIGURATION_FILE_DIRTY"
    by (simp add: validate_def getConfigurationEditOperation_def sample_services_def
        WORKSPACE_STANDALONE_CONFIGURATIONS_def indexOf_def)
  show ?thesis
    using unknown dirty
      validation_order [where sv = sample_services and disk = sample_disk
        and target = WORKSPACE and config = "\<lparr>cfg_key = ''unknown.key'', cfg_value = ''1''\<rparr>"
        and err = ERROR_UNKNOWN_KEY]
      validation_order [where sv = sample_services and disk = sample_disk
        and target = USER and config = "\<lparr>cfg_key = ''editor.tabSize'', cfg_value = ''2''\<rparr>"
        and err = ERROR_CONFIGURATION_FILE_DIRTY]
    by (simp add: toErrorMessage_def prod_eq_iff)
qed

section \<open>Properties of the file watcher\<close>

text \<open>A polling watch \<open>n\<close> is live for a request when the request is suspended with it
  and its store is not disposed.\<close>

definition livePolling :: "BaseWatcher \<Rightarrow> IUniversalWatchRequest \<Rightarrow> nat \<Rightarrow> bool" where
  "livePolling w request n =
     (map_of (suspendedWatchRequests w) request = Some n \<and>
      (case pollingWatches w n of None \<Rightarrow> False | Some p \<Rightarrow> \<not> isDisposed p))"

definition pollingDisposed :: "BaseWatcher \<Rightarrow> nat \<Rightarrow> bool" where
  "pollingDisposed w n = (case pollingWatches w n of None \<Rightarrow> False | Some p \<Rightarrow> isDisposed p)"

definition addedEvent :: "IUniversalWatchRequest \<Rightarrow> IFileChange" where
  "addedEvent request =
     \<lparr>change_resource = request_path request, change_type = ADDED,
       cId = request_correlationId request\<rparr>"

text \<open>The condition under which the callback resumes: the path was not found before
  and is found now, either by the previous stats of this call or by the current stats
  of the call before.\<close>

definition pathCreated :: "BaseWatcher \<Rightarrow> nat \<Rightarrow> Stats \<Rightarrow> Stats \<Rightarrow> bool" where
  "pathCreated w n current previous =
     ((isPathNotFound previous \<and> \<not> isPathNotFound current) \<or>
      (pathNotFound (the (pollingWatches w n)) \<and> \<not> isPathNotFound current
         \<and> \<not> isPathNotFound previous))"

lemma map_of_filter_other:
  "map_of (filter (\<lambda>(r, m). r \<noteq> request) xs) request = None"
  by (induction xs) auto

lemma map_of_filter_none:
  "(map_of (filter (\<lambda>(r, m). r \<noteq> request) xs) q = None)
     = (map_of xs q = None \<or> q = request)"
  by (induction xs) auto

lemma firedChanges_append:
  "effects w' = effects w @ es \<Longrightarrow>
   firedChanges w' = firedChanges w
      @ concat (map (\<lambda>e. case e of DidChangeFile cs \<Rightarrow> cs | _ \<Rightarrow> []) es)"
  by (simp add: firedChanges_def)

lemma callback_disposed:
  "pollingDisposed w n \<Longrightarrow> watchFileCallback n request current previous w = w"
  by (simp add: watchFileCallback_def pollingDisposed_def split: option.splits)

lemma polls_disposed: "pollingDisposed w n \<Longrightarrow> polls n request ps w = w"
  by (induction ps arbitrary: w) (auto simp add: callback_disposed)

lemma callback_resumes:
  assumes "livePolling w request n" "pathCreated w n current previous"
  shows "effects (watchFileCallback n request current previous w) =
           effects w @ [DidChangeFile [addedEvent request], UnwatchFile (request_path request),
             DoWatch (filter (\<lambda>q. \<not> isSuspended w q \<or> q = request) (allWatchRequests w))]"
    and "\<not> isSuspended (watchFileCallback n request current previous w) request"
    and "pollingDisposed (watchFileCallback n request current previous w) n"
proof -
  obtain p where p: "pollingWatches w n = Some p" "\<not> isDisposed p"
    and s: "map_of (suspendedWatchRequests w) request = Some n"
    using assms(1) by (auto simp add: livePolling_def split: option.splits)
  have c: "(isPathNotFound previous \<and> \<not> isPathNotFound current) \<or>
      (pathNotFound p \<and> \<not> isPathNotFound current \<and> \<not> isPathNotFound previous)"
    using assms(2) p by (simp add: pathCreated_def)
  define w' where "w' = watchFileCallback n request current previous w"
  have w': "w' = resumeWatchRequest request
      (w\<lparr>pollingWatches := (pollingWatches w)(n \<mapsto> p\<lparr>pathNotFound := isPathNotFound current\<rparr>),
         effects := effects w @ [DidChangeFile [addedEvent request]]\<rparr>)"
    unfolding w'_def using p c by (auto simp add: watchFileCallback_def Let_def addedEvent_def)
  show "effects (watchFileCallback n request current previous w) =
           effects w @ [DidChangeFile [addedEvent request], UnwatchFile (request_path request),
             DoWatch (filter (\<lambda>q. \<not> isSuspended w q \<or> q = request) (allWatchRequests w))]"
    unfolding w'_def [symmetric] w'
    using s by (auto simp add: resumeWatchRequest_def deleteAndDispose_def updateWatchers_def
        isSuspended_def map_of_filter_none intro!: filter_cong)
  show "\<not> isSuspended (watchFileCallback n request current previous w) request"
    unfolding w'_def [symmetric] w'
    using s by (simp add: resumeWatchRequest_def deleteAndDispose_def updateWatchers_def
        isSuspended_def map_of_filter_other)
  show "pollingDisposed (watchFileCallback n request current previous w) n"
    unfolding w'_def [symmetric] w'
    using s by (simp add: resumeWatchRequest_def deleteAndDispose_def updateWatchers_def
        pollingDisposed_def)
qed

lemma callback_waits:
  assumes "livePolling w request n" "\<not> pathCreated w n current previous"
  shows "effects (watchFileCallback n request current previous w) = effects w"
    and "livePolling (watchFileCallback n request current previous w) request n"
    and "allWatchRequests (watchFileCallback n request current previous w) = allWatchRequests w"
    and "suspendedWatchRequests (watchFileCallback n request current previous w)
           = suspendedWatchRequests w"
    and "pathNotFound (the (pollingWatches (watchFileCallback n request current previous w) n))
           = isPathNotFound current"
proof -
  obtain p where p: "pollingWatches w n = Some p" "\<not> isDisposed p"
    and s: "map_of (suspendedWatchRequests w) request = Some n"
    using assms(1) by (auto simp add: livePolling_def split: option.splits)
  have c: "\<not> ((isPathNotFound previous \<and> \<not> isPathNotFound current) \<or>
      (pathNotFound p \<and> \<not> isPathNotFound current \<and> \<not> isPathNotFound previous))"
    using assms(2) p by (simp add: pathCreated_def)
  have w': "watchFileCallback n request current previous w =
      w\<lparr>pollingWatches := (pollingWatches w)(n \<mapsto> p\<lparr>pathNotFound := isPathNotFound current\<rparr>)\<rparr>"
    using p c by (auto simp add: watchFileCallback_def Let_def)
  show "effects (watchFileCallback n request current previous w) = effects w"
    by (simp add: w')
  show "livePolling (watchFileCallback n request current previous w) request n"
    using p s by (simp add: w' livePolling_def)
  show "allWatchRequests (watchFileCallback n request current previous w) = allWatchRequests w"
    by (simp add: w')
  show "suspendedWatchRequests (watchFileCallback n request current previous w)
           = suspendedWatchRequests w"
    by (simp add: w')
  show "pathNotFound (the (pollingWatches (watchFileCallback n request current previous w) n))
           = isPathNotFound current"
    by (simp add: w')
qed

lemma polls_fire_once:
  "livePolling w request n \<Longrightarrow>
   firedChanges (polls n request ps w) =
     firedChanges w @ (if pollingDisposed (polls n request ps w) n then [addedEvent request] else [])"
proof (induction ps arbitrary: w)
  case Nil
  then show ?case
    by (auto simp add: livePolling_def pollingDisposed_def split: option.splits)
next
  case (Cons cp ps)
  obtain current previous where cp: "cp = (current, previous)" by (cases cp)
  show ?case
  proof (cases "pathCreated w n current previous")
    case True
    note r = callback_resumes [OF Cons.prems True]
    have "polls n request (cp # ps) w = watchFileCallback n request current previous w"
      using r(3) by (simp add: cp polls_disposed)
    moreover have "firedChanges (watchFileCallback n request current previous w)
        = firedChanges w @ [addedEvent request]"
      using firedChanges_append [OF r(1)] by simp
    ultimately show ?thesis using r(3) by simp
  next
    case False
    note k = callback_waits [OF Cons.prems False]
    have "firedChanges (watchFileCallback n request current previous w) = firedChanges w"
      using firedChanges_append [of "watchFileCallback n request current previous w" w "[]"] k(1)
      by simp
    with Cons.IH [OF k(2)] show ?thesis by (simp add: cp)
  qed
qed

lemma handleDidWatchFail_suspends:
  assumes "isCorrelated request" "\<not> isSuspended w request"
  shows "livePolling (handleDidWatchFail request w) request (nextPollingWatch w)"
    and "effects (handleDidWatchFail request w) =
           effects w @ [WatchFile (request_path request),
             DoWatch (filter (\<lambda>q. \<not> isSuspended w q \<and> q \<noteq> request) (allWatchRequests w))]"
proof -
  have n: "map_of (suspendedWatchRequests w) request = None"
    using assms(2) by (simp add: isSuspended_def)
  show "livePolling (handleDidWatchFail request w) request (nextPollingWatch w)"
    using assms n
    by (simp add: handleDidWatchFail_def suspendWatchRequest_def updateWatchers_def
        livePolling_def map_add_Some_iff)
  have "(map_of (suspendedWatchRequests w) q = None \<and> q \<noteq> request)
      = (\<not> isSuspended w q \<and> q \<noteq> request)" for q
    by (simp add: isSuspended_def)
  then show "effects (handleDidWatchFail request w) =
           effects w @ [WatchFile (request_path request),
             DoWatch (filter (\<lambda>q. \<not> isSuspended w q \<and> q \<noteq> request) (allWatchRequests w))]"
    using assms
    by (auto simp add: handleDidWatchFail_def suspendWatchRequest_def updateWatchers_def
        isSuspended_def map_add_def intro!: filter_cong split: option.splits)
qed

text \<open>
  The run of polls of one polling watch as the specification reads it.  Each poll is
  paired with whether the poll before it reported the path as not found (for the first
  poll, whether one did before the run).  The path appears at a poll that finds it
  while the previous stats of that poll, or the poll before, did not.
\<close>

definition polledWith :: "bool \<Rightarrow> (Stats \<times> Stats) list \<Rightarrow> ((Stats \<times> Stats) \<times> bool) list" where
  "polledWith notFoundBefore ps = zip ps (notFoundBefore # map (\<lambda>cp. isPathNotFound (fst cp)) ps)"

definition appearsAt :: "(Stats \<times> Stats) \<times> bool \<Rightarrow> bool" where
  "appearsAt poll =
     (case poll of
        ((current, previous), notFoundBefore) \<Rightarrow>
          \<not> isPathNotFound current \<and> (isPathNotFound previous \<or> notFoundBefore))"

definition spec_pathAppears :: "(Stats \<times> Stats) list \<Rightarrow> bool" where
  "spec_pathAppears ps = list_ex appearsAt (polledWith False ps)"

lemma polledWith_Cons:
  "polledWith f ((current, previous) # ps)
     = (((current, previous), f) # polledWith (isPathNotFound current) ps)"
  by (simp add: polledWith_def)

lemma pathCreated_appearsAt:
  "pollingWatches w n = Some p \<Longrightarrow>
   pathCreated w n current previous = appearsAt ((current, previous), pathNotFound p)"
  by (auto simp add: pathCreated_def appearsAt_def)

lemma polls_run:
  "livePolling w request n \<Longrightarrow>
   (if list_ex appearsAt (polledWith (pathNotFound (the (pollingWatches w n))) ps)
    then effects (polls n request ps w) =
           effects w @ [DidChangeFile [addedEvent request], UnwatchFile (request_path request),
             DoWatch (filter (\<lambda>q. \<not> isSuspended w q \<or> q = request) (allWatchRequests w))] \<and>
         \<not> isSuspended (polls n request ps w) request \<and>
         pollingDisposed (polls n request ps w) n
    else effects (polls n request ps w) = effects w \<and>
         livePolling (polls n request ps w) request n)"
proof (induction ps arbitrary: w)
  case Nil
  then show ?case by (simp add: polledWith_def)
next
  case (Cons cp ps)
  obtain current previous where cp: "cp = (current, previous)" by (cases cp)
  obtain p where p: "pollingWatches w n = Some p"
    using Cons.prems by (auto simp add: livePolling_def split: option.splits)
  let ?w1 = "watchFileCallback n request current previous w"
  show ?case
  proof (cases "pathCreated w n current previous")
    case True
    note r = callback_resumes [OF Cons.prems True]
    have "polls n request (cp # ps) w = ?w1"
      using r(3) by (simp add: cp polls_disposed)
    moreover have "appearsAt ((current, previous), pathNotFound p)"
      using True pathCreated_appearsAt [OF p] by simp
    ultimately show ?thesis
      using r p by (simp add: cp polledWith_Cons)
  next
    case False
    note k = callback_waits [OF Cons.prems False]
    have n: "\<not> appearsAt ((current, previous), pathNotFound p)"
      using False pathCreated_appearsAt [OF p] by simp
    have s: "isSuspended ?w1 q = isSuspended w q" for q
      by (simp add: isSuspended_def k(4))
    have "polls n request (cp # ps) w = polls n request ps ?w1"
      by (simp add: cp)
    then show ?thesis
      using Cons.IH [OF k(2)] n p by (simp add: cp polledWith_Cons k(1,3,5) s)
  qed
qed

lemma fresh_polling_watch:
  assumes "isCorrelated request" "\<not> isSuspended w request"
  shows "pathNotFound (the (pollingWatches (handleDidWatchFail request w) (nextPollingWatch w)))
           = False"
    and "allWatchRequests (handleDidWatchFail request w) = allWatchRequests w"
    and "isSuspended (handleDidWatchFail request w) q = (isSuspended w q \<or> q = request)"
  using assms
  by (auto simp add: handleDidWatchFail_def suspendWatchRequest_def updateWatchers_def
      isSuspended_def map_add_def split: option.splits)

lemma suspended_run:
  assumes "isCorrelated request" "\<not> isSuspended w request"
  shows "spec_pathAppears ps \<Longrightarrow>
      effects (polls (nextPollingWatch w) request ps (handleDidWatchFail request w)) =
        effects (handleDidWatchFail request w) @
          [DidChangeFile [addedEvent request], UnwatchFile (request_path request),
           DoWatch (filter (\<lambda>q. \<not> isSuspended w q) (allWatchRequests w))] \<and>
      \<not> isSuspended (polls (nextPollingWatch w) request ps (handleDidWatchFail request w))
          request \<and>
      pollingDisposed (polls (nextPollingWatch w) request ps (handleDidWatchFail request w))
        (nextPollingWatch w)"
    and "\<not> spec_pathAppears ps \<Longrightarrow>
      effects (polls (nextPollingWatch w) request ps (handleDidWatchFail request w)) =
        effects (handleDidWatchFail request w) \<and>
      livePolling (polls (nextPollingWatch w) request ps (handleDidWatchFail request w))
        request (nextPollingWatch w)"
proof -
  note l = handleDidWatchFail_suspends(1) [OF assms]
  note f = fresh_polling_watch [OF assms]
  have e: "filter (\<lambda>q. \<not> isSuspended w q \<and> q \<noteq> request \<or> q = request) (allWatchRequests w)
      = filter (\<lambda>q. \<not> isSuspended w q) (allWatchRequests w)"
    using assms(2) by (auto intro!: filter_cong)
  note r = polls_run [OF l, of ps]
  show "spec_pathAppears ps \<Longrightarrow>
      effects (polls (nextPollingWatch w) request ps (handleDidWatchFail request w)) =
        effects (handleDidWatchFail request w) @
          [DidChangeFile [addedEvent request], UnwatchFile (request_path request),
           DoWatch (filter (\<lambda>q. \<not> isSuspended w q) (allWatchRequests w))] \<and>
      \<not> isSuspended (polls (nextPollingWatch w) request ps (handleDidWatchFail request w))
          request \<and>
      pollingDisposed (polls (nextPollingWatch w) request ps (handleDidWatchFail request w))
        (nextPollingWatch w)"
    using r by (simp add: spec_pathAppears_def f e)
  show "\<not> spec_pathAppears ps \<Longrightarrow>
      effects (polls (nextPollingWatch w) request ps (handleDidWatchFail request w)) =
        effects (handleDidWatchFail request w) \<and>
      livePolling (polls (nextPollingWatch w) request ps (handleDidWatchFail request w))
        request (nextPollingWatch w)"
    using r by (simp add: spec_pathAppears_def f)
qed

lemma not_found_then_found:
  assumes "livePolling w request n" "isPathNotFound c1" "\<not> isPathNotFound c2"
  shows "effects (watchFileCallback n request c2 p2 (watchFileCallback n request c1 p1 w)) =
           effects w @ [DidChangeFile [addedEvent request], UnwatchFile (request_path request),
             DoWatch (filter (\<lambda>q. \<not> isSuspended w q \<or> q = request) (allWatchRequests w))] \<and>
         \<not> isSuspended (watchFileCallback n request c2 p2 (watchFileCallback n request c1 p1 w))
             request \<and>
         pollingDisposed (watchFileCallback n request c2 p2 (watchFileCallback n request c1 p1 w))
           n"
proof -
  have "list_ex appearsAt (polledWith (pathNotFound (the (pollingWatches w n)))
      [(c1, p1), (c2, p2)])"
    using assms(2,3) by (simp add: polledWith_def appearsAt_def)
  then show ?thesis
    using polls_run [OF assms(1), of "[(c1, p1), (c2, p2)]"] by simp
qed

lemma created_in_one_poll:
  assumes "livePolling w request n" "isPathNotFound previous" "\<not> isPathNotFound current"
  shows "effects (watchFileCallback n request current previous w) =
           effects w @ [DidChangeFile [addedEvent request], UnwatchFile (request_path request),
             DoWatch (filter (\<lambda>q. \<not> isSuspended w q \<or> q = request) (allWatchRequests w))] \<and>
         \<not> isSuspended (watchFileCallback n request current previous w) request \<and>
         pollingDisposed (watchFileCallback n request current previous w) n"
proof -
  have "pathCreated w n current previous"
    using assms(2,3) by (simp add: pathCreated_def)
  then show ?thesis
    using callback_resumes [OF assms(1)] by simp
qed

text \<open>
  C5.  A request whose native watch failed and that has no numeric correlation id is
  not suspended: nothing changes and no polling watch is started.  A correlated request
  that is not yet suspended gets a live polling watch and is taken out of the natively
  watched set.  For any run of polls delivered to that polling watch: if the path
  appears in the run (a poll finds it while the previous stats of that poll, or the
  current stats of the poll before, did not), then exactly one \<open>ADDED\<close> event with
  the request's correlation id is fired, the polling watch is stopped, the suspension
  is removed and \<open>doWatch\<close> is called with the requests that are not suspended, this one
  among them if it is a watched request; if the path does not appear in the run, nothing
  is fired and the polling watch stays live.  For every live polling watch, whatever it
  has recorded: a poll that finds the path with previous stats that did not fires the
  event and resumes the request, and so does a poll that finds the path right after a
  poll that did not, whatever the previous stats of the two polls are (found, not
  found, found is the second and third of such polls).  No run of polls fires more than
  the one event.
\<close>

theorem suspended_request_resumes:
  "(\<not> isCorrelated request \<longrightarrow> handleDidWatchFail request w = w) \<and>
   (isCorrelated request \<and> \<not> isSuspended w request \<longrightarrow>
      livePolling (handleDidWatchFail request w) request (nextPollingWatch w) \<and>
      effects (handleDidWatchFail request w) =
        effects w @ [WatchFile (request_path request),
          DoWatch (filter (\<lambda>q. \<not> isSuspended w q \<and> q \<noteq> request) (allWatchRequests w))]) \<and>
   (isCorrelated request \<and> \<not> isSuspended w request \<and> spec_pathAppears ps \<longrightarrow>
      effects (polls (nextPollingWatch w) request ps (handleDidWatchFail request w)) =
        effects (handleDidWatchFail request w) @
          [DidChangeFile [\<lparr>change_resource = request_path request, change_type = ADDED,
                            cId = request_correlationId request\<rparr>],
           UnwatchFile (request_path request),
           DoWatch (filter (\<lambda>q. \<not> isSuspended w q) (allWatchRequests w))] \<and>
      \<not> isSuspended (polls (nextPollingWatch w) request ps (handleDidWatchFail request w))
          request \<and>
      pollingDisposed (polls (nextPollingWatch w) request ps (handleDidWatchFail request w))
        (nextPollingWatch w) \<and>
      (request \<in> set (allWatchRequests w) \<longrightarrow>
         request \<in> set (filter (\<lambda>q. \<not> isSuspended w q) (allWatchRequests w)))) \<and>
   (isCorrelated request \<and> \<not> isSuspended w request \<and> \<not> spec_pathAppears ps \<longrightarrow>
      effects (polls (nextPollingWatch w) request ps (handleDidWatchFail request w)) =
        effects (handleDidWatchFail request w) \<and>
      livePolling (polls (nextPollingWatch w) request ps (handleDidWatchFail request w))
        request (nextPollingWatch w)) \<and>
   (livePolling w request n \<and> isPathNotFound previous \<and> \<not> isPathNotFound current \<longrightarrow>
      effects (watchFileCallback n request current previous w) =
        effects w @ [DidChangeFile [\<lparr>change_resource = request_path request, change_type = ADDED,
                                     cId = request_correlationId request\<rparr>],
          UnwatchFile (request_path request),
          DoWatch (filter (\<lambda>q. \<not> isSuspended w q \<or> q = request) (allWatchRequests w))] \<and>
      \<not> isSuspended (watchFileCallback n request current previous w) request \<and>
      pollingDisposed (watchFileCallback n request current previous w) n) \<and>
   (livePolling w request n \<and> isPathNotFound c1 \<and> \<not> isPathNotFound c2 \<longrightarrow>
      effects (watchFileCallback n request c2 p2 (watchFileCallback n request c1 p1 w)) =
        effects w @ [DidChangeFile [\<lparr>change_resource = request_path request, change_type = ADDED,
                                     cId = request_correlationId request\<rparr>],
          UnwatchFile (request_path request),
          DoWatch (filter (\<lambda>q. \<not> isSuspended w q \<or> q = request) (allWatchRequests w))] \<and>
      \<not> isSuspended (watchFileCallback n request c2 p2 (watchFileCallback n request c1 p1 w))
          request \<and>
      pollingDisposed (watchFileCallback n request c2 p2 (watchFileCallback n request c1 p1 w))
        n) \<and>
   (livePolling w request n \<longrightarrow>
      firedChanges (polls n request ps w) =
        firedChanges w @
          (if pollingDisposed (polls n request ps w) n
           then [\<lparr>change_resource = request_path request, change_type = ADDED,
                   cId = request_correlationId request\<rparr>]
           else []))"
proof (intro conjI impI)
  assume "\<not> isCorrelated request"
  then show "handleDidWatchFail request w = w" by (simp add: handleDidWatchFail_def)
next
  assume a: "isCorrelated request \<and> \<not> isSuspended w request"
  then show "livePolling (handleDidWatchFail request w) request (nextPollingWatch w)"
    by (simp add: handleDidWatchFail_suspends(1))
  from a show "effects (handleDidWatchFail request w) =
        effects w @ [WatchFile (request_path request),
          DoWatch (filter (\<lambda>q. \<not> isSuspended w q \<and> q \<noteq> request) (allWatchRequests w))]"
    by (simp add: handleDidWatchFail_suspends(2))
next
  assume a: "isCorrelated request \<and> \<not> isSuspended w request \<and> spec_pathAppears ps"
  then have c: "isCorrelated request" and s: "\<not> isSuspended w request"
    and p: "spec_pathAppears ps" by simp_all
  note r = suspended_run(1) [OF c s p]
  show "effects (polls (nextPollingWatch w) request ps (handleDidWatchFail request w)) =
        effects (handleDidWatchFail request w) @
          [DidChangeFile [\<lparr>change_resource = request_path request, change_type = ADDED,
                            cId = request_correlationId request\<rparr>],
           UnwatchFile (request_path request),
           DoWatch (filter (\<lambda>q. \<not> isSuspended w q) (allWatchRequests w))]"
    using r by (simp add: addedEvent_def)
  show "\<not> isSuspended (polls (nextPollingWatch w) request ps (handleDidWatchFail request w))
          request"
    using r by simp
  show "pollingDisposed (polls (nextPollingWatch w) request ps (handleDidWatchFail request w))
        (nextPollingWatch w)"
    using r by simp
  show "request \<in> set (filter (\<lambda>q. \<not> isSuspended w q) (allWatchRequests w))"
    if "request \<in> set (allWatchRequests w)"
    using that s by simp
next
  assume a: "isCorrelated request \<and> \<not> isSuspended w request \<and> \<not> spec_pathAppears ps"
  then have c: "isCorrelated request" and s: "\<not> isSuspended w request"
    and p: "\<not> spec_pathAppears ps" by simp_all
  note r = suspended_run(2) [OF c s p]
  show "effects (polls (nextPollingWatch w) request ps (handleDidWatchFail request w)) =
        effects (handleDidWatchFail request w)"
    using r by simp
  show "livePolling (polls (nextPollingWatch w) request ps (handleDidWatchFail request w))
        request (nextPollingWatch w)"
    using r by simp
next
  assume a: "livePolling w request n \<and> isPathNotFound previous \<and> \<not> isPathNotFound current"
  then have l: "livePolling w request n" and x: "isPathNotFound previous"
    and y: "\<not> isPathNotFound current" by simp_all
  note r = created_in_one_poll [OF l x y]
  show "effects (watchFileCallback n request current previous w) =
        effects w @ [DidChangeFile [\<lparr>change_resource = request_path request, change_type = ADDED,
                                     cId = request_correlationId request\<rparr>],
          UnwatchFile (request_path request),
          DoWatch (filter (\<lambda>q. \<not> isSuspended w q \<or> q = request) (allWatchRequests w))]"
    using r by (simp add: addedEvent_def)
  show "\<not> isSuspended (watchFileCallback n request current previous w) request"
    using r by simp
  show "pollingDisposed (watchFileCallback n request current previous w) n"
    using r by simp
next
  assume a: "livePolling w request n \<and> isPathNotFound c1 \<and> \<not> isPathNotFound c2"
  then have l: "livePolling w request n" and x: "isPathNotFound c1"
    and y: "\<not> isPathNotFound c2" by simp_all
  note r = not_found_then_found [OF l x y, of p2 p1]
  show "effects (watchFileCallback n request c2 p2 (watchFileCallback n request c1 p1 w)) =
        effects w @ [DidChangeFile [\<lparr>change_resource = request_path request, change_type = ADDED,
                                     cId = request_correlationId request\<rparr>],
          UnwatchFile (request_path request),
          DoWatch (filter (\<lambda>q. \<not> isSuspended w q \<or> q = request) (allWatchRequests w))]"
    using r by (simp add: addedEvent_def)
  show "\<not> isSuspended (watchFileCallback n request c2 p2 (watchFileCallback n request c1 p1 w))
          request"
    using r by simp
  show "pollingDisposed (watchFileCallback n request c2 p2 (watchFileCallback n request c1 p1 w))
        n"
    using r by simp
next
  assume "livePolling w request n"
  then show "firedChanges (polls n request ps w) =
        firedChanges w @
          (if pollingDisposed (polls n request ps w) n
           then [\<lparr>change_resource = request_path request, change_type = ADDED,
                   cId = request_correlationId request\<rparr>]
           else [])"
    using polls_fire_once [of w request n ps] by (simp add: addedEvent_def)
qed

text \<open>A correlated request for \<open>/tmp/x\<close>, one without correlation id, and the stats of
  a missing and of an existing path.\<close>

definition sample_request :: IUniversalWatchRequest where
  "sample_request = \<lparr>request_ref = 1, request_path = ''/tmp/x'', request_correlationId = Some 5\<rparr>"

definition sample_uncorrelated :: IUniversalWatchRequest where
  "sample_uncorrelated = \<lparr>request_ref = 2, request_path = ''/tmp/y'', request_correlationId = None\<rparr>"

definition stats_missing :: Stats where
  "stats_missing = \<lparr>ctimeMs = 0, ino = 0\<rparr>"

definition stats_present :: Stats where
  "stats_present = \<lparr>ctimeMs = 1700000000000, ino = 42\<rparr>"

text \<open>The watcher of both requests, and the same after the native watch of the
  correlated one failed.\<close>

definition sample_watcher :: BaseWatcher where
  "sample_watcher = watch [sample_request, sample_uncorrelated] newWatcher"

definition sample_suspended :: BaseWatcher where
  "sample_suspended = handleDidWatchFail sample_request sample_watcher"

lemmas watcher_defs =
  handleDidWatchFail_def suspendWatchRequest_def updateWatchers_def watch_def newWatcher_def
  isSuspended_def isCorrelated_def watchFileCallback_def resumeWatchRequest_def
  deleteAndDispose_def isPathNotFound_def firedChanges_def livePolling_def pollingDisposed_def
  sample_request_def sample_uncorrelated_def stats_missing_def stats_present_def
  sample_watcher_def sample_suspended_def

text \<open>The theorem on that watcher.  The path is seen existing, then missing, then
  existing again with previous stats that exist as well (found, not found, found): one
  event.  Seen existing and then missing: no event.  Polled twice more after the
  event: still one event.\<close>

theorem suspended_request_resumes_witness:
  "handleDidWatchFail sample_uncorrelated sample_watcher = sample_watcher
   \<and> livePolling sample_suspended sample_request 0
   \<and> effects sample_suspended
       = [DoWatch [sample_request, sample_uncorrelated],
          WatchFile ''/tmp/x'', DoWatch [sample_uncorrelated]]
   \<and> effects (polls 0 sample_request
        [(stats_present, stats_present), (stats_missing, stats_present),
         (stats_present, stats_present)] sample_suspended)
     = [DoWatch [sample_request, sample_uncorrelated],
        WatchFile ''/tmp/x'', DoWatch [sample_uncorrelated],
        DidChangeFile [\<lparr>change_resource = ''/tmp/x'', change_type = ADDED, cId = Some 5\<rparr>],
        UnwatchFile ''/tmp/x'', DoWatch [sample_request, sample_uncorrelated]]
   \<and> effects (polls 0 sample_request
        [(stats_present, stats_present), (stats_missing, stats_present)] sample_suspended)
     = effects sample_suspended
   \<and> effects (watchFileCallback 0 sample_request stats_present stats_missing sample_suspended)
     = [DoWatch [sample_request, sample_uncorrelated],
        WatchFile ''/tmp/x'', DoWatch [sample_uncorrelated],
        DidChangeFile [\<lparr>change_resource = ''/tmp/x'', change_type = ADDED, cId = Some 5\<rparr>],
        UnwatchFile ''/tmp/x'', DoWatch [sample_request, sample_uncorrelated]]
   \<and> effects (watchFileCallback 0 sample_request stats_present stats_present
        (watchFileCallback 0 sample_request stats_missing stats_present sample_suspended))
     = [DoWatch [sample_request, sample_uncorrelated],
        WatchFile ''/tmp/x'', DoWatch [sample_uncorrelated],
        DidChangeFile [\<lparr>change_resource = ''/tmp/x'', change_type = ADDED, cId = Some 5\<rparr>],
        UnwatchFile ''/tmp/x'', DoWatch [sample_request, sample_uncorrelated]]
   \<and> firedChanges (polls 0 sample_request
        [(stats_present, stats_present), (stats_missing, stats_present),
         (stats_present, stats_present), (stats_missing, stats_present),
         (stats_present, stats_missing)] sample_suspended)
     = [\<lparr>change_resource = ''/tmp/x'', change_type = ADDED, cId = Some 5\<rparr>]"
proof -
  let ?rename = "[(stats_present, stats_present), (stats_missing, stats_present),
         (stats_present, stats_present)]"
  let ?gone = "[(stats_present, stats_present), (stats_missing, stats_present)]"
  let ?long = "[(stats_present, stats_present), (stats_missing, stats_present),
         (stats_present, stats_present), (stats_missing, stats_present),
         (stats_present, stats_missing)]"
  have u: "\<not> isCorrelated sample_uncorrelated"
    by (simp add: isCorrelated_def sample_uncorrelated_def)
  have c: "isCorrelated sample_request"
    by (simp add: isCorrelated_def sample_request_def)
  have s: "\<not> isSuspended sample_watcher sample_request"
    by (simp add: watcher_defs)
  have n: "nextPollingWatch sample_watcher = 0"
    by (simp add: watcher_defs)
  have e: "effects sample_watcher = [DoWatch [sample_request, sample_uncorrelated]]"
    by (simp add: watcher_defs)
  have a: "allWatchRequests sample_watcher = [sample_request, sample_uncorrelated]"
    by (simp add: watcher_defs)
  have f1: "filter (\<lambda>q. \<not> isSuspended sample_watcher q \<and> q \<noteq> sample_request)
      (allWatchRequests sample_watcher) = [sample_uncorrelated]"
    by (simp add: watcher_defs)
  have f2: "filter (\<lambda>q. \<not> isSuspended sample_watcher q) (allWatchRequests sample_watcher)
      = [sample_request, sample_uncorrelated]"
    by (simp add: watcher_defs)
  have m: "isPathNotFound stats_missing" "\<not> isPathNotFound stats_present"
    by (simp_all add: isPathNotFound_def stats_missing_def stats_present_def)
  have p1: "spec_pathAppears ?rename"
    by (simp add: spec_pathAppears_def polledWith_def appearsAt_def m)
  have p2: "\<not> spec_pathAppears ?gone"
    by (simp add: spec_pathAppears_def polledWith_def appearsAt_def m)
  note t = suspended_request_resumes [where request = sample_request and w = sample_watcher]
  have l: "livePolling sample_suspended sample_request 0"
    and es: "effects sample_suspended
       = [DoWatch [sample_request, sample_uncorrelated],
          WatchFile ''/tmp/x'', DoWatch [sample_uncorrelated]]"
    using t [where ps = ?rename] c s n e f1
    by (simp_all add: sample_suspended_def sample_request_def)
  have f3: "filter (\<lambda>q. \<not> isSuspended sample_suspended q \<or> q = sample_request)
      (allWatchRequests sample_suspended) = [sample_request, sample_uncorrelated]"
    by (simp add: watcher_defs)
  note v = suspended_request_resumes [where request = sample_request and w = sample_suspended
      and n = 0]
  have "handleDidWatchFail sample_uncorrelated sample_watcher = sample_watcher"
    using suspended_request_resumes [where request = sample_uncorrelated and w = sample_watcher] u
    by blast
  moreover have "effects (polls 0 sample_request ?rename sample_suspended)
     = [DoWatch [sample_request, sample_uncorrelated],
        WatchFile ''/tmp/x'', DoWatch [sample_uncorrelated],
        DidChangeFile [\<lparr>change_resource = ''/tmp/x'', change_type = ADDED, cId = Some 5\<rparr>],
        UnwatchFile ''/tmp/x'', DoWatch [sample_request, sample_uncorrelated]]"
    using t [where ps = ?rename] c s p1 n es f2
    by (simp add: sample_suspended_def [symmetric]) (simp add: sample_request_def)
  moreover have "effects (polls 0 sample_request ?gone sample_suspended)
     = effects sample_suspended"
    using t [where ps = ?gone] c s p2 n
    by (simp add: sample_suspended_def [symmetric])
  moreover have "effects (watchFileCallback 0 sample_request stats_present stats_missing
        sample_suspended)
     = [DoWatch [sample_request, sample_uncorrelated],
        WatchFile ''/tmp/x'', DoWatch [sample_uncorrelated],
        DidChangeFile [\<lparr>change_resource = ''/tmp/x'', change_type = ADDED, cId = Some 5\<rparr>],
        UnwatchFile ''/tmp/x'', DoWatch [sample_request, sample_uncorrelated]]"
    using v [where previous = stats_missing and current = stats_present] l m es f3
    by (simp add: sample_request_def)
  moreover have "effects (watchFileCallback 0 sample_request stats_present stats_present
        (watchFileCallback 0 sample_request stats_missing stats_present sample_suspended))
     = [DoWatch [sample_request, sample_uncorrelated],
        WatchFile ''/tmp/x'', DoWatch [sample_uncorrelated],
        DidChangeFile [\<lparr>change_resource = ''/tmp/x'', change_type = ADDED, cId = Some 5\<rparr>],
        UnwatchFile ''/tmp/x'', DoWatch [sample_request, sample_uncorrelated]]"
    using v [where ?c1.0 = stats_missing and ?c2.0 = stats_present and ?p1.0 = stats_present
        and ?p2.0 = stats_present] l m es f3
    by (simp add: sample_request_def)
  moreover have "firedChanges (polls 0 sample_request ?long sample_suspended)
     = [\<lparr>change_resource = ''/tmp/x'', change_type = ADDED, cId = Some 5\<rparr>]"
  proof -
    have d: "pollingDisposed (polls 0 sample_request ?long sample_suspended) 0"
      by (simp add: watcher_defs Let_def)
    have "firedChanges sample_suspended = []"
      by (simp add: firedChanges_def es)
    then show ?thesis
      using v [where ps = ?long] l d by (simp add: sample_request_def)
  qed
  ultimately show ?thesis using l es by blast
qed

section \<open>Properties of move and copy\<close>

text \<open>What the code takes for a case-rename: the provider is not case-sensitive and
  the two resources are equal when case is ignored.  Identical resources are included.\<close>

definition isCaseChange ::
  "(16 word \<Rightarrow> 16 word) \<Rightarrow> IFileSystemProvider \<Rightarrow> URI \<Rightarrow> URI \<Rightarrow> bool" where
  "isCaseChange lower provider source target =
     (\<not> PathCaseSensitive provider \<and> isEqual lower source target True)"

text \<open>The claim's words, a pure case-rename: the two resources differ, and only in the
  case of their letters.\<close>

definition spec_pureCaseRename :: "(16 word \<Rightarrow> 16 word) \<Rightarrow> URI \<Rightarrow> URI \<Rightarrow> bool" where
  "spec_pureCaseRename lower source target =
     (source \<noteq> target \<and> isEqual lower source target True)"

subsection \<open>The checks of the validation\<close>

lemma isPrefix_refl: "isPrefix xs xs"
  by (induction xs) simp_all

lemma isEqual_refl: "isEqual lower u u ignoreCase"
  by (simp add: isEqual_def)

lemma isEqualOrParent_refl: "isEqualOrParent lower u u ignoreCase"
  by (simp add: isEqualOrParent_def isPrefix_refl)

lemma validate_source_parent:
  assumes "\<not> isCaseChange lower provider source target"
    "isEqualOrParent lower target source (\<not> PathCaseSensitive provider)"
  shows "doValidateMoveCopy fs lower provider source target overwrite =
     Inl (PlainError ''Unable to move/copy when source path is equal or parent of target path'')"
  using assms by (auto simp add: doValidateMoveCopy_def isCaseChange_def Let_def)

lemma validate_conflict:
  assumes "\<not> isCaseChange lower provider source target"
    "\<not> isEqualOrParent lower target source (\<not> PathCaseSensitive provider)"
    "existsFile fs target" "\<not> overwrite"
  shows "doValidateMoveCopy fs lower provider source target overwrite =
     Inl (FileOperationError ''Unable to move/copy. File already exists at destination.''
            FILE_MOVE_CONFLICT)"
  using assms by (auto simp add: doValidateMoveCopy_def isCaseChange_def Let_def)

lemma validate_target_parent:
  assumes "\<not> isCaseChange lower provider source target"
    "\<not> isEqualOrParent lower target source (\<not> PathCaseSensitive provider)"
    "existsFile fs target" "overwrite"
    "isEqualOrParent lower source target (\<not> PathCaseSensitive provider)"
  shows "doValidateMoveCopy fs lower provider source target overwrite =
     Inl (PlainError ''Unable to move/copy. File would replace folder it is contained in.'')"
  using assms by (auto simp add: doValidateMoveCopy_def isCaseChange_def Let_def)

lemma validate_overwrite:
  assumes "\<not> isCaseChange lower provider source target"
    "\<not> isEqualOrParent lower target source (\<not> PathCaseSensitive provider)"
    "existsFile fs target" "overwrite"
    "\<not> isEqualOrParent lower source target (\<not> PathCaseSensitive provider)"
  shows "doValidateMoveCopy fs lower provider source target overwrite = Inr (True, False)"
  using assms by (auto simp add: doValidateMoveCopy_def isCaseChange_def Let_def)

lemma validate_case_change:
  assumes "isCaseChange lower provider source target"
  shows "doValidateMoveCopy fs lower provider source target overwrite
     = Inr (existsFile fs target, True)"
  using assms by (auto simp add: doValidateMoveCopy_def isCaseChange_def Let_def)

text \<open>A resource onto itself.  With a case-sensitive provider the first check rejects
  it, as its message says.  With a provider that is not case-sensitive the same pair
  counts as a case-rename, whatever \<open>lower\<close> is, and passes both checks.\<close>

lemma validate_same_case_sensitive:
  "PathCaseSensitive provider \<Longrightarrow>
   doValidateMoveCopy fs lower provider u u overwrite =
     Inl (PlainError ''Unable to move/copy when source path is equal or parent of target path'')"
  by (rule validate_source_parent) (simp_all add: isCaseChange_def isEqualOrParent_refl)

lemma validate_same_case_insensitive:
  "\<not> PathCaseSensitive provider \<Longrightarrow>
   doValidateMoveCopy fs lower provider u u overwrite = Inr (existsFile fs u, True)"
  by (rule validate_case_change) (simp add: isCaseChange_def isEqual_refl)

subsection \<open>A resource moved or copied onto itself\<close>

text \<open>The lower-case form of the ASCII letters; other code units are left as they
  are.  A provider for the scheme \<open>file\<close> that is not case-sensitive and can read and
  write, and the same provider case-sensitive; a file system where every resource exists
  and no call fails.\<close>

definition asciiLower :: "16 word \<Rightarrow> 16 word" where
  "asciiLower c = (if 0x41 \<le> c \<and> c \<le> 0x5A then c + 0x20 else c)"

definition sample_provider :: IFileSystemProvider where
  "sample_provider = \<lparr>PathCaseSensitive = False, Readonly = False, FileFolderCopy = False,
     FileOpenReadWriteClose = False, FileReadWrite = True\<rparr>"

definition sample_providers :: "jsstring \<rightharpoonup> IFileSystemProvider" where
  "sample_providers = [ascii ''file'' \<mapsto> sample_provider]"

definition case_sensitive_providers :: "jsstring \<rightharpoonup> IFileSystemProvider" where
  "case_sensitive_providers = [ascii ''file'' \<mapsto> sample_provider\<lparr>PathCaseSensitive := True\<rparr>]"

definition sample_fs :: FileSystem where
  "sample_fs = \<lparr>existsFile = (\<lambda>u. True), callFails = (\<lambda>c. False)\<rparr>"

definition file_uri :: "string list \<Rightarrow> URI" where
  "file_uri segments = \<lparr>uri_scheme = ascii ''file'', uri_path = map ascii segments\<rparr>"

lemmas move_copy_defs =
  moveFile_def copyFile_def withProvider_def throwIfFileSystemIsReadonly_def andThen_def
  resolveAndSendEvents_def doMoveCopy_def dirname_def sample_provider_def sample_providers_def
  case_sensitive_providers_def sample_fs_def file_uri_def

text \<open>
  C6.  The claim has a move or copy rejected, before any call that changes files, when
  the source equals the target and the pair is no pure case-rename; the comment and the
  message of the first check of \<open>doValidateMoveCopy\<close> say the same, and with a
  case-sensitive provider the check does it.  With a provider that is not case-sensitive
  the code does not: \<open>/a\<close> onto \<open>/a\<close> is no pure case-rename and the source equals the
  target, yet \<open>moveFile\<close> creates the parent, has the provider rename \<open>/a\<close> to \<open>/a\<close>, and
  fires the event of a finished move, and \<open>copyFile\<close> has the file written onto itself.
  The same provider rejects \<open>/a\<close> onto \<open>/a/sub\<close>, and the case-sensitive provider rejects
  \<open>/a\<close> onto \<open>/a\<close>, both before any call.
\<close>

theorem move_onto_itself_not_rejected:
  "\<not> spec_pureCaseRename asciiLower (file_uri [''a'']) (file_uri [''a''])
   \<and> isEqualOrParent asciiLower (file_uri [''a'']) (file_uri [''a'']) True
   \<and> moveFile sample_fs sample_providers asciiLower (file_uri [''a'']) (file_uri [''a'']) False
     = (None, [Mkdirp (file_uri []),
               ProviderRename (file_uri [''a'']) (file_uri [''a'']) False,
               ResolveFile (file_uri [''a'']),
               AfterOperation (file_uri [''a'']) MOVE (file_uri [''a''])])
   \<and> copyFile sample_fs sample_providers asciiLower (file_uri [''a'']) (file_uri [''a'']) False
     = (None, [Mkdirp (file_uri []),
               ReadThenWriteFile (file_uri [''a'']) (file_uri [''a'']) False,
               ResolveFile (file_uri [''a'']),
               AfterOperation (file_uri [''a'']) COPY (file_uri [''a''])])
   \<and> moveFile sample_fs sample_providers asciiLower (file_uri [''a''])
       (file_uri [''a'', ''sub'']) False
     = (Some (PlainError
          ''Unable to move/copy when source path is equal or parent of target path''), [])
   \<and> moveFile sample_fs case_sensitive_providers asciiLower (file_uri [''a''])
       (file_uri [''a'']) False
     = (Some (PlainError
          ''Unable to move/copy when source path is equal or parent of target path''), [])
   \<and> copyFile sample_fs case_sensitive_providers asciiLower (file_uri [''a''])
       (file_uri [''a'']) False
     = (Some (PlainError
          ''Unable to move/copy when source path is equal or parent of target path''), [])"
proof -
  have i: "doValidateMoveCopy sample_fs asciiLower sample_provider (file_uri [''a''])
      (file_uri [''a'']) False = Inr (True, True)"
    using validate_same_case_insensitive [of sample_provider sample_fs asciiLower
        "file_uri [''a'']" False]
    by (simp add: sample_provider_def sample_fs_def)
  have s: "doValidateMoveCopy sample_fs asciiLower (sample_provider\<lparr>PathCaseSensitive := True\<rparr>)
      (file_uri [''a'']) (file_uri [''a'']) False =
      Inl (PlainError ''Unable to move/copy when source path is equal or parent of target path'')"
    by (rule validate_same_case_sensitive) simp
  have n: "normalizeCase asciiLower True (file_uri [''a'']) = file_uri [''a'']"
    "normalizeCase asciiLower True (file_uri [''a'', ''sub'']) = file_uri [''a'', ''sub'']"
    by (simp_all add: normalizeCase_def file_uri_def asciiLower_def ascii_def)
  have d: "file_uri [''a''] \<noteq> file_uri [''a'', ''sub'']"
    by (simp add: file_uri_def)
  have p: "doValidateMoveCopy sample_fs asciiLower sample_provider (file_uri [''a''])
      (file_uri [''a'', ''sub'']) False =
      Inl (PlainError ''Unable to move/copy when source path is equal or parent of target path'')"
    by (rule validate_source_parent)
      (simp_all add: isCaseChange_def isEqual_def isEqualOrParent_def n d sample_provider_def,
        simp_all add: file_uri_def)
  have "\<not> spec_pureCaseRename asciiLower (file_uri [''a'']) (file_uri [''a''])"
    by (simp add: spec_pureCaseRename_def)
  moreover have "isEqualOrParent asciiLower (file_uri [''a'']) (file_uri [''a'']) True"
    by (rule isEqualOrParent_refl)
  moreover have "moveFile sample_fs sample_providers asciiLower (file_uri [''a''])
      (file_uri [''a'']) False
     = (None, [Mkdirp (file_uri []),
               ProviderRename (file_uri [''a'']) (file_uri [''a'']) False,
               ResolveFile (file_uri [''a'']),
               AfterOperation (file_uri [''a'']) MOVE (file_uri [''a''])])"
    using i by (simp add: move_copy_defs)
  moreover have "copyFile sample_fs sample_providers asciiLower (file_uri [''a''])
      (file_uri [''a'']) False
     = (None, [Mkdirp (file_uri []),
               ReadThenWriteFile (file_uri [''a'']) (file_uri [''a'']) False,
               ResolveFile (file_uri [''a'']),
               AfterOperation (file_uri [''a'']) COPY (file_uri [''a''])])"
    using i by (simp add: move_copy_defs)
  moreover have "moveFile sample_fs sample_providers asciiLower (file_uri [''a''])
       (file_uri [''a'', ''sub'']) False
     = (Some (PlainError
          ''Unable to move/copy when source path is equal or parent of target path''), [])"
    using p by (simp add: move_copy_defs)
  moreover have "moveFile sample_fs case_sensitive_providers asciiLower (file_uri [''a''])
       (file_uri [''a'']) False
     = (Some (PlainError
          ''Unable to move/copy when source path is equal or parent of target path''), [])"
    using s by (simp add: move_copy_defs)
  moreover have "copyFile sample_fs case_sensitive_providers asciiLower (file_uri [''a''])
       (file_uri [''a'']) False
     = (Some (PlainError
          ''Unable to move/copy when source path is equal or parent of target path''), [])"
    using s by (simp add: move_copy_defs)
  ultimately show ?thesis by (intro conjI)
qed

section \<open>Properties of the language-pack resolver\<close>

text \<open>The condition of the early return.\<close>

definition returnsEarly :: "'w NodeHost \<Rightarrow> IResolveNLSConfigurationContext \<Rightarrow> bool" where
  "returnsEarly host ctx =
     (truthy (VSCODE_DEV host) \<or> userLocale ctx = ''pseudo'' \<or> userLocale ctx = ''en''
      \<or> userLocale ctx = ''en-us'' \<or> \<not> truthy (commit ctx) \<or> \<not> truthy (userDataPath ctx))"

lemma resolve_early:
  assumes "returnsEarly host ctx"
  shows "resolveNLSConfiguration host ctx w =
     (Returns (defaultNLSConfiguration host (userLocale ctx) (osLocale ctx)
                 (nlsMetadataPath ctx)), w)"
  using assms unfolding resolveNLSConfiguration_def returnsEarly_def by (simp only: if_True)

lemma resolve_late:
  assumes "\<not> returnsEarly host ctx"
  shows "resolveNLSConfiguration host ctx w =
     (case tryResolve host ctx (the (userDataPath ctx)) (the (commit ctx)) w of
        (Returns config, w') \<Rightarrow> (Returns config, w')
      | (Throws err, w') \<Rightarrow>
          (Returns (defaultNLSConfiguration host (userLocale ctx) (osLocale ctx)
                      (nlsMetadataPath ctx)), w')
      | (UnhandledRejection err, w') \<Rightarrow> (UnhandledRejection err, w'))"
  using assms unfolding resolveNLSConfiguration_def returnsEarly_def by (simp only: if_False)

text \<open>What the \<open>try\<close> block throws never leaves \<open>resolveNLSConfiguration\<close>.\<close>

lemma resolve_never_throws: "fst (resolveNLSConfiguration host ctx w) \<noteq> Throws err"
proof (cases "returnsEarly host ctx")
  case True
  then show ?thesis by (simp add: resolve_early)
next
  case False
  obtain r w' where t: "tryResolve host ctx (the (userDataPath ctx)) (the (commit ctx)) w = (r, w')"
    by (cases "tryResolve host ctx (the (userDataPath ctx)) (the (commit ctx)) w")
  show ?thesis
    by (cases r) (simp_all add: resolve_late [OF False] t)
qed

text \<open>The default configuration for a missing or unparseable \<open>languagepacks.json\<close>,
  for a locale that does not resolve, and for a pack without hash, translations, main
  translation file or access to it.\<close>

lemma no_packs_file:
  "fs_readFile host w (path_join host [dataPath, ''languagepacks.json'']) = None \<or>
   (\<exists>content. fs_readFile host w (path_join host [dataPath, ''languagepacks.json''])
        = Some content \<and> parse_languagePacks host content = None)
   \<Longrightarrow> getLanguagePackConfigurations host w dataPath = None"
  by (auto simp add: getLanguagePackConfigurations_def Let_def)

lemma try_no_packs:
  "getLanguagePackConfigurations host w dataPath = None \<Longrightarrow>
   fst (tryResolve host ctx dataPath commitId w) =
     Returns (defaultNLSConfiguration host (userLocale ctx) (osLocale ctx) (nlsMetadataPath ctx))"
  by (simp add: tryResolve_def)

lemma try_no_locale:
  "getLanguagePackConfigurations host w dataPath = Some packs \<Longrightarrow>
   resolveLanguagePackLocale packs (userLocale ctx) = None \<Longrightarrow>
   fst (tryResolve host ctx dataPath commitId w) =
     Returns (defaultNLSConfiguration host (userLocale ctx) (osLocale ctx) (nlsMetadataPath ctx))"
  by (simp add: tryResolve_def)

lemma try_no_translations:
  "getLanguagePackConfigurations host w dataPath = Some packs \<Longrightarrow>
   resolveLanguagePackLocale packs (userLocale ctx) = Some loc \<Longrightarrow>
   packs loc = Some pack \<Longrightarrow>
   pack_hash pack = None \<or> pack_translations pack = None \<or>
   map_of (the (pack_translations pack)) ''vscode'' = None \<or>
   \<not> fs_access host w (the (map_of (the (pack_translations pack)) ''vscode'')) \<Longrightarrow>
   fst (tryResolve host ctx dataPath commitId w) =
     Returns (defaultNLSConfiguration host (userLocale ctx) (osLocale ctx) (nlsMetadataPath ctx))"
  by (auto simp add: tryResolve_def fs_exists_def Let_def split: option.splits)

text \<open>The generation of the cache.  A failing read or parse is thrown, and so caught,
  when \<open>mkdirp\<close> is fulfilled; a rejection of \<open>mkdirp\<close> before it is awaited is an
  unhandled rejection, whatever the reads do.\<close>

lemma generateCache_mkdir_early:
  "fst (fs_mkdir host w cachePath) = RejectedBeforeAwaited \<Longrightarrow>
   fst (generateCache host w metadataPath mainPath cachePath messagesPath translationsPath ts)
     = UnhandledRejection (Error ''mkdir'')"
  by (simp add: generateCache_def Let_def split_beta split: option.splits)

lemma generateCache_read_failure:
  "fst (fs_mkdir host w cachePath) = Fulfilled \<Longrightarrow>
   Option.bind (fs_readFile host (snd (fs_mkdir host w cachePath))
       (path_join host [metadataPath, ''nls.keys.json''])) (parse_keys host) = None \<Longrightarrow>
   fst (generateCache host w metadataPath mainPath cachePath messagesPath translationsPath ts)
     = Throws (Error ''nls.keys.json'')"
  by (simp add: generateCache_def Let_def split_beta)

subsection \<open>A language pack whose cache folder cannot be made\<close>

text \<open>
  A host whose files are a map from path to content, with the way \<open>mkdir\<close> ends as a
  parameter.  The French language pack is installed, its translation file exists, and
  the metadata directory \<open>/app\<close> holds the keys and the default messages; no cache has
  been generated yet.
\<close>

definition sample_host :: "settled \<Rightarrow> (string \<rightharpoonup> string) NodeHost" where
  "sample_host mkdirEnds =
     \<lparr>VSCODE_DEV = None, path_join = join ''/'',
       fs_access = (\<lambda>w p. w p \<noteq> None), fs_readFile = (\<lambda>w p. w p),
       fs_rm = (\<lambda>w p. (True, w(p := None))),
       fs_mkdir = (\<lambda>w p. (mkdirEnds, if mkdirEnds = Fulfilled then w(p \<mapsto> []) else w)),
       fs_writeFile = (\<lambda>w p c. (True, w(p \<mapsto> c))), fs_utimes = (\<lambda>w p. w),
       parse_languagePacks = (\<lambda>c. if c = ''packs''
          then Some [''fr'' \<mapsto> \<lparr>pack_hash = Some ''h1'',
                 pack_translations = Some [(''vscode'', ''/ext/main.i18n.json'')]\<rparr>]
          else None),
       parse_keys = (\<lambda>c. if c = ''keys'' then Some [(''mod'', [''k1'', ''k2''])] else None),
       parse_messages = (\<lambda>c. if c = ''messages'' then Some [''one'', ''two''] else None),
       parse_packdata = (\<lambda>c. if c = ''pack'' then Some [''mod'' \<mapsto> [''k1'' \<mapsto> ''un'']] else None),
       stringify_messages = (\<lambda>ms. concat (map (\<lambda>m. case m of None \<Rightarrow> ''null,'' | Some t \<Rightarrow> t @ '','') ms)),
       stringify_translations = (\<lambda>ts. concat (map (\<lambda>(k, v). k @ '':'' @ v @ '','') ts))\<rparr>"

definition sample_files :: "string \<rightharpoonup> string" where
  "sample_files = [''/data/languagepacks.json'' \<mapsto> ''packs'', ''/ext/main.i18n.json'' \<mapsto> ''pack'',
     ''/app/nls.keys.json'' \<mapsto> ''keys'', ''/app/nls.messages.json'' \<mapsto> ''messages'']"

definition files_without_keys :: "string \<rightharpoonup> string" where
  "files_without_keys = [''/data/languagepacks.json'' \<mapsto> ''packs'',
     ''/ext/main.i18n.json'' \<mapsto> ''pack'', ''/app/nls.messages.json'' \<mapsto> ''messages'']"

definition sample_context :: "string \<Rightarrow> IResolveNLSConfigurationContext" where
  "sample_context user =
     \<lparr>userLocale = user, osLocale = ''en-gb'', userDataPath = Some ''/data'',
       commit = Some ''abc'', nlsMetadataPath = ''/app''\<rparr>"

definition sample_default :: "string \<Rightarrow> INLSConfiguration" where
  "sample_default user =
     \<lparr>nls_userLocale = user, nls_osLocale = ''en-gb'', resolvedLocale = ''en'',
       languagePack = None, defaultMessagesFile = ''/app/nls.messages.json''\<rparr>"

definition sample_french :: INLSConfiguration where
  "sample_french =
     \<lparr>nls_userLocale = ''fr-CA'', nls_osLocale = ''en-gb'', resolvedLocale = ''fr'',
       languagePack = Some
         \<lparr>translationsConfigFile = ''/data/clp/h1.fr/tcf.json'',
           messagesFile = ''/data/clp/h1.fr/abc/nls.messages.json'',
           corruptMarkerFile = ''/data/clp/h1.fr/corrupted.info''\<rparr>,
       defaultMessagesFile = ''/app/nls.messages.json''\<rparr>"

lemma sample_locale:
  "resolveLanguagePackLocale [''fr'' \<mapsto> p] ''fr-CA'' = Some ''fr''"
  by (simp add: resolveLanguagePackLocale.simps lastIndexOf_def eval_nat_numeral)

lemma sample_late: "\<not> returnsEarly (sample_host m) (sample_context ''fr-CA'')"
  by (simp add: returnsEarly_def truthy_def sample_host_def sample_context_def)

lemma sample_try:
  assumes "stored ''/data/languagepacks.json'' = Some ''packs''"
    "stored ''/ext/main.i18n.json'' = Some ''pack''"
    "stored ''/data/clp/h1.fr/corrupted.info'' = None"
    "stored ''/data/clp/h1.fr/abc'' = None"
  shows "tryResolve (sample_host m) (sample_context ''fr-CA'') ''/data'' ''abc'' stored =
     (case generateCache (sample_host m) stored ''/app'' ''/ext/main.i18n.json''
             ''/data/clp/h1.fr/abc'' ''/data/clp/h1.fr/abc/nls.messages.json''
             ''/data/clp/h1.fr/tcf.json'' [(''vscode'', ''/ext/main.i18n.json'')] of
        (Returns u, w2) \<Rightarrow> (Returns sample_french, w2)
      | (Throws err, w2) \<Rightarrow> (Throws err, w2)
      | (UnhandledRejection err, w2) \<Rightarrow> (UnhandledRejection err, w2))"
proof -
  have p: "getLanguagePackConfigurations (sample_host m) stored ''/data''
     = Some [''fr'' \<mapsto> \<lparr>pack_hash = Some ''h1'',
               pack_translations = Some [(''vscode'', ''/ext/main.i18n.json'')]\<rparr>]"
    using assms(1) by (simp add: getLanguagePackConfigurations_def sample_host_def)
  have j: "path_join (sample_host m) = join ''/''"
    and a: "fs_exists (sample_host m) stored q = (stored q \<noteq> None)" for q
    by (simp_all add: sample_host_def fs_exists_def)
  have c: "userLocale (sample_context ''fr-CA'') = ''fr-CA''"
    "osLocale (sample_context ''fr-CA'') = ''en-gb''"
    "nlsMetadataPath (sample_context ''fr-CA'') = ''/app''"
    by (simp_all add: sample_context_def)
  show ?thesis
    unfolding tryResolve_def p
    by (simp add: sample_locale c j a assms sample_french_def Let_def
        split: prod.splits completion.splits)
qed

lemma sample_files_paths:
  "sample_files ''/data/languagepacks.json'' = Some ''packs''"
  "sample_files ''/ext/main.i18n.json'' = Some ''pack''"
  "sample_files ''/data/clp/h1.fr/corrupted.info'' = None"
  "sample_files ''/data/clp/h1.fr/abc'' = None"
  "files_without_keys ''/data/languagepacks.json'' = Some ''packs''"
  "files_without_keys ''/ext/main.i18n.json'' = Some ''pack''"
  "files_without_keys ''/data/clp/h1.fr/corrupted.info'' = None"
  "files_without_keys ''/data/clp/h1.fr/abc'' = None"
  by (simp_all add: sample_files_def files_without_keys_def)

lemma sample_generate:
  "fst (generateCache (sample_host RejectedBeforeAwaited) sample_files ''/app''
      ''/ext/main.i18n.json'' c m t ts) = UnhandledRejection (Error ''mkdir'')"
  "fst (generateCache (sample_host RejectedWhenAwaited) sample_files ''/app''
      ''/ext/main.i18n.json'' c m t ts) = Throws (Error ''mkdir'')"
  "fst (generateCache (sample_host Fulfilled) files_without_keys ''/app''
      ''/ext/main.i18n.json'' ''/data/clp/h1.fr/abc'' m t ts) = Throws (Error ''nls.keys.json'')"
  "fst (generateCache (sample_host Fulfilled) sample_files ''/app''
      ''/ext/main.i18n.json'' ''/data/clp/h1.fr/abc'' m t ts) = Returns ()"
  by (simp_all add: generateCache_def sample_host_def sample_files_def files_without_keys_def
      split_beta Let_def)

lemma sample_resolve:
  assumes "stored ''/data/languagepacks.json'' = Some ''packs''"
    "stored ''/ext/main.i18n.json'' = Some ''pack''"
    "stored ''/data/clp/h1.fr/corrupted.info'' = None"
    "stored ''/data/clp/h1.fr/abc'' = None"
  shows "fst (resolveNLSConfiguration (sample_host m) (sample_context ''fr-CA'') stored) =
     (case fst (generateCache (sample_host m) stored ''/app'' ''/ext/main.i18n.json''
             ''/data/clp/h1.fr/abc'' ''/data/clp/h1.fr/abc/nls.messages.json''
             ''/data/clp/h1.fr/tcf.json'' [(''vscode'', ''/ext/main.i18n.json'')]) of
        Returns u \<Rightarrow> Returns sample_french
      | Throws err \<Rightarrow> Returns (sample_default ''fr-CA'')
      | UnhandledRejection err \<Rightarrow> UnhandledRejection err)"
proof -
  have d: "defaultNLSConfiguration (sample_host m) (userLocale (sample_context ''fr-CA''))
     (osLocale (sample_context ''fr-CA'')) (nlsMetadataPath (sample_context ''fr-CA''))
     = sample_default ''fr-CA''"
    by (simp add: defaultNLSConfiguration_def sample_host_def sample_context_def
        sample_default_def)
  have u: "the (userDataPath (sample_context ''fr-CA'')) = ''/data''"
    "the (commit (sample_context ''fr-CA'')) = ''abc''"
    by (simp_all add: sample_context_def)
  show ?thesis
    unfolding resolve_late [OF sample_late] u sample_try [OF assms] d
    by (simp split: prod.splits completion.splits)
qed

text \<open>
  C4.  The claim has every failure along the language-pack path, the generation of the
  cache included, end in the default configuration and not in an error, and the
  \<open>catch\<close> of \<open>resolveNLSConfiguration\<close> is written for that.  One failure escapes it.
  The user locale is \<open>fr-CA\<close>, the French pack is installed with its translation file,
  the keys and default messages are in place, and no cache exists yet; the folder of the
  cache cannot be made, and \<open>mkdirp\<close> rejects while the keys are being read.  Its promise
  has no handler then, and the run ends in an unhandled rejection, not in the default
  configuration.  On the same stored the default configuration is returned when \<open>mkdirp\<close>
  rejects only once \<open>Promise.all\<close> awaits it, and also when \<open>mkdirp\<close> succeeds and
  \<open>nls.keys.json\<close> is missing; when nothing fails the French configuration is returned.
\<close>

theorem cache_folder_failure_unhandled:
  "fst (resolveNLSConfiguration (sample_host RejectedBeforeAwaited) (sample_context ''fr-CA'')
          sample_files)
     = UnhandledRejection (Error ''mkdir'')
   \<and> fst (resolveNLSConfiguration (sample_host RejectedWhenAwaited) (sample_context ''fr-CA'')
          sample_files)
     = Returns (sample_default ''fr-CA'')
   \<and> fst (resolveNLSConfiguration (sample_host Fulfilled) (sample_context ''fr-CA'')
          files_without_keys)
     = Returns (sample_default ''fr-CA'')
   \<and> fst (resolveNLSConfiguration (sample_host Fulfilled) (sample_context ''fr-CA'')
          sample_files)
     = Returns sample_french"
proof -
  note s = sample_files_paths(1-4)
  note k = sample_files_paths(5-8)
  have "fst (resolveNLSConfiguration (sample_host RejectedBeforeAwaited)
      (sample_context ''fr-CA'') sample_files) = UnhandledRejection (Error ''mkdir'')"
    by (simp add: sample_resolve [OF s] sample_generate)
  moreover have "fst (resolveNLSConfiguration (sample_host RejectedWhenAwaited)
      (sample_context ''fr-CA'') sample_files) = Returns (sample_default ''fr-CA'')"
    by (simp add: sample_resolve [OF s] sample_generate)
  moreover have "fst (resolveNLSConfiguration (sample_host Fulfilled)
      (sample_context ''fr-CA'') files_without_keys) = Returns (sample_default ''fr-CA'')"
    by (simp add: sample_resolve [OF k] sample_generate)
  moreover have "fst (resolveNLSConfiguration (sample_host Fulfilled)
      (sample_context ''fr-CA'') sample_files) = Returns sample_french"
    by (simp add: sample_resolve [OF s] sample_generate)
  ultimately show ?thesis by (intro conjI)
qed

text \<open>The failing run is past the early return, and it does not give the default
  configuration.\<close>

theorem cache_folder_failure_unhandled_witness:
  "\<not> returnsEarly (sample_host RejectedBeforeAwaited) (sample_context ''fr-CA'')
   \<and> fst (resolveNLSConfiguration (sample_host RejectedBeforeAwaited) (sample_context ''fr-CA'')
          sample_files)
     \<noteq> Returns (sample_default ''fr-CA'')"
  using cache_folder_failure_unhandled sample_late [of RejectedBeforeAwaited] by simp

section \<open>Properties of JSON and of the multi-diff source URI\<close>

subsection \<open>A quoted string is parsed back\<close>

lemma unat_small: "n < 65536 \<Longrightarrow> unat (of_nat n :: 16 word) = n"
  by (simp add: unat_of_nat)

lemma unat_hexDigit: "d < 16 \<Longrightarrow> unat (hexDigit d) = (if d < 10 then 48 + d else 87 + d)"
proof -
  assume "d < 16"
  then have "48 + d < 65536" and "87 + d < 65536" by simp_all
  then have "unat (of_nat (48 + d) :: 16 word) = 48 + d"
    and "unat (of_nat (87 + d) :: 16 word) = 87 + d"
    by (simp_all only: unat_small)
  then show ?thesis
    by (cases "d < 10") (simp_all only: hexDigit_def if_True if_False)
qed

lemma hexValue_hexDigit: "d < 16 \<Longrightarrow> hexValue (hexDigit d) = Some d"
  by (simp add: hexValue_def unat_hexDigit Let_def)

lemma decode_unicodeEscape:
  "decodeHex4 (hexDigit (unat c div 4096)) (hexDigit (unat c div 256 mod 16))
     (hexDigit (unat c div 16 mod 16)) (hexDigit (unat c mod 16)) = Some (c :: 16 word)"
proof -
  have n: "unat c < 65536" using unsigned_less [of c] by simp
  then have d: "unat c div 4096 < 16" by simp
  have q: "unat c div 256 = unat c div 16 div 16" "unat c div 4096 = unat c div 16 div 16 div 16"
    by (simp_all add: div_mult2_eq)
  have "((unat c div 4096 * 16 + unat c div 256 mod 16) * 16 + unat c div 16 mod 16) * 16
      + unat c mod 16 = unat c"
    by (simp only: q div_mult_mod_eq)
  then have "(of_nat (((unat c div 4096 * 16 + unat c div 256 mod 16) * 16
      + unat c div 16 mod 16) * 16 + unat c mod 16) :: 16 word) = of_nat (unat c)"
    by (rule arg_cong)
  also have "(of_nat (unat c) :: 16 word) = c" by simp
  finally have "(of_nat (((unat c div 4096 * 16 + unat c div 256 mod 16) * 16
      + unat c div 16 mod 16) * 16 + unat c mod 16) :: 16 word) = c" .
  then show ?thesis
    using d by (simp only: decodeHex4_def hexValue_hexDigit mod_less_divisor
        zero_less_numeral prod.case option.case)
qed

lemma parse_end: "parseStringBody (0x22 # rest) = Some ([], rest)"
  by simp

lemma parse_simple_escape:
  "simpleEscape e = Some u \<Longrightarrow> e \<noteq> 0x75 \<Longrightarrow>
   parseStringBody (0x5C # e # t) = consChar u (parseStringBody t)"
  by simp

lemma parse_unicode_escape:
  "decodeHex4 h1 h2 h3 h4 = Some u \<Longrightarrow>
   parseStringBody (0x5C # 0x75 # h1 # h2 # h3 # h4 # t) = consChar u (parseStringBody t)"
  by simp

lemma parse_literal_unit:
  "c \<noteq> 0x22 \<Longrightarrow> c \<noteq> 0x5C \<Longrightarrow> \<not> c < 0x20 \<Longrightarrow>
   parseStringBody (c # t) = consChar c (parseStringBody t)"
  by simp

lemma parse_unicodeEscape:
  "parseStringBody (unicodeEscape c @ t) = consChar c (parseStringBody t)"
  using parse_unicode_escape [OF decode_unicodeEscape, of c t]
  by (simp only: unicodeEscape_def Let_def append_Cons append_Nil)

lemma parse_quoteUnit: "parseStringBody (quoteUnit c @ t) = consChar c (parseStringBody t)"
proof -
  consider "c = 0x08" | "c = 0x09" | "c = 0x0A" | "c = 0x0C" | "c = 0x0D" | "c = 0x22"
    | "c = 0x5C"
    | "c \<noteq> 0x08" "c \<noteq> 0x09" "c \<noteq> 0x0A" "c \<noteq> 0x0C" "c \<noteq> 0x0D" "c \<noteq> 0x22" "c \<noteq> 0x5C"
      "c < 0x20 \<or> isHighSurrogate c \<or> isLowSurrogate c"
    | "c \<noteq> 0x08" "c \<noteq> 0x09" "c \<noteq> 0x0A" "c \<noteq> 0x0C" "c \<noteq> 0x0D" "c \<noteq> 0x22" "c \<noteq> 0x5C"
      "\<not> (c < 0x20 \<or> isHighSurrogate c \<or> isLowSurrogate c)"
    by blast
  then show ?thesis
  proof cases
    case 1
    then show ?thesis
      using parse_simple_escape [of "0x62" "0x08" t] by (simp add: quoteUnit_def simpleEscape_def)
  next
    case 2
    then show ?thesis
      using parse_simple_escape [of "0x74" "0x09" t] by (simp add: quoteUnit_def simpleEscape_def)
  next
    case 3
    then show ?thesis
      using parse_simple_escape [of "0x6E" "0x0A" t] by (simp add: quoteUnit_def simpleEscape_def)
  next
    case 4
    then show ?thesis
      using parse_simple_escape [of "0x66" "0x0C" t] by (simp add: quoteUnit_def simpleEscape_def)
  next
    case 5
    then show ?thesis
      using parse_simple_escape [of "0x72" "0x0D" t] by (simp add: quoteUnit_def simpleEscape_def)
  next
    case 6
    then show ?thesis
      using parse_simple_escape [of "0x22" "0x22" t] by (simp add: quoteUnit_def simpleEscape_def)
  next
    case 7
    then show ?thesis
      using parse_simple_escape [of "0x5C" "0x5C" t] by (simp add: quoteUnit_def simpleEscape_def)
  next
    case 8
    then have "quoteUnit c = unicodeEscape c" by (simp only: quoteUnit_def if_False if_True)
    then show ?thesis by (simp only: parse_unicodeEscape)
  next
    case 9
    then have "quoteUnit c = [c]" by (simp only: quoteUnit_def if_False)
    moreover have "\<not> c < 0x20" using 9 by blast
    ultimately show ?thesis
      using 9(6,7) by (simp add: parse_literal_unit del: parseStringBody.simps)
  qed
qed

lemma surrogate_literal:
  assumes "isHighSurrogate c \<or> isLowSurrogate c"
  shows "parseStringBody (c # t) = consChar c (parseStringBody t)"
proof -
  have h: "0xD800 \<le> c"
  proof (cases "isHighSurrogate c")
    case True
    then show ?thesis by (simp add: isHighSurrogate_def)
  next
    case False
    with assms have "0xDC00 \<le> c" by (simp add: isLowSurrogate_def)
    moreover have "(0xD800 :: 16 word) \<le> 0xDC00" by simp
    ultimately show ?thesis by (rule order_trans [rotated])
  qed
  have "c \<noteq> 0x22"
  proof
    assume "c = 0x22"
    with h have "(0xD800 :: 16 word) \<le> 0x22" by simp
    then show False by simp
  qed
  moreover have "c \<noteq> 0x5C"
  proof
    assume "c = 0x5C"
    with h have "(0xD800 :: 16 word) \<le> 0x5C" by simp
    then show False by simp
  qed
  moreover have "\<not> c < 0x20"
  proof
    assume "c < 0x20"
    with h have "(0xD800 :: 16 word) < 0x20" by (rule le_less_trans)
    then show False by simp
  qed
  ultimately have "c \<noteq> 0x22" "c \<noteq> 0x5C" "\<not> c < 0x20" by blast+
  then show ?thesis by (rule parse_literal_unit)
qed

lemma parse_quoteChars: "parseStringBody (quoteChars s @ 0x22 # rest) = Some (s, rest)"
proof (induction s rule: quoteChars.induct)
  case 1
  show ?case by simp
next
  case (2 c)
  show ?case
    by (simp add: parse_quoteUnit parse_end consChar_def del: parseStringBody.simps)
next
  case (3 c d cs)
  show ?case
  proof (cases "isHighSurrogate c \<and> isLowSurrogate d")
    case True
    with 3 show ?thesis
      by (simp add: surrogate_literal consChar_def del: parseStringBody.simps)
  next
    case False
    with 3 show ?thesis
      by (auto simp add: parse_quoteUnit consChar_def simp del: parseStringBody.simps)
  qed
qed

subsection \<open>The two fields are parsed back\<close>

lemma ascii_punctuation:
  "ascii ''{'' = [0x7B]" "ascii ''}'' = [0x7D]" "ascii '':'' = [0x3A]" "ascii '','' = [0x2C]"
  by (simp_all add: ascii_def)

lemma stringifyUriFields_form:
  "stringifyUriFields r g =
     0x7B # 0x22 # quoteChars (ascii ''repositoryUri'') @ 0x22 # 0x3A # 0x22 # quoteChars r
       @ 0x22 # 0x2C # 0x22 # quoteChars (ascii ''groupId'') @ 0x22 # 0x3A # 0x22
       # quoteChars g @ 0x22 # [0x7D]"
  by (simp only: stringifyUriFields_def QuoteJSONString_def ascii_punctuation
      append_Cons append_Nil append_assoc)

lemma parseValue_quoted:
  "parseValue (Suc k) (0x22 # quoteChars s @ 0x22 # rest) = Some (JString s, rest)"
  by (simp add: parse_quoteChars del: parseStringBody.simps)

lemma parseMembers_last:
  "parseMembers (Suc (Suc k)) (0x22 # quoteChars n @ 0x22 # 0x3A # 0x22 # quoteChars s
       @ 0x22 # [0x7D]) acc = Some (acc @ [(n, JString s)], [])"
  by (simp add: parse_quoteChars parseValue_quoted isWhiteSpace_def
      del: parseStringBody.simps parseValue.simps)

lemma parseMembers_two:
  "parseMembers (Suc (Suc (Suc k))) (0x22 # quoteChars n1 @ 0x22 # 0x3A # 0x22 # quoteChars r
       @ 0x22 # 0x2C # 0x22 # quoteChars n2 @ 0x22 # 0x3A # 0x22 # quoteChars g
       @ 0x22 # [0x7D]) [] = Some ([(n1, JString r), (n2, JString g)], [])"
  by (simp add: parse_quoteChars parseValue_quoted parseMembers_last isWhiteSpace_def
      del: parseStringBody.simps parseValue.simps)

lemma parseValue_two_members:
  "parseValue (Suc (Suc (Suc (Suc k)))) (0x7B # 0x22 # quoteChars n1 @ 0x22 # 0x3A # 0x22
       # quoteChars r @ 0x22 # 0x2C # 0x22 # quoteChars n2 @ 0x22 # 0x3A # 0x22 # quoteChars g
       @ 0x22 # [0x7D]) = Some (JObject [(n1, JString r), (n2, JString g)], [])"
  by (simp add: parseMembers_two isWhiteSpace_def
      del: parseStringBody.simps parseMembers.simps)

lemma parse_stringifyUriFields:
  "JSON_parse (stringifyUriFields r g) =
     Some (JObject [(ascii ''repositoryUri'', JString r), (ascii ''groupId'', JString g)])"
proof -
  have "3 \<le> length (stringifyUriFields r g)"
    by (simp add: stringifyUriFields_form)
  then obtain m where "length (stringifyUriFields r g) = 3 + m"
    using le_Suc_ex by blast
  then have l: "Suc (length (stringifyUriFields r g)) = Suc (Suc (Suc (Suc m)))"
    by simp
  have s: "skipWhiteSpace (stringifyUriFields r g) = stringifyUriFields r g"
    by (simp add: stringifyUriFields_form isWhiteSpace_def)
  have "parseValue (Suc (length (stringifyUriFields r g))) (stringifyUriFields r g) =
      Some (JObject [(ascii ''repositoryUri'', JString r), (ascii ''groupId'', JString g)], [])"
    unfolding l by (simp only: stringifyUriFields_form parseValue_two_members)
  then show ?thesis
    by (simp add: JSON_parse_def s)
qed

lemma uriFields_properties:
  "getProperty [(ascii ''repositoryUri'', JString r), (ascii ''groupId'', JString g)]
     ''repositoryUri'' = Some (JString r)"
  "getProperty [(ascii ''repositoryUri'', JString r), (ascii ''groupId'', JString g)]
     ''groupId'' = Some (JString g)"
  by (simp_all add: getProperty_def ascii_def)

subsection \<open>The claim\<close>

lemma parseUri_getMultiDiffSourceUri:
  "parseUri parse (getMultiDiffSourceUri r g) =
     (case parse r of Inl e \<Rightarrow> Inl e | Inr parsed \<Rightarrow> Inr (Some (parsed, g)))"
  by (simp add: parseUri_def getMultiDiffSourceUri_def URI_from_def parse_stringifyUriFields
      uriFields_properties)

lemma canHandleUri_fields:
  "canHandleUri parse u \<noteq> Inr False \<Longrightarrow>
   scheme u = multiDiffScheme \<and> (\<exists>q. JSON_parse (query u) = Some q \<and> spec_isUriFields q)"
  by (auto simp add: canHandleUri_def parseUri_def spec_isUriFields_def
      split: if_splits option.splits json.splits sum.splits)

text \<open>
  C8.  For every pair of strings \<open>r\<close> (the repository URI) and \<open>g\<close> (the group id), the URI
  made by \<open>getMultiDiffSourceUri\<close> has the scheme \<open>scm-multi-diff-source\<close> and a query that
  is the JSON text of the object with the two fields.  When \<open>URI.parse\<close> does not throw on
  \<open>r\<close> and returns \<open>v\<close>, \<open>parseUri\<close> gives back \<open>v\<close> and \<open>g\<close> for that URI and
  \<open>canHandleUri\<close> returns true on it.  Conversely \<open>canHandleUri\<close> returns false for every
  URI \<open>u\<close> of another scheme, every URI whose query is not JSON, and every URI whose query
  is JSON but not an object with string fields \<open>repositoryUri\<close> and \<open>groupId\<close>.
\<close>

theorem multi_diff_source_uri:
  "scheme (getMultiDiffSourceUri r g) = ascii ''scm-multi-diff-source'' \<and>
   JSON_parse (query (getMultiDiffSourceUri r g)) =
     Some (JObject [(ascii ''repositoryUri'', JString r), (ascii ''groupId'', JString g)]) \<and>
   (\<forall>v. parse r = Inr v \<longrightarrow>
      parseUri parse (getMultiDiffSourceUri r g) = Inr (Some (v, g)) \<and>
      canHandleUri parse (getMultiDiffSourceUri r g) = Inr True) \<and>
   (scheme u \<noteq> ascii ''scm-multi-diff-source'' \<longrightarrow> canHandleUri parse u = Inr False) \<and>
   (JSON_parse (query u) = None \<longrightarrow> canHandleUri parse u = Inr False) \<and>
   (\<forall>q. JSON_parse (query u) = Some q \<and> \<not> spec_isUriFields q \<longrightarrow>
      canHandleUri parse u = Inr False)"
proof (intro conjI)
  show "scheme (getMultiDiffSourceUri r g) = ascii ''scm-multi-diff-source''"
    by (simp add: getMultiDiffSourceUri_def URI_from_def multiDiffScheme_def)
  show "JSON_parse (query (getMultiDiffSourceUri r g)) =
     Some (JObject [(ascii ''repositoryUri'', JString r), (ascii ''groupId'', JString g)])"
    by (simp add: getMultiDiffSourceUri_def URI_from_def parse_stringifyUriFields)
  show "\<forall>v. parse r = Inr v \<longrightarrow>
      parseUri parse (getMultiDiffSourceUri r g) = Inr (Some (v, g)) \<and>
      canHandleUri parse (getMultiDiffSourceUri r g) = Inr True"
    by (simp add: canHandleUri_def parseUri_getMultiDiffSourceUri)
  show "scheme u \<noteq> ascii ''scm-multi-diff-source'' \<longrightarrow> canHandleUri parse u = Inr False"
    using canHandleUri_fields [of parse u]
    by (cases "canHandleUri parse u = Inr False") (auto simp add: multiDiffScheme_def)
  show "JSON_parse (query u) = None \<longrightarrow> canHandleUri parse u = Inr False"
    using canHandleUri_fields [of parse u]
    by (cases "canHandleUri parse u = Inr False") auto
  show "\<forall>q. JSON_parse (query u) = Some q \<and> \<not> spec_isUriFields q \<longrightarrow>
      canHandleUri parse u = Inr False"
    using canHandleUri_fields [of parse u]
    by (cases "canHandleUri parse u = Inr False") auto
qed

theorem multi_diff_source_uri_witness:
  "URI_parse Inr (ascii ''file:///r'') = Inr (ascii ''file:///r'') \<and>
   parseUri (URI_parse Inr) (getMultiDiffSourceUri (ascii ''file:///r'') (ascii ''g'')) =
     Inr (Some (ascii ''file:///r'', ascii ''g'')) \<and>
   canHandleUri (URI_parse Inr) (getMultiDiffSourceUri (ascii ''file:///r'') (ascii ''g'')) =
     Inr True \<and>
   canHandleUri (URI_parse Inr)
     (URI_from (ascii ''file'') (stringifyUriFields (ascii ''file:///r'') (ascii ''g''))) =
     Inr False \<and>
   canHandleUri (URI_parse Inr) (URI_from multiDiffScheme (ascii ''{'')) = Inr False \<and>
   canHandleUri (URI_parse Inr) (URI_from multiDiffScheme (ascii ''[]'')) = Inr False"
proof -
  let ?p = "URI_parse Inr :: jsstring \<Rightarrow> js_error + jsstring"
  let ?u1 = "URI_from (ascii ''file'') (stringifyUriFields (ascii ''file:///r'') (ascii ''g''))"
  let ?u2 = "URI_from multiDiffScheme (ascii ''{'')"
  let ?u3 = "URI_from multiDiffScheme (ascii ''[]'')"
  have h0: "?p (ascii ''file:///r'') = Inr (ascii ''file:///r'')"
    by (simp add: URI_parse_def schemeOf_def schemePattern_def isWordChar_def isSchemeChar_def
        ascii_def)
  have h1: "scheme ?u1 \<noteq> ascii ''scm-multi-diff-source''"
    by (simp add: URI_from_def ascii_def)
  have h2: "JSON_parse (query ?u2) = None"
    by (simp add: URI_from_def JSON_parse_def ascii_def isWhiteSpace_def)
  have h3: "JSON_parse (query ?u3) = Some (JArray []) \<and> \<not> spec_isUriFields (JArray [])"
    by (simp add: URI_from_def JSON_parse_def ascii_def isWhiteSpace_def spec_isUriFields_def)
  note t = multi_diff_source_uri [where parse = ?p and r = "ascii ''file:///r''"
      and g = "ascii ''g''"]
  have "parseUri ?p (getMultiDiffSourceUri (ascii ''file:///r'') (ascii ''g'')) =
     Inr (Some (ascii ''file:///r'', ascii ''g''))"
    using t [where u = ?u1] h0 by blast
  moreover have "canHandleUri ?p (getMultiDiffSourceUri (ascii ''file:///r'') (ascii ''g'')) =
     Inr True"
    using t [where u = ?u1] h0 by blast
  moreover have "canHandleUri ?p ?u1 = Inr False"
    using t [where u = ?u1] h1 by blast
  moreover have "canHandleUri ?p ?u2 = Inr False"
    using t [where u = ?u2] h2 by blast
  moreover have "canHandleUri ?p ?u3 = Inr False"
    using t [where u = ?u3] h3 by blast
  ultimately show ?thesis using h0 by blast
qed

text \<open>
  The claim as it is written fails for a repository string that \<open>URI.parse\<close> refuses:
  \<open>a b:c\<close> has the scheme \<open>a b\<close>, which has a space.  \<open>getMultiDiffSourceUri\<close> makes a URI
  from it, and both \<open>parseUri\<close> and \<open>canHandleUri\<close> throw on that URI: \<open>canHandleUri\<close>
  does not return true.
\<close>

theorem multi_diff_source_uri_counterexample:
  "parseUri (URI_parse Inr) (getMultiDiffSourceUri (ascii ''a b:c'') (ascii ''g'')) =
     Inl (Error ''[UriError]: Scheme contains illegal characters.'') \<and>
   canHandleUri (URI_parse Inr) (getMultiDiffSourceUri (ascii ''a b:c'') (ascii ''g'')) =
     Inl (Error ''[UriError]: Scheme contains illegal characters.'') \<and>
   canHandleUri (URI_parse Inr) (getMultiDiffSourceUri (ascii ''a b:c'') (ascii ''g'')) \<noteq>
     Inr True"
proof -
  have "URI_parse Inr (ascii ''a b:c'') =
      (Inl (Error ''[UriError]: Scheme contains illegal characters.'') :: js_error + jsstring)"
    by (simp add: URI_parse_def schemeOf_def schemePattern_def isWordChar_def isSchemeChar_def
        ascii_def)
  then show ?thesis
    by (simp add: canHandleUri_def parseUri_getMultiDiffSourceUri)
qed

end
